theory Spec2Isabelle
  imports Main
begin

section \<open>JavaScript values, strings and errors\<close>

text \<open>
  The services exchange JSON with the remote API. The source types every response as
  \<^verbatim>\<open>any\<close> and reads it with property access, optional chaining and truthiness tests,
  so a response body is a dynamically typed value. Strings are byte lists holding UTF-8;
  numbers are integers (no code path below distinguishes a fraction from a non-zero
  integer).
\<close>

datatype jsval =
    JUndefined
  | JNull
  | JBool bool
  | JNum int
  | JStr string
  | JArr "jsval list"
  | JObj "(string \<times> jsval) list"

text \<open>
  What the source throws or what a transport rejects with. \<open>AxiosError\<close> is the rejection
  of a request by the HTTP transport (non-2xx answer, network failure); the other
  constructors are the exception classes the source constructs, and \<open>TypeError\<close> is what
  the engine raises on a property read of \<^verbatim>\<open>undefined\<close>/\<^verbatim>\<open>null\<close> or on a call of a
  non-function. Each carries its \<^verbatim>\<open>message\<close>.
\<close>

datatype js_error =
    AxiosError string
  | TypeError string
  | PlainError string
  | BadRequestException string
  | NotFoundException string
  | UnauthorizedException string

fun error_message :: "js_error \<Rightarrow> string" where
  "error_message (AxiosError m) = m"
| "error_message (TypeError m) = m"
| "error_message (PlainError m) = m"
| "error_message (BadRequestException m) = m"
| "error_message (NotFoundException m) = m"
| "error_message (UnauthorizedException m) = m"

text \<open>\<^verbatim>\<open>if (v)\<close>: the falsy JSON values are undefined, null, false, 0 and the empty string.\<close>

fun truthy :: "jsval \<Rightarrow> bool" where
  "truthy JUndefined = False"
| "truthy JNull = False"
| "truthy (JBool b) = b"
| "truthy (JNum n) = (n \<noteq> 0)"
| "truthy (JStr s) = (s \<noteq> [])"
| "truthy (JArr xs) = True"
| "truthy (JObj kvs) = True"

definition quoted :: "string \<Rightarrow> string" where
  "quoted s = [CHR 0x27] @ s @ [CHR 0x27]"

text \<open>
  \<^verbatim>\<open>v.key\<close> for the keys the source reads (none of them is a property of a built-in
  prototype, so on a string, number, boolean or array the read gives undefined).
  The message of the TypeError is the engine's (V8 wording).
\<close>

fun js_prop :: "jsval \<Rightarrow> string \<Rightarrow> js_error + jsval" where
  "js_prop JUndefined k =
     Inl (TypeError (''Cannot read properties of undefined (reading '' @ quoted k @ '')''))"
| "js_prop JNull k =
     Inl (TypeError (''Cannot read properties of null (reading '' @ quoted k @ '')''))"
| "js_prop (JObj kvs) k = Inr (case map_of kvs k of None \<Rightarrow> JUndefined | Some v \<Rightarrow> v)"
| "js_prop v k = Inr JUndefined"

text \<open>\<^verbatim>\<open>v?.key\<close>: undefined when \<open>v\<close> is undefined or null.\<close>

fun js_opt_prop :: "jsval \<Rightarrow> string \<Rightarrow> jsval" where
  "js_opt_prop (JObj kvs) k = (case map_of kvs k of None \<Rightarrow> JUndefined | Some v \<Rightarrow> v)"
| "js_opt_prop v k = JUndefined"

text \<open>\<^verbatim>\<open>v[0]\<close>.\<close>

fun js_first :: "jsval \<Rightarrow> js_error + jsval" where
  "js_first JUndefined =
     Inl (TypeError (''Cannot read properties of undefined (reading '' @ quoted ''0'' @ '')''))"
| "js_first JNull =
     Inl (TypeError (''Cannot read properties of null (reading '' @ quoted ''0'' @ '')''))"
| "js_first (JArr []) = Inr JUndefined"
| "js_first (JArr (x # xs)) = Inr x"
| "js_first (JStr []) = Inr JUndefined"
| "js_first (JStr (c # cs)) = Inr (JStr [c])"
| "js_first (JObj kvs) = Inr (case map_of kvs ''0'' of None \<Rightarrow> JUndefined | Some v \<Rightarrow> v)"
| "js_first v = Inr JUndefined"

subsection \<open>String operations of the engine\<close>

fun starts_with :: "string \<Rightarrow> string \<Rightarrow> bool" where
  "starts_with [] s = True"
| "starts_with (p # ps) [] = False"
| "starts_with (p # ps) (c # cs) = (p = c \<and> starts_with ps cs)"

text \<open>\<^verbatim>\<open>s.includes(p)\<close> on a string: \<open>p\<close> occurs at some position of \<open>s\<close>.\<close>

fun str_includes :: "string \<Rightarrow> string \<Rightarrow> bool" where
  "str_includes [] p = (p = [])"
| "str_includes (c # cs) p = (starts_with p (c # cs) \<or> str_includes cs p)"

text \<open>\<^verbatim>\<open>xs.join(' ')\<close>.\<close>

fun join_space :: "string list \<Rightarrow> string" where
  "join_space [] = []"
| "join_space [x] = x"
| "join_space (x # y # ys) = x @ '' '' @ join_space (y # ys)"

definition hex_digit :: "nat \<Rightarrow> char" where
  "hex_digit n = ''0123456789ABCDEF'' ! (n mod 16)"

definition percent_byte :: "char \<Rightarrow> string" where
  "percent_byte c = [CHR ''%'', hex_digit (of_char c div 16), hex_digit (of_char c mod 16)]"

definition alphanumeric :: "char \<Rightarrow> bool" where
  "alphanumeric c \<longleftrightarrow>
     c \<in> set ''abcdefghijklmnopqrstuvwxyzABCDEFGHIJKLMNOPQRSTUVWXYZ0123456789''"

text \<open>
  \<^verbatim>\<open>encodeURIComponent\<close>: every UTF-8 byte is percent-encoded except the letters, the
  digits and \<^verbatim>\<open>- _ . ! ~ * ' ( )\<close>.
\<close>

definition uri_unreserved :: "char \<Rightarrow> bool" where
  "uri_unreserved c \<longleftrightarrow> alphanumeric c \<or> c \<in> set (''-_.!~*()'' @ [CHR 0x27])"

definition encodeURIComponent :: "string \<Rightarrow> string" where
  "encodeURIComponent s = concat (map (\<lambda>c. if uri_unreserved c then [c] else percent_byte c) s)"

text \<open>
  \<^verbatim>\<open>new URLSearchParams({...}).toString()\<close>: the form-urlencoded serialisation, each
  name and value with space as \<^verbatim>\<open>+\<close>, letters, digits and \<^verbatim>\<open>* - . _\<close> kept, every
  other byte percent-encoded; pairs \<^verbatim>\<open>name=value\<close> joined by \<^verbatim>\<open>&\<close>.
\<close>

definition form_encode :: "string \<Rightarrow> string" where
  "form_encode s = concat (map (\<lambda>c.
     if c = CHR '' '' then ''+''
     else if alphanumeric c \<or> c \<in> set ''*-._'' then [c]
     else percent_byte c) s)"

fun urlSearchParams_toString :: "(string \<times> string) list \<Rightarrow> string" where
  "urlSearchParams_toString [] = []"
| "urlSearchParams_toString [(k, v)] = form_encode k @ ''='' @ form_encode v"
| "urlSearchParams_toString ((k, v) # kv # kvs) =
     form_encode k @ ''='' @ form_encode v @ ''&'' @ urlSearchParams_toString (kv # kvs)"

section \<open>URN codec\<close>

text \<open>
  The three storage-facing methods (\<^verbatim>\<open>getSignedUploadUrl\<close>, \<^verbatim>\<open>completeUpload\<close>,
  \<^verbatim>\<open>uploadToStorage\<close>) each run
  \<^verbatim>\<open>objectId.match(/urn:adsk\.objects:os\.object:([^/]+)\/(.+)/)\<close>
  and destructure the two groups. The expression has no anchors, so \<^verbatim>\<open>match\<close> tries
  every start position from the left. At one position: the literal prefix, then
  \<^verbatim>\<open>[^/]+\<close> (greedy; the next character must be the slash, so the group is the maximal
  slash-free run and must be non-empty), the slash, then \<^verbatim>\<open>.+\<close> (greedy, nothing after
  it: the maximal non-empty run of characters that are not line terminators).
\<close>

definition urn_prefix :: string where
  "urn_prefix = ''urn:adsk.objects:os.object:''"

text \<open>
  The line terminators that \<^verbatim>\<open>.\<close> does not match: LF, CR, U+2028 and U+2029 (the last two
  are the UTF-8 byte sequences E2 80 A8 and E2 80 A9).
\<close>

definition line_terminator_at :: "string \<Rightarrow> bool" where
  "line_terminator_at s \<longleftrightarrow>
     starts_with [CHR 0x0A] s \<or> starts_with [CHR 0x0D] s \<or>
     starts_with [CHR 0xE2, CHR 0x80, CHR 0xA8] s \<or>
     starts_with [CHR 0xE2, CHR 0x80, CHR 0xA9] s"

fun dot_run :: "string \<Rightarrow> string" where
  "dot_run [] = []"
| "dot_run (c # cs) = (if line_terminator_at (c # cs) then [] else c # dot_run cs)"

fun strip_prefix :: "string \<Rightarrow> string \<Rightarrow> string option" where
  "strip_prefix [] s = Some s"
| "strip_prefix (p # ps) [] = None"
| "strip_prefix (p # ps) (c # cs) = (if p = c then strip_prefix ps cs else None)"

definition match_urn_at :: "string \<Rightarrow> (string \<times> string) option" where
  "match_urn_at s =
     (case strip_prefix urn_prefix s of
        None \<Rightarrow> None
      | Some rest \<Rightarrow>
          (let bucketKey = takeWhile (\<lambda>c. c \<noteq> CHR ''/'') rest in
           if bucketKey = [] then None
           else (case dropWhile (\<lambda>c. c \<noteq> CHR ''/'') rest of
                   [] \<Rightarrow> None
                 | slash # after \<Rightarrow>
                     (let objectKey = dot_run after in
                      if objectKey = [] then None else Some (bucketKey, objectKey)))))"

fun urn_match :: "string \<Rightarrow> (string \<times> string) option" where
  "urn_match [] = match_urn_at []"
| "urn_match (c # cs) =
     (case match_urn_at (c # cs) of Some groups \<Rightarrow> Some groups | None \<Rightarrow> urn_match cs)"

text \<open>
  \<^verbatim>\<open>objectId.match(...)\<close> on the value the caller passes: a non-string has no
  \<^verbatim>\<open>match\<close> function (TypeError); no match gives the BadRequestException.
\<close>

fun decode_object_id :: "jsval \<Rightarrow> js_error + (string \<times> string)" where
  "decode_object_id (JStr objectId) =
     (case urn_match objectId of
        None \<Rightarrow> Inl (BadRequestException ''Invalid object ID format'')
      | Some groups \<Rightarrow> Inr groups)"
| "decode_object_id JUndefined =
     Inl (TypeError (''Cannot read properties of undefined (reading '' @ quoted ''match'' @ '')''))"
| "decode_object_id JNull =
     Inl (TypeError (''Cannot read properties of null (reading '' @ quoted ''match'' @ '')''))"
| "decode_object_id v = Inl (TypeError ''objectId.match is not a function'')"

text \<open>\<^verbatim>\<open>arr.filter((item: any) => item.type === t)\<close>.\<close>

fun filter_items :: "string \<Rightarrow> jsval list \<Rightarrow> js_error + jsval list" where
  "filter_items t [] = Inr []"
| "filter_items t (item # rest) =
     (case js_prop item ''type'' of
        Inl e \<Rightarrow> Inl e
      | Inr ty \<Rightarrow>
          (case filter_items t rest of
             Inl e \<Rightarrow> Inl e
           | Inr kept \<Rightarrow> Inr (if ty = JStr t then item # kept else kept)))"

fun filter_by_type :: "jsval \<Rightarrow> string \<Rightarrow> js_error + jsval list" where
  "filter_by_type (JArr xs) t = filter_items t xs"
| "filter_by_type JUndefined t =
     Inl (TypeError (''Cannot read properties of undefined (reading '' @ quoted ''filter'' @ '')''))"
| "filter_by_type JNull t =
     Inl (TypeError (''Cannot read properties of null (reading '' @ quoted ''filter'' @ '')''))"
| "filter_by_type v t = Inl (TypeError ''response.data.data.filter is not a function'')"

text \<open>
  \<^verbatim>\<open>parentType.includes(marker)\<close> on a truthy value: substring search on a string,
  membership on an array, and no such function on anything else.
\<close>

fun js_includes :: "jsval \<Rightarrow> string \<Rightarrow> js_error + bool" where
  "js_includes (JStr s) marker = Inr (str_includes s marker)"
| "js_includes (JArr xs) marker = Inr (JStr marker \<in> set xs)"
| "js_includes v marker = Inl (TypeError ''parentType.includes is not a function'')"

section \<open>Transport, clock and service state\<close>

text \<open>
  Three HTTP clients appear in the source: the auth service's \<^verbatim>\<open>httpClient\<close> (base URL
  the authorization endpoint, form content type), the data-management service's
  \<^verbatim>\<open>httpClient\<close> (whose request interceptor fetches the access token and sets the
  \<^verbatim>\<open>Authorization\<close> header), and the global \<^verbatim>\<open>axios\<close> object, which has no
  interceptor.
\<close>

datatype http_client = AuthClient | DataClient | GlobalAxios

datatype http_method = GET | POST | PUT | DELETE

datatype http_body = NoBody | TextBody string | JsonBody jsval | BufferBody string

record http_request =
  client :: http_client
  verb :: http_method
  url :: jsval
  params :: "(string \<times> jsval) list"
  headers :: "(string \<times> jsval) list"
  body :: http_body

text \<open>The interfaces of \<^verbatim>\<open>auth.interface.ts\<close> and \<^verbatim>\<open>module-options.interface.ts\<close>.\<close>

record token_response =
  access_token :: string
  token_type :: string
  expires_in :: int
  refresh_token :: "string option"

record auth_context =
  accessToken :: string
  expiresAt :: int
  refreshToken :: "string option"

record module_options =
  clientId :: string
  clientSecret :: string
  callbackUrl :: "string option"
  scopes :: "string list option"
  isGlobal :: "bool option"
  baseUrl :: "string option"

text \<open>
  The outside world is a parameter: \<open>'w\<close> is its state, \<open>date_now\<close> is \<^verbatim>\<open>Date.now()\<close> in
  milliseconds, \<open>token_endpoint\<close> answers a request of the auth client with a rejection
  or the body of the token response, and \<open>transport\<close> answers every other request with a
  rejection or the response body (\<^verbatim>\<open>response.data\<close>). Nothing is assumed about them.
\<close>

record 'w env =
  options :: module_options
  date_now :: "'w \<Rightarrow> int"
  token_endpoint :: "'w \<Rightarrow> http_request \<Rightarrow> (js_error + token_response) \<times> 'w"
  transport :: "'w \<Rightarrow> http_request \<Rightarrow> (js_error + jsval) \<times> 'w"

text \<open>
  \<open>authContext\<close> is the private field of the auth service (\<^verbatim>\<open>null\<close> is \<open>None\<close>);
  \<open>trace\<close> records every request handed to a transport, in order.
\<close>

record 'w state =
  authContext :: "auth_context option"
  world :: 'w
  trace :: "http_request list"

type_synonym ('a, 'w) prog = "'w state \<Rightarrow> (js_error + 'a) \<times> 'w state"

definition return_prog :: "'a \<Rightarrow> ('a, 'w) prog" where
  "return_prog x s = (Inr x, s)"

definition throw_prog :: "js_error \<Rightarrow> ('a, 'w) prog" where
  "throw_prog e s = (Inl e, s)"

definition lift_prog :: "js_error + 'a \<Rightarrow> ('a, 'w) prog" where
  "lift_prog r s = (r, s)"

definition bind_prog :: "('a, 'w) prog \<Rightarrow> ('a \<Rightarrow> ('b, 'w) prog) \<Rightarrow> ('b, 'w) prog" where
  "bind_prog m f s = (case m s of (Inl e, s1) \<Rightarrow> (Inl e, s1) | (Inr x, s1) \<Rightarrow> f x s1)"

definition catch_prog :: "('a, 'w) prog \<Rightarrow> (js_error \<Rightarrow> ('a, 'w) prog) \<Rightarrow> ('a, 'w) prog" where
  "catch_prog m h s = (case m s of (Inl e, s1) \<Rightarrow> h e s1 | (Inr x, s1) \<Rightarrow> (Inr x, s1))"

definition send_token_request :: "'w env \<Rightarrow> http_request \<Rightarrow> (token_response, 'w) prog" where
  "send_token_request env request s =
     (case token_endpoint env (world s) request of
        (result, w) \<Rightarrow> (result, s\<lparr>world := w, trace := trace s @ [request]\<rparr>))"

definition send_request :: "'w env \<Rightarrow> http_request \<Rightarrow> (jsval, 'w) prog" where
  "send_request env request s =
     (case transport env (world s) request of
        (result, w) \<Rightarrow> (result, s\<lparr>world := w, trace := trace s @ [request]\<rparr>))"

section \<open>AutodeskAuthService\<close>

text \<open>\<^verbatim>\<open>this.httpClient.post<AutodeskTokenResponse>('', params.toString())\<close>.\<close>

definition token_request :: "(string \<times> string) list \<Rightarrow> http_request" where
  "token_request entries =
     \<lparr>client = AuthClient, verb = POST, url = JStr [], params = [],
      headers = [(''Content-Type'', JStr ''application/x-www-form-urlencoded'')],
      body = TextBody (urlSearchParams_toString entries)\<rparr>"

definition auth_post :: "'w env \<Rightarrow> (string \<times> string) list \<Rightarrow> (token_response, 'w) prog" where
  "auth_post env entries = send_token_request env (token_request entries)"

definition isTokenValid :: "'w env \<Rightarrow> 'w state \<Rightarrow> bool" where
  "isTokenValid env s =
     (case authContext s of
        None \<Rightarrow> False
      | Some ctx \<Rightarrow> date_now env (world s) < expiresAt ctx - 300000)"

definition client_credentials_entries :: "module_options \<Rightarrow> (string \<times> string) list" where
  "client_credentials_entries opts =
     (let scopes = (case scopes opts of
                      None \<Rightarrow> [''data:read'', ''data:write'', ''data:create'',
                                ''bucket:read'', ''bucket:create'']
                    | Some configured \<Rightarrow> configured)
      in [(''client_id'', clientId opts),
          (''client_secret'', clientSecret opts),
          (''grant_type'', ''client_credentials''),
          (''scope'', join_space scopes)])"

text \<open>
  \<^verbatim>\<open>authenticate\<close>: the cached token while it is valid, otherwise one client-credentials
  grant; the context is built with \<^verbatim>\<open>Date.now()\<close> read after the response arrived and
  assigned to the field as one object. Anything thrown inside becomes the
  UnauthorizedException.
\<close>

definition authenticate :: "'w env \<Rightarrow> (string, 'w) prog" where
  "authenticate env s =
     (case (if isTokenValid env s then authContext s else None) of
        Some ctx \<Rightarrow> (Inr (accessToken ctx), s)
      | None \<Rightarrow>
          (case auth_post env (client_credentials_entries (options env)) s of
             (Inl error, s1) \<Rightarrow>
               (Inl (UnauthorizedException ''Failed to authenticate with Autodesk ACC''), s1)
           | (Inr data, s1) \<Rightarrow>
               (let ctx = \<lparr>accessToken = access_token data,
                          expiresAt = date_now env (world s1) + expires_in data * 1000,
                          refreshToken = refresh_token data\<rparr>
                in (Inr (accessToken ctx), s1\<lparr>authContext := Some ctx\<rparr>))))"

definition getAccessToken :: "'w env \<Rightarrow> (string, 'w) prog" where
  "getAccessToken env = authenticate env"

definition clearAuth :: "'w state \<Rightarrow> 'w state" where
  "clearAuth s = s\<lparr>authContext := None\<rparr>"

text \<open>
  \<^verbatim>\<open>getAuthorizationUrl(state?)\<close> is synchronous and reads only the options;
  \<^verbatim>\<open>if (state)\<close> skips an absent or empty state.
\<close>

definition getAuthorizationUrl :: "'w env \<Rightarrow> string option \<Rightarrow> (string, 'w) prog" where
  "getAuthorizationUrl env state_arg s =
     (let scopes = (case scopes (options env) of
                      None \<Rightarrow> [''data:read'', ''data:write'', ''data:create'']
                    | Some configured \<Rightarrow> configured);
          entries = [(''response_type'', ''code''),
                     (''client_id'', clientId (options env)),
                     (''redirect_uri'',
                        (case callbackUrl (options env) of None \<Rightarrow> [] | Some u \<Rightarrow> u)),
                     (''scope'', join_space scopes)]
                    @ (case state_arg of
                         None \<Rightarrow> []
                       | Some st \<Rightarrow> if st = [] then [] else [(''state'', st)])
      in (Inr (''https://developer.api.autodesk.com/authentication/v2/authorize?''
               @ urlSearchParams_toString entries), s))"

definition authorization_code_entries :: "module_options \<Rightarrow> string \<Rightarrow> (string \<times> string) list" where
  "authorization_code_entries opts code =
     [(''client_id'', clientId opts),
      (''client_secret'', clientSecret opts),
      (''grant_type'', ''authorization_code''),
      (''code'', code),
      (''redirect_uri'', (case callbackUrl opts of None \<Rightarrow> [] | Some u \<Rightarrow> u))]"

definition getAccessTokenFromCode :: "'w env \<Rightarrow> string \<Rightarrow> (auth_context, 'w) prog" where
  "getAccessTokenFromCode env code s =
     (case auth_post env (authorization_code_entries (options env) code) s of
        (Inl error, s1) \<Rightarrow>
          (Inl (UnauthorizedException ''Failed to exchange authorization code''), s1)
      | (Inr data, s1) \<Rightarrow>
          (Inr \<lparr>accessToken = access_token data,
                expiresAt = date_now env (world s1) + expires_in data * 1000,
                refreshToken = refresh_token data\<rparr>, s1))"

text \<open>
  \<^verbatim>\<open>refreshToken: response.data.refresh_token || refreshToken\<close>: an absent and an empty
  \<^verbatim>\<open>refresh_token\<close> are both falsy, and then the argument is kept.
\<close>

definition refresh_entries :: "module_options \<Rightarrow> string \<Rightarrow> (string \<times> string) list" where
  "refresh_entries opts refreshTokenArg =
     [(''client_id'', clientId opts),
      (''client_secret'', clientSecret opts),
      (''grant_type'', ''refresh_token''),
      (''refresh_token'', refreshTokenArg)]"

definition refreshAccessToken :: "'w env \<Rightarrow> string \<Rightarrow> (auth_context, 'w) prog" where
  "refreshAccessToken env refreshTokenArg s =
     (case auth_post env (refresh_entries (options env) refreshTokenArg) s of
        (Inl error, s1) \<Rightarrow> (Inl (UnauthorizedException ''Failed to refresh access token''), s1)
      | (Inr data, s1) \<Rightarrow>
          (Inr \<lparr>accessToken = access_token data,
                expiresAt = date_now env (world s1) + expires_in data * 1000,
                refreshToken =
                  (case refresh_token data of
                     None \<Rightarrow> Some refreshTokenArg
                   | Some t \<Rightarrow> if t = [] then Some refreshTokenArg else Some t)\<rparr>, s1))"

section \<open>AutodeskDataManagementService\<close>

text \<open>
  The model follows the last revision of the class in the source (the one that
  \<^verbatim>\<open>completeUpload(objectId, uploadKey)\<close> belongs to). Logging is left out.
\<close>

text \<open>\<^verbatim>\<open>config.headers.Authorization = ...\<close>: sets the header, replacing one already there.\<close>

definition set_header :: "string \<Rightarrow> jsval \<Rightarrow> (string \<times> jsval) list \<Rightarrow> (string \<times> jsval) list" where
  "set_header name v hs = filter (\<lambda>h. fst h \<noteq> name) hs @ [(name, v)]"

text \<open>
  A call on \<^verbatim>\<open>this.httpClient\<close>: the request interceptor awaits
  \<^verbatim>\<open>authService.getAccessToken()\<close> (a rejection there rejects the call, nothing is
  sent), sets the bearer header, and the request goes out.
\<close>

definition with_bearer :: "string \<Rightarrow> http_request \<Rightarrow> http_request" where
  "with_bearer token request =
     request\<lparr>headers := set_header ''Authorization'' (JStr (''Bearer '' @ token))
                           (headers request)\<rparr>"

definition data_request :: "'w env \<Rightarrow> http_request \<Rightarrow> (jsval, 'w) prog" where
  "data_request env request =
     bind_prog (getAccessToken env) (\<lambda>token. send_request env (with_bearer token request))"

definition folder_contents_request :: "string \<Rightarrow> string \<Rightarrow> http_request" where
  "folder_contents_request projectId folderId =
     \<lparr>client = DataClient, verb = GET,
      url = JStr (''/data/v1/projects/'' @ projectId @ ''/folders/'' @ folderId @ ''/contents''),
      params = [], headers = [], body = NoBody\<rparr>"

definition getFolderContents ::
  "'w env \<Rightarrow> string \<Rightarrow> string \<Rightarrow> (jsval list \<times> jsval list, 'w) prog" where
  "getFolderContents env projectId folderId =
     catch_prog
       (bind_prog (data_request env (folder_contents_request projectId folderId))
          (\<lambda>response_data.
        bind_prog (lift_prog (js_prop response_data ''data'')) (\<lambda>listing.
        bind_prog (lift_prog (filter_by_type listing ''folders'')) (\<lambda>folders.
        bind_prog (lift_prog (filter_by_type listing ''items'')) (\<lambda>items.
        return_prog (folders, items))))))
       (\<lambda>error. throw_prog (PlainError ''Failed to fetch folder contents''))"

definition folder_request :: "string \<Rightarrow> string \<Rightarrow> http_request" where
  "folder_request projectId folderId =
     \<lparr>client = DataClient, verb = GET,
      url = JStr (''/data/v1/projects/'' @ projectId @ ''/folders/'' @ folderId),
      params = [], headers = [], body = NoBody\<rparr>"

definition getFolder :: "'w env \<Rightarrow> string \<Rightarrow> string \<Rightarrow> (jsval, 'w) prog" where
  "getFolder env projectId folderId =
     catch_prog
       (bind_prog (data_request env (folder_request projectId folderId)) (\<lambda>response_data.
        lift_prog (js_prop response_data ''data'')))
       (\<lambda>error. throw_prog (NotFoundException (''Folder '' @ folderId @ '' not found'')))"

subsection \<open>Type selection from the parent folder\<close>

text \<open>
  \<^verbatim>\<open>createFolder\<close> and \<^verbatim>\<open>createFirstVersion\<close> carry the same block: start from the
  bim360 kind; if \<^verbatim>\<open>parentFolder.attributes?.extension?.type\<close> is truthy, test
  \<^verbatim>\<open>includes('bim360')\<close>, else \<^verbatim>\<open>includes('core')\<close>. \<open>select_kind\<close> is that block with
  the two outcomes as parameters; \<open>parent_extension_type\<close> is the optional chain.
\<close>

definition parent_extension_type :: "jsval \<Rightarrow> js_error + jsval" where
  "parent_extension_type parentFolder =
     (case js_prop parentFolder ''attributes'' of
        Inl e \<Rightarrow> Inl e
      | Inr attributes \<Rightarrow> Inr (js_opt_prop (js_opt_prop attributes ''extension'') ''type''))"

definition select_kind :: "'a \<Rightarrow> 'a \<Rightarrow> jsval \<Rightarrow> js_error + 'a" where
  "select_kind bim360_kind core_kind parentFolder =
     (case parent_extension_type parentFolder of
        Inl e \<Rightarrow> Inl e
      | Inr parentType \<Rightarrow>
          if truthy parentType then
            (case js_includes parentType ''bim360'' of
               Inl e \<Rightarrow> Inl e
             | Inr True \<Rightarrow> Inr bim360_kind
             | Inr False \<Rightarrow>
                 (case js_includes parentType ''core'' of
                    Inl e \<Rightarrow> Inl e
                  | Inr True \<Rightarrow> Inr core_kind
                  | Inr False \<Rightarrow> Inr bim360_kind))
          else Inr bim360_kind)"

definition folder_extension_type :: "jsval \<Rightarrow> js_error + string" where
  "folder_extension_type =
     select_kind ''folders:autodesk.bim360:Folder'' ''folders:autodesk.core:Folder''"

definition item_version_types :: "jsval \<Rightarrow> js_error + string \<times> string" where
  "item_version_types =
     select_kind (''items:autodesk.bim360:File'', ''versions:autodesk.bim360:File'')
                 (''items:autodesk.core:File'', ''versions:autodesk.core:File'')"

definition folder_body :: "string \<Rightarrow> string \<Rightarrow> string \<Rightarrow> jsval" where
  "folder_body folderName extensionType parentFolderId =
     JObj [(''jsonapi'', JObj [(''version'', JStr ''1.0'')]),
           (''data'', JObj
              [(''type'', JStr ''folders''),
               (''attributes'', JObj
                  [(''name'', JStr folderName),
                   (''extension'', JObj [(''type'', JStr extensionType),
                                         (''version'', JStr ''1.0'')])]),
               (''relationships'', JObj
                  [(''parent'', JObj
                      [(''data'', JObj [(''type'', JStr ''folders''),
                                        (''id'', JStr parentFolderId)])])])])]"

definition create_folder_request :: "string \<Rightarrow> string \<Rightarrow> string \<Rightarrow> string \<Rightarrow> http_request" where
  "create_folder_request projectId folderName extensionType parentFolderId =
     \<lparr>client = DataClient, verb = POST,
      url = JStr (''/data/v1/projects/'' @ projectId @ ''/folders''),
      params = [], headers = [],
      body = JsonBody (folder_body folderName extensionType parentFolderId)\<rparr>"

definition createFolder :: "'w env \<Rightarrow> string \<Rightarrow> string \<Rightarrow> string \<Rightarrow> (jsval, 'w) prog" where
  "createFolder env projectId parentFolderId folderName =
     catch_prog
       (bind_prog (getFolder env projectId parentFolderId) (\<lambda>parentFolder.
        bind_prog (lift_prog (folder_extension_type parentFolder)) (\<lambda>extensionType.
        bind_prog (data_request env
            (create_folder_request projectId folderName extensionType parentFolderId))
          (\<lambda>response_data.
        lift_prog (js_prop response_data ''data'')))))
       (\<lambda>error. throw_prog (BadRequestException (''Failed to create folder: '' @ folderName)))"

subsection \<open>Upload pipeline\<close>

definition storage_body :: "string \<Rightarrow> string \<Rightarrow> jsval" where
  "storage_body fileName folderId =
     JObj [(''jsonapi'', JObj [(''version'', JStr ''1.0'')]),
           (''data'', JObj
              [(''type'', JStr ''objects''),
               (''attributes'', JObj [(''name'', JStr fileName)]),
               (''relationships'', JObj
                  [(''target'', JObj
                      [(''data'', JObj [(''type'', JStr ''folders''),
                                        (''id'', JStr folderId)])])])])]"

definition storage_request :: "string \<Rightarrow> string \<Rightarrow> string \<Rightarrow> http_request" where
  "storage_request projectId folderId fileName =
     \<lparr>client = DataClient, verb = POST,
      url = JStr (''/data/v1/projects/'' @ projectId @ ''/storage''),
      params = [], headers = [],
      body = JsonBody (storage_body fileName folderId)\<rparr>"

definition createStorage :: "'w env \<Rightarrow> string \<Rightarrow> string \<Rightarrow> string \<Rightarrow> (jsval, 'w) prog" where
  "createStorage env projectId folderId fileName =
     bind_prog (data_request env (storage_request projectId folderId fileName))
       (\<lambda>response_data.
     lift_prog (js_prop response_data ''data''))"

definition signeds3upload_url :: "string \<Rightarrow> string \<Rightarrow> string" where
  "signeds3upload_url bucketKey objectKey =
     ''/oss/v2/buckets/'' @ bucketKey @ ''/objects/'' @ encodeURIComponent objectKey
       @ ''/signeds3upload''"

definition signed_url_request :: "string \<Rightarrow> string \<Rightarrow> http_request" where
  "signed_url_request bucketKey objectKey =
     \<lparr>client = DataClient, verb = GET,
      url = JStr (signeds3upload_url bucketKey objectKey),
      params = [(''minutesExpiration'', JNum 30)], headers = [], body = NoBody\<rparr>"

definition getSignedUploadUrl :: "'w env \<Rightarrow> jsval \<Rightarrow> (jsval \<times> jsval, 'w) prog" where
  "getSignedUploadUrl env objectId =
     catch_prog
       (bind_prog (lift_prog (decode_object_id objectId)) (\<lambda>(bucketKey, objectKey).
        bind_prog (data_request env (signed_url_request bucketKey objectKey))
          (\<lambda>response_data.
        bind_prog (lift_prog (js_prop response_data ''urls'')) (\<lambda>urls.
        bind_prog (lift_prog (js_first urls)) (\<lambda>signedUrl.
        bind_prog (lift_prog (js_prop response_data ''uploadKey'')) (\<lambda>uploadKey.
        return_prog (signedUrl, uploadKey)))))))
       (\<lambda>error. throw_prog error)"

text \<open>
  \<^verbatim>\<open>axios.put(signedUrl, fileBuffer, {headers})\<close> on the global axios object: no
  interceptor runs, the request carries the two headers written here.
\<close>

definition put_request :: "jsval \<Rightarrow> string \<Rightarrow> string \<Rightarrow> http_request" where
  "put_request signedUrl fileBuffer contentType =
     \<lparr>client = GlobalAxios, verb = PUT, url = signedUrl, params = [],
      headers = [(''Content-Type'', JStr contentType),
                 (''Content-Length'', JNum (int (length fileBuffer)))],
      body = BufferBody fileBuffer\<rparr>"

definition uploadToSignedUrl :: "'w env \<Rightarrow> jsval \<Rightarrow> string \<Rightarrow> string option \<Rightarrow> (unit, 'w) prog" where
  "uploadToSignedUrl env signedUrl fileBuffer contentTypeArg =
     (let contentType = (case contentTypeArg of
                           None \<Rightarrow> ''application/octet-stream''
                         | Some given \<Rightarrow> given)
      in catch_prog
           (bind_prog (send_request env (put_request signedUrl fileBuffer contentType))
              (\<lambda>response_data. return_prog ()))
           (\<lambda>error. throw_prog error))"

definition finalize_request :: "string \<Rightarrow> string \<Rightarrow> jsval \<Rightarrow> http_request" where
  "finalize_request bucketKey objectKey uploadKey =
     \<lparr>client = DataClient, verb = POST,
      url = JStr (signeds3upload_url bucketKey objectKey),
      params = [], headers = [],
      body = JsonBody (JObj [(''uploadKey'', uploadKey)])\<rparr>"

definition completeUpload :: "'w env \<Rightarrow> jsval \<Rightarrow> jsval \<Rightarrow> (unit, 'w) prog" where
  "completeUpload env objectId uploadKey =
     catch_prog
       (bind_prog (lift_prog (decode_object_id objectId)) (\<lambda>(bucketKey, objectKey).
        bind_prog (data_request env (finalize_request bucketKey objectKey uploadKey))
          (\<lambda>response_data.
        return_prog ())))
       (\<lambda>error. throw_prog error)"

text \<open>\<^verbatim>\<open>uploadToStorage\<close> is the older direct upload; nothing calls it.\<close>

definition object_put_request :: "string \<Rightarrow> string \<Rightarrow> string \<Rightarrow> string \<Rightarrow> http_request" where
  "object_put_request bucketKey objectKey fileBuffer contentType =
     \<lparr>client = DataClient, verb = PUT,
      url = JStr (''/oss/v2/buckets/'' @ bucketKey @ ''/objects/''
                  @ encodeURIComponent objectKey),
      params = [],
      headers = [(''Content-Type'', JStr contentType),
                 (''Content-Length'', JNum (int (length fileBuffer)))],
      body = BufferBody fileBuffer\<rparr>"

definition uploadToStorage :: "'w env \<Rightarrow> jsval \<Rightarrow> string \<Rightarrow> string option \<Rightarrow> (unit, 'w) prog" where
  "uploadToStorage env objectId fileBuffer contentTypeArg =
     (let contentType = (case contentTypeArg of
                           None \<Rightarrow> ''application/octet-stream''
                         | Some given \<Rightarrow> given)
      in bind_prog (lift_prog (decode_object_id objectId)) (\<lambda>(bucketKey, objectKey).
         bind_prog (data_request env
             (object_put_request bucketKey objectKey fileBuffer contentType))
           (\<lambda>response_data.
         return_prog ())))"

definition version_resource :: "string \<Rightarrow> string \<Rightarrow> jsval \<Rightarrow> jsval" where
  "version_resource fileName versionType objectId =
     JObj [(''type'', JStr ''versions''),
           (''id'', JStr ''1''),
           (''attributes'', JObj
              [(''name'', JStr fileName),
               (''extension'', JObj [(''type'', JStr versionType),
                                     (''version'', JStr ''1.0'')])]),
           (''relationships'', JObj
              [(''storage'', JObj
                  [(''data'', JObj [(''type'', JStr ''objects''),
                                    (''id'', objectId)])])])]"

definition item_body :: "string \<Rightarrow> string \<Rightarrow> string \<Rightarrow> string \<Rightarrow> jsval \<Rightarrow> jsval" where
  "item_body fileName folderId itemType versionType objectId =
     JObj [(''jsonapi'', JObj [(''version'', JStr ''1.0'')]),
           (''data'', JObj
              [(''type'', JStr ''items''),
               (''attributes'', JObj
                  [(''displayName'', JStr fileName),
                   (''extension'', JObj [(''type'', JStr itemType),
                                         (''version'', JStr ''1.0'')])]),
               (''relationships'', JObj
                  [(''tip'', JObj
                      [(''data'', JObj [(''type'', JStr ''versions''), (''id'', JStr ''1'')])]),
                   (''parent'', JObj
                      [(''data'', JObj [(''type'', JStr ''folders''),
                                        (''id'', JStr folderId)])])])]),
           (''included'', JArr [version_resource fileName versionType objectId])]"

definition item_request ::
  "string \<Rightarrow> string \<Rightarrow> string \<Rightarrow> string \<Rightarrow> string \<Rightarrow> jsval \<Rightarrow> http_request" where
  "item_request projectId fileName folderId itemType versionType objectId =
     \<lparr>client = DataClient, verb = POST,
      url = JStr (''/data/v1/projects/'' @ projectId @ ''/items''),
      params = [], headers = [],
      body = JsonBody (item_body fileName folderId itemType versionType objectId)\<rparr>"

definition createFirstVersion ::
  "'w env \<Rightarrow> string \<Rightarrow> string \<Rightarrow> string \<Rightarrow> jsval \<Rightarrow> (jsval, 'w) prog" where
  "createFirstVersion env projectId folderId fileName objectId =
     catch_prog
       (bind_prog (getFolder env projectId folderId) (\<lambda>parentFolder.
        bind_prog (lift_prog (item_version_types parentFolder)) (\<lambda>(itemType, versionType).
        bind_prog (data_request env
            (item_request projectId fileName folderId itemType versionType objectId))
          (\<lambda>response_data.
        lift_prog (js_prop response_data ''data'')))))
       (\<lambda>error. throw_prog error)"

text \<open>
  \<^verbatim>\<open>UploadFileOptions\<close>, destructured on entry as
  \<^verbatim>\<open>{ fileName, folderId, projectId, fileBuffer, contentType }\<close>.
\<close>

datatype upload_file_options =
  UploadFileOptions string string string string "string option"

fun uploadFile :: "'w env \<Rightarrow> upload_file_options \<Rightarrow> (jsval, 'w) prog" where
  "uploadFile env (UploadFileOptions fileName folderId projectId fileBuffer contentType) =
     catch_prog
       (bind_prog (createStorage env projectId folderId fileName) (\<lambda>storage.
        bind_prog (lift_prog (js_prop storage ''id'')) (\<lambda>storage_id.
        bind_prog (getSignedUploadUrl env storage_id) (\<lambda>(signedUrl, uploadKey).
        bind_prog (uploadToSignedUrl env signedUrl fileBuffer contentType) (\<lambda>done_transfer.
        bind_prog (completeUpload env storage_id uploadKey) (\<lambda>done_finalize.
        createFirstVersion env projectId folderId fileName storage_id))))))
       (\<lambda>error. throw_prog (BadRequestException
                   (''Failed to upload file: '' @ error_message error)))"

subsection \<open>Find-or-create\<close>

text \<open>
  \<^verbatim>\<open>folder.attributes?.name === folderName || folder.attributes?.displayName === folderName\<close>
  on an element that passed the \<^verbatim>\<open>type === 'folders'\<close> filter.
\<close>

definition name_matches :: "string \<Rightarrow> jsval \<Rightarrow> bool" where
  "name_matches folderName folder \<longleftrightarrow>
     js_opt_prop (js_opt_prop folder ''attributes'') ''name'' = JStr folderName \<or>
     js_opt_prop (js_opt_prop folder ''attributes'') ''displayName'' = JStr folderName"

definition getOrCreateFolder :: "'w env \<Rightarrow> string \<Rightarrow> string \<Rightarrow> string \<Rightarrow> (jsval, 'w) prog" where
  "getOrCreateFolder env projectId parentFolderId folderName =
     catch_prog
       (bind_prog (getFolderContents env projectId parentFolderId) (\<lambda>(folders, items).
          (case find (name_matches folderName) folders of
             Some existingFolder \<Rightarrow> return_prog existingFolder
           | None \<Rightarrow> createFolder env projectId parentFolderId folderName)))
       (\<lambda>error. throw_prog error)"

section \<open>Reading a trace\<close>

text \<open>
  The requests a run added to the trace, and among a list of requests those that went to
  the API or to storage (everything but the token grants of the auth client).
\<close>

definition new_requests :: "'w state \<Rightarrow> 'w state \<Rightarrow> http_request list" where
  "new_requests s s' = drop (length (trace s)) (trace s')"

definition api_requests :: "http_request list \<Rightarrow> http_request list" where
  "api_requests rs = filter (\<lambda>r. client r \<noteq> AuthClient) rs"

definition header :: "string \<Rightarrow> http_request \<Rightarrow> jsval option" where
  "header name r = map_of (headers r) name"

text \<open>\<^verbatim>\<open>v.k1.k2...\<close> with optional chaining at every step, and \<^verbatim>\<open>v[0]\<close> on an array.\<close>

fun js_path :: "jsval \<Rightarrow> string list \<Rightarrow> jsval" where
  "js_path v [] = v"
| "js_path v (k # ks) = js_path (js_opt_prop v k) ks"

fun js_elements :: "jsval \<Rightarrow> jsval list" where
  "js_elements (JArr xs) = xs"
| "js_elements v = []"

text \<open>
  \<open>emits m P\<close>: from every state, \<open>m\<close> only appends to the trace, and every request it
  appends satisfies \<open>P\<close>.
\<close>

definition emits :: "('a, 'w) prog \<Rightarrow> (http_request \<Rightarrow> bool) \<Rightarrow> bool" where
  "emits m P \<longleftrightarrow> (\<forall>s. \<exists>ext. trace (snd (m s)) = trace s @ ext \<and> (\<forall>r \<in> set ext. P r))"

section \<open>Concrete worlds\<close>

text \<open>
  Small concrete environments on which the theorems below are instantiated.
  \<open>token_env rt\<close> has a token endpoint that grants every request, with \<open>rt\<close> as the
  \<^verbatim>\<open>refresh_token\<close> of its response, and a transport that rejects everything; its clock
  stands at 1000000 ms.
\<close>

definition demo_options :: module_options where
  "demo_options =
     \<lparr>clientId = ''client-1'', clientSecret = ''secret-1'', callbackUrl = None,
      scopes = None, isGlobal = None, baseUrl = None\<rparr>"

definition token_env :: "string option \<Rightarrow> unit env" where
  "token_env rt =
     \<lparr>options = demo_options,
      date_now = (\<lambda>w. 1000000),
      token_endpoint = (\<lambda>w request.
        (Inr \<lparr>access_token = ''access-1'', token_type = ''Bearer'', expires_in = 3600,
              refresh_token = rt\<rparr>, w)),
      transport = (\<lambda>w request. (Inl (AxiosError ''Network Error''), w))\<rparr>"

definition fresh_state :: "'w \<Rightarrow> 'w state" where
  "fresh_state w = \<lparr>authContext = None, world = w, trace = []\<rparr>"

definition cached_state :: "'w \<Rightarrow> int \<Rightarrow> 'w state" where
  "cached_state w expiry =
     \<lparr>authContext = Some \<lparr>accessToken = ''cached-0'', expiresAt = expiry, refreshToken = None\<rparr>,
      world = w, trace = []\<rparr>"

text \<open>
  \<open>upload_env\<close>: a project \<^verbatim>\<open>b.proj\<close> with a folder \<^verbatim>\<open>urn:folder-1\<close> of the core kind.
  The world is the number of requests the transport still answers; after that it rejects
  with status 500. Every grant is given.
\<close>

definition demo_object_id :: string where
  "demo_object_id = ''urn:adsk.objects:os.object:wip.dm.prod/file-1.txt''"

definition demo_signed_path :: string where
  "demo_signed_path = ''/oss/v2/buckets/wip.dm.prod/objects/file-1.txt/signeds3upload''"

definition demo_folder :: jsval where
  "demo_folder =
     JObj [(''type'', JStr ''folders''), (''id'', JStr ''urn:folder-1''),
           (''attributes'', JObj
              [(''name'', JStr ''Plans''),
               (''extension'', JObj [(''type'', JStr ''folders:autodesk.core:Folder''),
                                     (''version'', JStr ''1.0'')])])]"

definition demo_item :: jsval where
  "demo_item =
     JObj [(''type'', JStr ''items''), (''id'', JStr ''urn:item-1''),
           (''attributes'', JObj
              [(''displayName'', JStr ''file-1.txt''),
               (''extension'', JObj [(''type'', JStr ''items:autodesk.core:File''),
                                     (''version'', JStr ''1.0'')])])]"

definition demo_answer :: "http_request \<Rightarrow> jsval" where
  "demo_answer r =
     (if client r = GlobalAxios then JStr []
      else if verb r = POST \<and> url r = JStr ''/data/v1/projects/b.proj/storage'' then
        JObj [(''data'', JObj [(''type'', JStr ''objects''), (''id'', JStr demo_object_id)])]
      else if verb r = GET \<and> url r = JStr demo_signed_path then
        JObj [(''uploadKey'', JStr ''key-123''),
              (''urls'', JArr [JStr ''https://s3.example/upload-1''])]
      else if verb r = POST \<and> url r = JStr demo_signed_path then
        JObj [(''objectId'', JStr demo_object_id)]
      else if verb r = GET \<and> url r = JStr ''/data/v1/projects/b.proj/folders/urn:folder-1'' then
        JObj [(''data'', demo_folder)]
      else if verb r = POST \<and> url r = JStr ''/data/v1/projects/b.proj/items'' then
        JObj [(''data'', demo_item),
              (''included'', (case body r of
                                JsonBody b \<Rightarrow> js_opt_prop b ''included''
                              | other \<Rightarrow> JArr []))]
      else JObj [])"

definition upload_env :: "nat env" where
  "upload_env =
     \<lparr>options = demo_options,
      date_now = (\<lambda>w. 1000000),
      token_endpoint = (\<lambda>w request.
        (Inr \<lparr>access_token = ''access-1'', token_type = ''Bearer'', expires_in = 3600,
              refresh_token = None\<rparr>, w)),
      transport = (\<lambda>w request.
        (case w of
           0 \<Rightarrow> (Inl (AxiosError ''Request failed with status code 500''), 0)
         | Suc n \<Rightarrow> (Inr (demo_answer request), n)))\<rparr>"

definition demo_upload :: upload_file_options where
  "demo_upload =
     UploadFileOptions ''file-1.txt'' ''urn:folder-1'' ''b.proj'' ''0123456789'' None"

text \<open>
  \<open>folder_env\<close>: the world is the list of child folders of \<^verbatim>\<open>urn:folder-1\<close>. The
  transport lists them, returns the parent, and on a create request appends a folder
  named as the request asks and returns it.
\<close>

definition created_folder :: "jsval \<Rightarrow> jsval" where
  "created_folder request_body =
     (let name = js_path request_body [''data'', ''attributes'', ''name'']
      in JObj [(''type'', JStr ''folders''),
               (''id'', JStr (''urn:folder:'' @ (case name of JStr n \<Rightarrow> n | other \<Rightarrow> []))),
               (''attributes'', JObj [(''name'', name), (''displayName'', name)])])"

definition folder_env :: "jsval list env" where
  "folder_env =
     \<lparr>options = demo_options,
      date_now = (\<lambda>w. 1000000),
      token_endpoint = (\<lambda>w request.
        (Inr \<lparr>access_token = ''access-1'', token_type = ''Bearer'', expires_in = 3600,
              refresh_token = None\<rparr>, w)),
      transport = (\<lambda>w request.
        if verb request = GET
           \<and> url request = JStr ''/data/v1/projects/b.proj/folders/urn:folder-1/contents''
        then (Inr (JObj [(''data'', JArr w)]), w)
        else if verb request = GET
           \<and> url request = JStr ''/data/v1/projects/b.proj/folders/urn:folder-1''
        then (Inr (JObj [(''data'', demo_folder)]), w)
        else if verb request = POST
           \<and> url request = JStr ''/data/v1/projects/b.proj/folders''
        then (case body request of
                JsonBody b \<Rightarrow> (Inr (JObj [(''data'', created_folder b)]), w @ [created_folder b])
              | other \<Rightarrow> (Inl (AxiosError ''Request failed with status code 400''), w))
        else (Inl (AxiosError ''Request failed with status code 404''), w))\<rparr>"

text \<open>
  \<open>first_page_env\<close>: as \<open>folder_env\<close>, but the service lists the children in pages of one
  and answers the contents request with the first page (and a link to the next); every
  folder it creates gets a fresh id, numbered after the children it holds.
\<close>

definition archive_folder :: jsval where
  "archive_folder =
     JObj [(''type'', JStr ''folders''), (''id'', JStr ''urn:folder-2''),
           (''attributes'', JObj [(''name'', JStr ''Archive''),
                                  (''displayName'', JStr ''Archive'')])]"

definition minted_folder :: "nat \<Rightarrow> jsval \<Rightarrow> jsval" where
  "minted_folder n request_body =
     (let name = js_path request_body [''data'', ''attributes'', ''name'']
      in JObj [(''type'', JStr ''folders''),
               (''id'', JStr (''urn:folder-'' @ [hex_digit n])),
               (''attributes'', JObj [(''name'', name), (''displayName'', name)])])"

definition first_page_env :: "jsval list env" where
  "first_page_env =
     \<lparr>options = demo_options,
      date_now = (\<lambda>w. 1000000),
      token_endpoint = (\<lambda>w request.
        (Inr \<lparr>access_token = ''access-1'', token_type = ''Bearer'', expires_in = 3600,
              refresh_token = None\<rparr>, w)),
      transport = (\<lambda>w request.
        if verb request = GET
           \<and> url request = JStr ''/data/v1/projects/b.proj/folders/urn:folder-1/contents''
        then (Inr (JObj [(''data'', JArr (take 1 w)),
                         (''links'', JObj [(''next'', JObj [(''href'', JStr ''page-2'')])])]), w)
        else if verb request = GET
           \<and> url request = JStr ''/data/v1/projects/b.proj/folders/urn:folder-1''
        then (Inr (JObj [(''data'', demo_folder)]), w)
        else if verb request = POST
           \<and> url request = JStr ''/data/v1/projects/b.proj/folders''
        then (case body request of
                JsonBody b \<Rightarrow>
                  (Inr (JObj [(''data'', minted_folder (length w + 2) b)]),
                   w @ [minted_folder (length w + 2) b])
              | other \<Rightarrow> (Inl (AxiosError ''Request failed with status code 400''), w))
        else (Inl (AxiosError ''Request failed with status code 404''), w))\<rparr>"

section \<open>The URN pattern as the specification words it\<close>

text \<open>
  The specification's \<^verbatim>\<open>decode\<close>: the id is
  \<^verbatim>\<open>urn:adsk.objects:os.object:<bucket>/<object>\<close>, the bucket has no slash, the bucket
  part is the bucket key and the remainder is the object key. This definition follows
  those words (the whole id has the form; both parts non-empty); it is not taken from the
  source and serves only for comparison with \<open>urn_match\<close>.
\<close>

definition spec_decode :: "string \<Rightarrow> (string \<times> string) option" where
  "spec_decode objectId =
     (case strip_prefix urn_prefix objectId of
        None \<Rightarrow> None
      | Some rest \<Rightarrow>
          (case dropWhile (\<lambda>c. c \<noteq> CHR ''/'') rest of
             [] \<Rightarrow> None
           | slash # remainder \<Rightarrow>
               if takeWhile (\<lambda>c. c \<noteq> CHR ''/'') rest = [] \<or> remainder = [] then None
               else Some (takeWhile (\<lambda>c. c \<noteq> CHR ''/'') rest, remainder)))"

section \<open>Recognising requests and contents\<close>

text \<open>
  The finalize request of stage 4 is the only POST of the data client to the object
  storage paths (\<^verbatim>\<open>/oss/v2/buckets/...\<close>); the other POSTs go to \<^verbatim>\<open>/data/v1/...\<close>.
\<close>

definition finalize_post :: "http_request \<Rightarrow> bool" where
  "finalize_post r \<longleftrightarrow>
     client r = DataClient \<and> verb r = POST \<and>
     (case url r of JStr u \<Rightarrow> starts_with ''/oss/v2/buckets/'' u | other \<Rightarrow> False)"

text \<open>\<open>js_mentions v x\<close>: the value \<open>x\<close> occurs in \<open>v\<close>, at any depth.\<close>

primrec js_mentions :: "jsval \<Rightarrow> jsval \<Rightarrow> bool" where
  "js_mentions JUndefined x = (x = JUndefined)"
| "js_mentions JNull x = (x = JNull)"
| "js_mentions (JBool b) x = (x = JBool b)"
| "js_mentions (JNum n) x = (x = JNum n)"
| "js_mentions (JStr s) x = (x = JStr s)"
| "js_mentions (JArr vs) x =
     (x = JArr vs \<or> list_ex (\<lambda>found. found) (map (\<lambda>v. js_mentions v x) vs))"
| "js_mentions (JObj kvs) x =
     (x = JObj kvs \<or>
      list_ex snd (map (map_prod (\<lambda>k. k) (\<lambda>v. js_mentions v x)) kvs))"

text \<open>
  \<open>sends_at_most n m\<close>: from every state, \<open>m\<close> only appends to the trace, and at most \<open>n\<close>
  of the requests it appends go to the API or to storage.
\<close>

definition sends_at_most :: "nat \<Rightarrow> ('a, 'w) prog \<Rightarrow> bool" where
  "sends_at_most n m \<longleftrightarrow>
     (\<forall>s. \<exists>ext. trace (snd (m s)) = trace s @ ext \<and> length (api_requests ext) \<le> n)"

definition request_line :: "http_request \<Rightarrow> http_method \<times> jsval" where
  "request_line r = (verb r, url r)"

text \<open>
  The POSTs of the data client among a list of requests, and the extension types a
  request's JSON document declares: that of its \<^verbatim>\<open>data\<close> member, then that of each
  resource under \<^verbatim>\<open>included\<close>.
\<close>

definition data_posts :: "http_request list \<Rightarrow> http_request list" where
  "data_posts rs = filter (\<lambda>r. client r = DataClient \<and> verb r = POST) rs"

definition declared_types :: "http_request \<Rightarrow> jsval list" where
  "declared_types r =
     (case body r of
        JsonBody document \<Rightarrow>
          js_path document [''data'', ''attributes'', ''extension'', ''type'']
          # map (\<lambda>resource. js_path resource [''attributes'', ''extension'', ''type''])
              (js_elements (js_path document [''included'']))
      | other \<Rightarrow> [])"

section \<open>Basic facts about the combinators\<close>

lemma return_prog_simp [simp]: "return_prog x s = (Inr x, s)"
  by (simp add: return_prog_def)

lemma throw_prog_simp [simp]: "throw_prog e s = (Inl e, s)"
  by (simp add: throw_prog_def)

lemma lift_prog_simp [simp]: "lift_prog r s = (r, s)"
  by (simp add: lift_prog_def)

lemma bind_prog_Inl: "m s = (Inl e, s1) \<Longrightarrow> bind_prog m f s = (Inl e, s1)"
  by (simp add: bind_prog_def)

lemma bind_prog_Inr: "m s = (Inr x, s1) \<Longrightarrow> bind_prog m f s = f x s1"
  by (simp add: bind_prog_def)

lemma catch_prog_Inl: "m s = (Inl e, s1) \<Longrightarrow> catch_prog m h s = h e s1"
  by (simp add: catch_prog_def)

lemma catch_prog_Inr: "m s = (Inr x, s1) \<Longrightarrow> catch_prog m h s = (Inr x, s1)"
  by (simp add: catch_prog_def)

lemma bind_prog_cases:
  assumes "bind_prog m f s = (res, s')"
  obtains (failed) e where "m s = (Inl e, s')" and "res = Inl e"
        | (continued) x s1 where "m s = (Inr x, s1)" and "f x s1 = (res, s')"
proof (cases "m s")
  case (Pair r s1)
  show thesis
  proof (cases r)
    case (Inl e)
    with Pair assms have "res = Inl e" and "s' = s1" by (simp_all add: bind_prog_def)
    with Pair Inl failed show thesis by simp
  next
    case (Inr x)
    with Pair assms have "f x s1 = (res, s')" by (simp add: bind_prog_def)
    with Pair Inr continued show thesis by simp
  qed
qed

lemma catch_prog_cases:
  assumes "catch_prog m h s = (res, s')"
  obtains (caught) e s1 where "m s = (Inl e, s1)" and "h e s1 = (res, s')"
        | (passed) x where "m s = (Inr x, s')" and "res = Inr x"
proof (cases "m s")
  case (Pair r s1)
  show thesis
  proof (cases r)
    case (Inl e)
    with Pair assms have "h e s1 = (res, s')" by (simp add: catch_prog_def)
    with Pair Inl caught show thesis by simp
  next
    case (Inr x)
    with Pair assms have "res = Inr x" and "s' = s1" by (simp_all add: catch_prog_def)
    with Pair Inr passed show thesis by simp
  qed
qed

lemma bind_lift_Inr [simp]: "bind_prog (lift_prog (Inr x)) f = f x"
  by (rule ext) (simp add: bind_prog_def)

lemma bind_lift_Inl [simp]: "bind_prog (lift_prog (Inl e)) f = throw_prog e"
  by (rule ext) (simp add: bind_prog_def)

text \<open>Catching and throwing the same error again changes nothing.\<close>

lemma catch_rethrow [simp]: "catch_prog m (\<lambda>error. throw_prog error) = m"
  by (rule ext) (simp add: catch_prog_def split: prod.splits sum.splits)

subsection \<open>What a program may add to the trace\<close>

lemma emitsD:
  assumes "emits m P" and "m s = (res, s')"
  obtains ext where "trace s' = trace s @ ext" and "\<forall>r \<in> set ext. P r"
  using assms unfolding emits_def by (metis snd_conv)

lemma emits_new_requests:
  assumes "emits m P" and "m s = (res, s')"
  shows "\<forall>r \<in> set (new_requests s s'). P r"
proof -
  from assms obtain ext where "trace s' = trace s @ ext" and "\<forall>r \<in> set ext. P r"
    by (rule emitsD)
  then show ?thesis by (simp add: new_requests_def)
qed

lemma emits_return [simp]: "emits (return_prog x) P"
  by (simp add: emits_def)

lemma emits_throw [simp]: "emits (throw_prog e) P"
  by (simp add: emits_def)

lemma emits_lift [simp]: "emits (lift_prog r) P"
  by (simp add: emits_def)

lemma emits_bind:
  assumes m: "emits m P" and f: "\<And>x. emits (f x) P"
  shows "emits (bind_prog m f) P"
  unfolding emits_def
proof
  fix s
  obtain r s1 where ms: "m s = (r, s1)" by (cases "m s")
  from m ms obtain ext1 where e1: "trace s1 = trace s @ ext1" "\<forall>r \<in> set ext1. P r"
    by (rule emitsD)
  show "\<exists>ext. trace (snd (bind_prog m f s)) = trace s @ ext \<and> (\<forall>r \<in> set ext. P r)"
  proof (cases r)
    case (Inl e)
    with ms e1 show ?thesis by (auto simp: bind_prog_def)
  next
    case (Inr x)
    obtain r2 s2 where fs: "f x s1 = (r2, s2)" by (cases "f x s1")
    from f fs obtain ext2 where e2: "trace s2 = trace s1 @ ext2" "\<forall>r \<in> set ext2. P r"
      by (rule emitsD)
    from ms Inr fs have "snd (bind_prog m f s) = s2" by (simp add: bind_prog_def)
    with e1 e2 have "trace (snd (bind_prog m f s)) = trace s @ (ext1 @ ext2)"
      and "\<forall>r \<in> set (ext1 @ ext2). P r" by auto
    then show ?thesis by blast
  qed
qed

lemma emits_catch:
  assumes m: "emits m P" and h: "\<And>e. emits (h e) P"
  shows "emits (catch_prog m h) P"
  unfolding emits_def
proof
  fix s
  obtain r s1 where ms: "m s = (r, s1)" by (cases "m s")
  from m ms obtain ext1 where e1: "trace s1 = trace s @ ext1" "\<forall>r \<in> set ext1. P r"
    by (rule emitsD)
  show "\<exists>ext. trace (snd (catch_prog m h s)) = trace s @ ext \<and> (\<forall>r \<in> set ext. P r)"
  proof (cases r)
    case (Inr x)
    with ms e1 show ?thesis by (auto simp: catch_prog_def)
  next
    case (Inl e)
    obtain r2 s2 where hs: "h e s1 = (r2, s2)" by (cases "h e s1")
    from h hs obtain ext2 where e2: "trace s2 = trace s1 @ ext2" "\<forall>r \<in> set ext2. P r"
      by (rule emitsD)
    from ms Inl hs have "snd (catch_prog m h s) = s2" by (simp add: catch_prog_def)
    with e1 e2 have "trace (snd (catch_prog m h s)) = trace s @ (ext1 @ ext2)"
      and "\<forall>r \<in> set (ext1 @ ext2). P r" by auto
    then show ?thesis by blast
  qed
qed

lemma emits_case_prod:
  assumes "\<And>a b. emits (f a b) P"
  shows "emits (case p of (a, b) \<Rightarrow> f a b) P"
  using assms by (cases p) simp

lemma emits_send_request: "P request \<Longrightarrow> emits (send_request env request) P"
  by (auto simp: emits_def send_request_def split: prod.splits)

lemma emits_send_token_request: "P request \<Longrightarrow> emits (send_token_request env request) P"
  by (auto simp: emits_def send_token_request_def split: prod.splits)

lemma emits_authenticate:
  assumes "\<And>entries. P (token_request entries)"
  shows "emits (authenticate env) P"
proof -
  have post: "emits (auth_post env entries) P" for entries
    unfolding auth_post_def by (rule emits_send_token_request) (rule assms)
  show ?thesis
    unfolding emits_def
  proof
    fix s
    obtain r s1 where ps: "auth_post env (client_credentials_entries (options env)) s = (r, s1)"
      by (cases "auth_post env (client_credentials_entries (options env)) s")
    from post ps obtain ext where e: "trace s1 = trace s @ ext" "\<forall>r \<in> set ext. P r"
      by (rule emitsD)
    show "\<exists>ext. trace (snd (authenticate env s)) = trace s @ ext \<and> (\<forall>r \<in> set ext. P r)"
    proof (cases "if isTokenValid env s then authContext s else None")
      case (Some ctx)
      then show ?thesis by (simp add: authenticate_def)
    next
      case None
      with ps e show ?thesis
        by (cases r) (auto simp: authenticate_def Let_def)
    qed
  qed
qed

lemma emits_data_request:
  assumes "\<And>entries. P (token_request entries)" and "\<And>token. P (with_bearer token request)"
  shows "emits (data_request env request) P"
  unfolding data_request_def getAccessToken_def
  by (intro emits_bind emits_authenticate emits_send_request assms)

section \<open>Token lifecycle\<close>

lemma auth_post_eq:
  "auth_post env entries s =
     (fst (token_endpoint env (world s) (token_request entries)),
      s\<lparr>world := snd (token_endpoint env (world s) (token_request entries)),
        trace := trace s @ [token_request entries]\<rparr>)"
  by (simp add: auth_post_def send_token_request_def split: prod.splits)

lemma auth_post_frame:
  "auth_post env entries s = (r, s1) \<Longrightarrow> authContext s1 = authContext s"
  by (auto simp: auth_post_eq)

lemma authenticate_valid:
  assumes "authContext s = Some ctx" and "date_now env (world s) < expiresAt ctx - 300000"
  shows "authenticate env s = (Inr (accessToken ctx), s)"
  using assms by (simp add: authenticate_def isTokenValid_def)

lemma authenticate_grant:
  assumes "\<forall>ctx. authContext s = Some ctx \<longrightarrow> \<not> date_now env (world s) < expiresAt ctx - 300000"
  shows "authenticate env s =
     (case token_endpoint env (world s) (token_request (client_credentials_entries (options env))) of
        (Inl e, w) \<Rightarrow>
          (Inl (UnauthorizedException ''Failed to authenticate with Autodesk ACC''),
           s\<lparr>world := w,
             trace := trace s @ [token_request (client_credentials_entries (options env))]\<rparr>)
      | (Inr data, w) \<Rightarrow>
          (Inr (access_token data),
           \<lparr>authContext = Some \<lparr>accessToken = access_token data,
                                 expiresAt = date_now env w + expires_in data * 1000,
                                 refreshToken = refresh_token data\<rparr>,
            world = w,
            trace = trace s @ [token_request (client_credentials_entries (options env))]\<rparr>))"
proof -
  from assms have "(if isTokenValid env s then authContext s else None) = None"
    by (auto simp: isTokenValid_def split: option.splits)
  then show ?thesis
    by (simp add: authenticate_def auth_post_eq Let_def split: prod.splits sum.splits)
qed

text \<open>The form body of the client-credentials grant, as \<^verbatim>\<open>params.toString()\<close> writes it.\<close>

lemma default_scope_form:
  "form_encode ''data:read data:write data:create bucket:read bucket:create''
     = ''data%3Aread+data%3Awrite+data%3Acreate+bucket%3Aread+bucket%3Acreate''"
  by (simp add: form_encode_def alphanumeric_def percent_byte_def hex_digit_def)

lemma client_credentials_form:
  "urlSearchParams_toString (client_credentials_entries opts) =
     ''client_id='' @ form_encode (clientId opts) @
     ''&client_secret='' @ form_encode (clientSecret opts) @
     ''&grant_type=client_credentials&scope='' @
     form_encode (join_space (case scopes opts of
        None \<Rightarrow> [''data:read'', ''data:write'', ''data:create'', ''bucket:read'', ''bucket:create'']
      | Some configured \<Rightarrow> configured))"
  by (simp add: client_credentials_entries_def Let_def form_encode_def alphanumeric_def)

text \<open>
  C3. \<^verbatim>\<open>authenticate\<close> (and \<^verbatim>\<open>getAccessToken\<close>, which only calls it): with a cached
  context and \<^verbatim>\<open>Date.now()\<close> strictly before \<open>expiresAt - 300000\<close> the cached token is
  returned and the state, trace included, is unchanged, so no request is made. Otherwise
  the trace grows by exactly one request: a POST of the auth client, form-encoded, whose
  body carries the client id, the client secret, \<^verbatim>\<open>grant_type=client_credentials\<close> and the
  scopes joined by spaces, the five default scopes when none are configured. When the
  endpoint answers, the cache becomes the whole new context and the new token is
  returned; when it rejects, the caller gets the UnauthorizedException and the cache is as
  before.
\<close>

theorem authenticate_cache_or_grant:
  "getAccessToken env = authenticate env \<and>
   (\<forall>ctx. authContext s = Some ctx \<and> date_now env (world s) < expiresAt ctx - 300000 \<longrightarrow>
      authenticate env s = (Inr (accessToken ctx), s)) \<and>
   ((\<forall>ctx. authContext s = Some ctx \<longrightarrow> \<not> date_now env (world s) < expiresAt ctx - 300000) \<longrightarrow>
      (\<exists>grant form.
         trace (snd (authenticate env s)) = trace s @ [grant] \<and>
         client grant = AuthClient \<and> verb grant = POST \<and> url grant = JStr [] \<and>
         params grant = [] \<and>
         headers grant = [(''Content-Type'', JStr ''application/x-www-form-urlencoded'')] \<and>
         body grant = TextBody form \<and>
         form = ''client_id='' @ form_encode (clientId (options env)) @
                ''&client_secret='' @ form_encode (clientSecret (options env)) @
                ''&grant_type=client_credentials&scope='' @
                (case scopes (options env) of
                   None \<Rightarrow> ''data%3Aread+data%3Awrite+data%3Acreate+bucket%3Aread+bucket%3Acreate''
                 | Some configured \<Rightarrow> form_encode (join_space configured)) \<and>
         (let answer = token_endpoint env (world s) grant;
              after = snd (authenticate env s)
          in world after = snd answer \<and>
             (\<forall>data. fst answer = Inr data \<longrightarrow>
                fst (authenticate env s) = Inr (access_token data) \<and>
                authContext after =
                  Some \<lparr>accessToken = access_token data,
                        expiresAt = date_now env (snd answer) + expires_in data * 1000,
                        refreshToken = refresh_token data\<rparr>) \<and>
             (\<forall>e. fst answer = Inl e \<longrightarrow>
                fst (authenticate env s) =
                  Inl (UnauthorizedException ''Failed to authenticate with Autodesk ACC'') \<and>
                authContext after = authContext s))))"
proof (intro conjI allI impI)
  show "getAccessToken env = authenticate env"
    by (simp add: getAccessToken_def)
next
  fix ctx
  assume "authContext s = Some ctx \<and> date_now env (world s) < expiresAt ctx - 300000"
  then show "authenticate env s = (Inr (accessToken ctx), s)"
    by (simp add: authenticate_valid)
next
  assume expired:
    "\<forall>ctx. authContext s = Some ctx \<longrightarrow> \<not> date_now env (world s) < expiresAt ctx - 300000"
  let ?grant = "token_request (client_credentials_entries (options env))"
  let ?form = "urlSearchParams_toString (client_credentials_entries (options env))"
  have form: "?form = ''client_id='' @ form_encode (clientId (options env)) @
                ''&client_secret='' @ form_encode (clientSecret (options env)) @
                ''&grant_type=client_credentials&scope='' @
                (case scopes (options env) of
                   None \<Rightarrow> ''data%3Aread+data%3Awrite+data%3Acreate+bucket%3Aread+bucket%3Acreate''
                 | Some configured \<Rightarrow> form_encode (join_space configured))"
    unfolding client_credentials_form
    by (cases "scopes (options env)") (simp_all add: default_scope_form [simplified])
  have request: "client ?grant = AuthClient \<and> verb ?grant = POST \<and> url ?grant = JStr [] \<and>
         params ?grant = [] \<and>
         headers ?grant = [(''Content-Type'', JStr ''application/x-www-form-urlencoded'')] \<and>
         body ?grant = TextBody ?form"
    by (simp add: token_request_def)
  have run: "trace (snd (authenticate env s)) = trace s @ [?grant] \<and>
        (let answer = token_endpoint env (world s) ?grant;
              after = snd (authenticate env s)
          in world after = snd answer \<and>
             (\<forall>data. fst answer = Inr data \<longrightarrow>
                fst (authenticate env s) = Inr (access_token data) \<and>
                authContext after =
                  Some \<lparr>accessToken = access_token data,
                        expiresAt = date_now env (snd answer) + expires_in data * 1000,
                        refreshToken = refresh_token data\<rparr>) \<and>
             (\<forall>e. fst answer = Inl e \<longrightarrow>
                fst (authenticate env s) =
                  Inl (UnauthorizedException ''Failed to authenticate with Autodesk ACC'') \<and>
                authContext after = authContext s))"
    unfolding Let_def authenticate_grant [OF expired]
    by (cases "token_endpoint env (world s) ?grant") (auto split: sum.splits)
  from request form run
  show "\<exists>grant form.
         trace (snd (authenticate env s)) = trace s @ [grant] \<and>
         client grant = AuthClient \<and> verb grant = POST \<and> url grant = JStr [] \<and>
         params grant = [] \<and>
         headers grant = [(''Content-Type'', JStr ''application/x-www-form-urlencoded'')] \<and>
         body grant = TextBody form \<and>
         form = ''client_id='' @ form_encode (clientId (options env)) @
                ''&client_secret='' @ form_encode (clientSecret (options env)) @
                ''&grant_type=client_credentials&scope='' @
                (case scopes (options env) of
                   None \<Rightarrow> ''data%3Aread+data%3Awrite+data%3Acreate+bucket%3Aread+bucket%3Acreate''
                 | Some configured \<Rightarrow> form_encode (join_space configured)) \<and>
         (let answer = token_endpoint env (world s) grant;
              after = snd (authenticate env s)
          in world after = snd answer \<and>
             (\<forall>data. fst answer = Inr data \<longrightarrow>
                fst (authenticate env s) = Inr (access_token data) \<and>
                authContext after =
                  Some \<lparr>accessToken = access_token data,
                        expiresAt = date_now env (snd answer) + expires_in data * 1000,
                        refreshToken = refresh_token data\<rparr>) \<and>
             (\<forall>e. fst answer = Inl e \<longrightarrow>
                fst (authenticate env s) =
                  Inl (UnauthorizedException ''Failed to authenticate with Autodesk ACC'') \<and>
                authContext after = authContext s))"
    by (intro exI [of _ ?grant] exI [of _ ?form]) (simp only: simp_thms)
qed

theorem authenticate_cache_or_grant_witness:
  "authenticate (token_env None) (cached_state () 5000000)
     = (Inr ''cached-0'', cached_state () 5000000) \<and>
   map (\<lambda>r. (client r, verb r, url r, headers r, body r))
     (trace (snd (authenticate (token_env None) (cached_state () 1200000))))
     = [(AuthClient, POST, JStr [],
         [(''Content-Type'', JStr ''application/x-www-form-urlencoded'')],
         TextBody (''client_id=client-1&client_secret=secret-1&grant_type=client_credentials''
                   @ ''&scope=data%3Aread+data%3Awrite+data%3Acreate+bucket%3Aread+bucket%3Acreate''))] \<and>
   fst (authenticate (token_env None) (cached_state () 1200000)) = Inr ''access-1'' \<and>
   authContext (snd (authenticate (token_env None) (cached_state () 1200000)))
     = Some \<lparr>accessToken = ''access-1'', expiresAt = 4600000, refreshToken = None\<rparr>"
proof -
  have valid: "authContext (cached_state () 5000000)
        = Some \<lparr>accessToken = ''cached-0'', expiresAt = 5000000, refreshToken = None\<rparr> \<and>
      date_now (token_env None) (world (cached_state () 5000000))
        < expiresAt \<lparr>accessToken = ''cached-0'', expiresAt = 5000000, refreshToken = None\<rparr>
          - 300000"
    by (simp add: cached_state_def token_env_def)
  have expired: "\<forall>ctx. authContext (cached_state () 1200000) = Some ctx \<longrightarrow>
      \<not> date_now (token_env None) (world (cached_state () 1200000)) < expiresAt ctx - 300000"
    by (simp add: cached_state_def token_env_def)
  have ids: "form_encode ''client-1'' = ''client-1''" "form_encode ''secret-1'' = ''secret-1''"
    by (simp_all add: form_encode_def alphanumeric_def)
  note cached = authenticate_cache_or_grant
    [of "token_env None" "cached_state () 5000000",
     THEN conjunct2, THEN conjunct1, rule_format, OF valid]
  note granted = authenticate_cache_or_grant
    [of "token_env None" "cached_state () 1200000",
     THEN conjunct2, THEN conjunct2, THEN mp, OF expired]
  from granted obtain grant form
    where "trace (snd (authenticate (token_env None) (cached_state () 1200000)))
             = trace (cached_state () 1200000) @ [grant]"
      and "client grant = AuthClient" "verb grant = POST" "url grant = JStr []"
      and "headers grant = [(''Content-Type'', JStr ''application/x-www-form-urlencoded'')]"
      and "body grant = TextBody form"
      and "form = ''client_id='' @ form_encode (clientId (options (token_env None))) @
                ''&client_secret='' @ form_encode (clientSecret (options (token_env None))) @
                ''&grant_type=client_credentials&scope='' @
                (case scopes (options (token_env None)) of
                   None \<Rightarrow> ''data%3Aread+data%3Awrite+data%3Acreate+bucket%3Aread+bucket%3Acreate''
                 | Some configured \<Rightarrow> form_encode (join_space configured))"
      and "fst (authenticate (token_env None) (cached_state () 1200000)) = Inr ''access-1''"
      and "authContext (snd (authenticate (token_env None) (cached_state () 1200000)))
             = Some \<lparr>accessToken = ''access-1'', expiresAt = 4600000, refreshToken = None\<rparr>"
    by (auto simp: Let_def token_env_def)
  with cached ids show ?thesis
    by (simp add: token_env_def demo_options_def cached_state_def)
qed

text \<open>
  C8. None of the three 3-legged operations writes the cached context:
  \<^verbatim>\<open>getAuthorizationUrl\<close> leaves the whole state as it is, and after
  \<^verbatim>\<open>getAccessTokenFromCode\<close> and \<^verbatim>\<open>refreshAccessToken\<close>, whatever the endpoint answered,
  the cache holds what it held before; the context built from the response is the
  returned value.
\<close>

theorem three_legged_frame:
  "snd (getAuthorizationUrl env state_arg s) = s \<and>
   authContext (snd (getAccessTokenFromCode env code s)) = authContext s \<and>
   authContext (snd (refreshAccessToken env refreshTokenArg s)) = authContext s"
  by (auto simp: getAuthorizationUrl_def getAccessTokenFromCode_def refreshAccessToken_def
                 Let_def auth_post_eq
           split: prod.splits sum.splits)

text \<open>
  C10, as stated, fails: a response that carries an empty \<^verbatim>\<open>refresh_token\<close> does not
  omit it, yet the returned context carries the caller's token, not the response's.
\<close>

theorem refresh_token_counterexample:
  "fst (auth_post (token_env (Some [])) (refresh_entries demo_options ''old-refresh'')
          (fresh_state ()))
     = Inr \<lparr>access_token = ''access-1'', token_type = ''Bearer'', expires_in = 3600,
            refresh_token = Some []\<rparr> \<and>
   fst (refreshAccessToken (token_env (Some [])) ''old-refresh'' (fresh_state ()))
     = Inr \<lparr>accessToken = ''access-1'', expiresAt = 4600000,
            refreshToken = Some ''old-refresh''\<rparr>"
  by (simp add: refreshAccessToken_def auth_post_eq token_env_def fresh_state_def)

text \<open>
  C10, amended. When the refresh grant is answered, the returned context carries the
  caller's token if the response has no \<^verbatim>\<open>refresh_token\<close> or an empty one, and the
  response's \<^verbatim>\<open>refresh_token\<close> otherwise; so with a non-empty argument the field is
  neither absent nor empty.
\<close>

theorem refresh_keeps_token:
  assumes "auth_post env (refresh_entries (options env) refreshTokenArg) s = (Inr data, s1)"
  shows "\<exists>ctx. refreshAccessToken env refreshTokenArg s = (Inr ctx, s1) \<and>
           accessToken ctx = access_token data \<and>
           expiresAt ctx = date_now env (world s1) + expires_in data * 1000 \<and>
           refreshToken ctx =
             (if refresh_token data = None \<or> refresh_token data = Some []
              then Some refreshTokenArg else refresh_token data) \<and>
           (refreshTokenArg \<noteq> [] \<longrightarrow> refreshToken ctx \<noteq> None \<and> refreshToken ctx \<noteq> Some [])"
  using assms by (auto simp: refreshAccessToken_def split: option.splits)

theorem refresh_keeps_token_witness:
  "(\<exists>ctx. refreshAccessToken (token_env None) ''old-refresh'' (fresh_state ())
            = (Inr ctx, snd (auth_post (token_env None)
                               (refresh_entries demo_options ''old-refresh'') (fresh_state ())))
          \<and> refreshToken ctx = Some ''old-refresh'') \<and>
   (\<exists>ctx. refreshAccessToken (token_env (Some ''new-refresh'')) ''old-refresh'' (fresh_state ())
            = (Inr ctx, snd (auth_post (token_env (Some ''new-refresh''))
                               (refresh_entries demo_options ''old-refresh'') (fresh_state ())))
          \<and> refreshToken ctx = Some ''new-refresh'')"
proof -
  have a: "auth_post (token_env None)
             (refresh_entries (options (token_env None)) ''old-refresh'') (fresh_state ())
           = (Inr \<lparr>access_token = ''access-1'', token_type = ''Bearer'', expires_in = 3600,
                   refresh_token = None\<rparr>,
              snd (auth_post (token_env None)
                     (refresh_entries demo_options ''old-refresh'') (fresh_state ())))"
    by (simp add: auth_post_eq token_env_def)
  have b: "auth_post (token_env (Some ''new-refresh''))
             (refresh_entries (options (token_env (Some ''new-refresh''))) ''old-refresh'')
             (fresh_state ())
           = (Inr \<lparr>access_token = ''access-1'', token_type = ''Bearer'', expires_in = 3600,
                   refresh_token = Some ''new-refresh''\<rparr>,
              snd (auth_post (token_env (Some ''new-refresh''))
                     (refresh_entries demo_options ''old-refresh'') (fresh_state ())))"
    by (simp add: auth_post_eq token_env_def)
  from refresh_keeps_token [OF a] refresh_keeps_token [OF b] show ?thesis
    by auto
qed

section \<open>Strings, the URN codec and type selection\<close>

lemma starts_with_iff: "starts_with p s \<longleftrightarrow> (\<exists>post. s = p @ post)"
  by (induction p s rule: starts_with.induct) auto

lemma str_includes_iff: "str_includes s p \<longleftrightarrow> (\<exists>pre post. s = pre @ p @ post)"
proof (induction s)
  case Nil
  then show ?case by auto
next
  case (Cons c cs)
  show ?case
  proof
    assume "str_includes (c # cs) p"
    then consider "starts_with p (c # cs)" | "str_includes cs p" by auto
    then show "\<exists>pre post. c # cs = pre @ p @ post"
    proof cases
      case 1
      then obtain post where "c # cs = p @ post" by (auto simp: starts_with_iff)
      then have "c # cs = [] @ p @ post" by simp
      then show ?thesis by blast
    next
      case 2
      with Cons obtain pre post where "cs = pre @ p @ post" by auto
      then have "c # cs = (c # pre) @ p @ post" by simp
      then show ?thesis by blast
    qed
  next
    assume "\<exists>pre post. c # cs = pre @ p @ post"
    then obtain pre post where eq: "c # cs = pre @ p @ post" by auto
    show "str_includes (c # cs) p"
    proof (cases pre)
      case Nil
      with eq have "starts_with p (c # cs)" by (auto simp: starts_with_iff)
      then show ?thesis by simp
    next
      case (Cons a pre')
      with eq have "cs = pre' @ p @ post" by simp
      with Cons.IH have "str_includes cs p" by blast
      then show ?thesis by simp
    qed
  qed
qed

lemma strip_prefix_iff: "strip_prefix p s = Some r \<longleftrightarrow> s = p @ r"
  by (induction p s rule: strip_prefix.induct) auto

lemma split_at_slash:
  assumes "CHR ''/'' \<notin> set b"
  shows "takeWhile (\<lambda>c. c \<noteq> CHR ''/'') (b @ CHR ''/'' # rest) = b"
    and "dropWhile (\<lambda>c. c \<noteq> CHR ''/'') (b @ CHR ''/'' # rest) = CHR ''/'' # rest"
  using assms by (induction b) auto

lemma split_at_slash_conv:
  assumes "dropWhile (\<lambda>c. c \<noteq> CHR ''/'') r = slash # rest"
  shows "r = takeWhile (\<lambda>c. c \<noteq> CHR ''/'') r @ CHR ''/'' # rest"
    and "CHR ''/'' \<notin> set (takeWhile (\<lambda>c. c \<noteq> CHR ''/'') r)"
proof -
  have "\<not> (hd (dropWhile (\<lambda>c. c \<noteq> CHR ''/'') r) \<noteq> CHR ''/'')"
    using assms hd_dropWhile [of "\<lambda>c. c \<noteq> CHR ''/''" r] by simp
  with assms have "slash = CHR ''/''" by simp
  moreover have "r = takeWhile (\<lambda>c. c \<noteq> CHR ''/'') r @ dropWhile (\<lambda>c. c \<noteq> CHR ''/'') r"
    by simp
  ultimately show "r = takeWhile (\<lambda>c. c \<noteq> CHR ''/'') r @ CHR ''/'' # rest"
    using assms by simp
  show "CHR ''/'' \<notin> set (takeWhile (\<lambda>c. c \<noteq> CHR ''/'') r)"
    by (auto dest: set_takeWhileD)
qed

lemma dot_run_empty: "dot_run rest = [] \<longleftrightarrow> rest = [] \<or> line_terminator_at rest"
  by (cases rest) auto

lemma dot_run_prefix:
  "\<exists>tail. rest = dot_run rest @ tail \<and> (tail = [] \<or> line_terminator_at tail)"
  by (induction rest rule: dot_run.induct) auto

lemma dot_run_no_terminator:
  "i < length (dot_run rest) \<Longrightarrow> \<not> line_terminator_at (drop i rest)"
proof (induction rest arbitrary: i rule: dot_run.induct)
  case 1
  then show ?case by simp
next
  case (2 c cs)
  then show ?case by (cases i) (auto split: if_splits)
qed

lemma match_urn_at_iff:
  "match_urn_at s = Some (b, k) \<longleftrightarrow>
     (\<exists>rest. s = urn_prefix @ b @ CHR ''/'' # rest \<and> b \<noteq> [] \<and> CHR ''/'' \<notin> set b \<and>
             k = dot_run rest \<and> k \<noteq> [])"
proof
  assume m: "match_urn_at s = Some (b, k)"
  then obtain r where r: "strip_prefix urn_prefix s = Some r"
    by (auto simp: match_urn_at_def split: option.splits)
  from m r have b: "b = takeWhile (\<lambda>c. c \<noteq> CHR ''/'') r" "b \<noteq> []"
    by (auto simp: match_urn_at_def Let_def split: list.splits if_splits)
  from m r obtain slash rest
    where d: "dropWhile (\<lambda>c. c \<noteq> CHR ''/'') r = slash # rest" "k = dot_run rest" "k \<noteq> []"
    by (auto simp: match_urn_at_def Let_def split: list.splits if_splits)
  from split_at_slash_conv [OF d(1)] b(1)
  have split: "r = b @ CHR ''/'' # rest" and noslash: "CHR ''/'' \<notin> set b" by simp_all
  from r have "s = urn_prefix @ r" by (simp add: strip_prefix_iff)
  with split have "s = urn_prefix @ b @ CHR ''/'' # rest" by simp
  with noslash b(2) d(2,3) show "\<exists>rest. s = urn_prefix @ b @ CHR ''/'' # rest \<and> b \<noteq> [] \<and>
      CHR ''/'' \<notin> set b \<and> k = dot_run rest \<and> k \<noteq> []"
    by blast
next
  assume "\<exists>rest. s = urn_prefix @ b @ CHR ''/'' # rest \<and> b \<noteq> [] \<and> CHR ''/'' \<notin> set b \<and>
             k = dot_run rest \<and> k \<noteq> []"
  then obtain rest where s: "s = urn_prefix @ b @ CHR ''/'' # rest"
    and b: "b \<noteq> []" "CHR ''/'' \<notin> set b" and k: "k = dot_run rest" "k \<noteq> []" by auto
  from s have "strip_prefix urn_prefix s = Some (b @ CHR ''/'' # rest)"
    by (simp add: strip_prefix_iff)
  then show "match_urn_at s = Some (b, k)"
    using b k by (simp add: match_urn_at_def split_at_slash)
qed

lemma match_urn_at_Nil: "match_urn_at [] = None"
  by (simp add: match_urn_at_def urn_prefix_def)

lemma urn_match_whole: "match_urn_at s = Some g \<Longrightarrow> urn_match s = Some g"
  by (cases s) (simp_all add: match_urn_at_Nil)

lemma urn_match_Some_iff:
  "(\<exists>g. urn_match s = Some g) \<longleftrightarrow> (\<exists>pre post g. s = pre @ post \<and> match_urn_at post = Some g)"
proof (induction s)
  case Nil
  then show ?case by (simp add: match_urn_at_Nil)
next
  case (Cons c cs)
  show ?case
  proof (cases "match_urn_at (c # cs)")
    case (Some g)
    then have "c # cs = [] @ (c # cs) \<and> match_urn_at (c # cs) = Some g" by simp
    then have "\<exists>pre post g. c # cs = pre @ post \<and> match_urn_at post = Some g" by blast
    with Some show ?thesis by simp
  next
    case None
    have "(\<exists>pre post g. c # cs = pre @ post \<and> match_urn_at post = Some g) \<longleftrightarrow>
          (\<exists>pre post g. cs = pre @ post \<and> match_urn_at post = Some g)"
    proof
      assume "\<exists>pre post g. c # cs = pre @ post \<and> match_urn_at post = Some g"
      then obtain pre post g where e: "c # cs = pre @ post" "match_urn_at post = Some g"
        by auto
      show "\<exists>pre post g. cs = pre @ post \<and> match_urn_at post = Some g"
      proof (cases pre)
        case Nil
        with e None show ?thesis by simp
      next
        case (Cons a pre')
        with e have "cs = pre' @ post" by simp
        with e(2) show ?thesis by blast
      qed
    next
      assume "\<exists>pre post g. cs = pre @ post \<and> match_urn_at post = Some g"
      then obtain pre post g where e: "cs = pre @ post" "match_urn_at post = Some g" by auto
      then have "c # cs = (c # pre) @ post" by simp
      with e(2) show "\<exists>pre post g. c # cs = pre @ post \<and> match_urn_at post = Some g"
        by blast
    qed
    with None Cons.IH show ?thesis by simp
  qed
qed

lemma spec_decode_iff:
  "spec_decode s = Some (b, rest) \<longleftrightarrow>
     s = urn_prefix @ b @ CHR ''/'' # rest \<and> b \<noteq> [] \<and> CHR ''/'' \<notin> set b \<and> rest \<noteq> []"
proof
  assume m: "spec_decode s = Some (b, rest)"
  then obtain r where r: "strip_prefix urn_prefix s = Some r"
    by (auto simp: spec_decode_def split: option.splits)
  from m r obtain slash
    where d: "dropWhile (\<lambda>c. c \<noteq> CHR ''/'') r = slash # rest"
      and b: "b = takeWhile (\<lambda>c. c \<noteq> CHR ''/'') r" "b \<noteq> []" "rest \<noteq> []"
    by (auto simp: spec_decode_def split: list.splits if_splits)
  from split_at_slash_conv [OF d] b(1)
  have split: "r = b @ CHR ''/'' # rest" and noslash: "CHR ''/'' \<notin> set b" by simp_all
  from r have "s = urn_prefix @ r" by (simp add: strip_prefix_iff)
  with split have "s = urn_prefix @ b @ CHR ''/'' # rest" by simp
  with noslash b(2,3)
  show "s = urn_prefix @ b @ CHR ''/'' # rest \<and> b \<noteq> [] \<and> CHR ''/'' \<notin> set b \<and> rest \<noteq> []"
    by blast
next
  assume a: "s = urn_prefix @ b @ CHR ''/'' # rest \<and> b \<noteq> [] \<and> CHR ''/'' \<notin> set b \<and> rest \<noteq> []"
  then have "strip_prefix urn_prefix s = Some (b @ CHR ''/'' # rest)"
    by (simp add: strip_prefix_iff)
  with a show "spec_decode s = Some (b, rest)"
    by (simp add: spec_decode_def split_at_slash)
qed

lemma decode_failure_aborts:
  assumes "urn_match objectId = None"
  shows "getSignedUploadUrl env (JStr objectId) s
           = (Inl (BadRequestException ''Invalid object ID format''), s)"
    and "completeUpload env (JStr objectId) uploadKey s
           = (Inl (BadRequestException ''Invalid object ID format''), s)"
    and "uploadToStorage env (JStr objectId) fileBuffer contentTypeArg s
           = (Inl (BadRequestException ''Invalid object ID format''), s)"
  using assms
  by (simp_all add: getSignedUploadUrl_def completeUpload_def uploadToStorage_def
                    bind_prog_def catch_prog_def)

lemma decode_success_requests:
  assumes "urn_match objectId = Some (b, k)"
  shows "emits (getSignedUploadUrl env (JStr objectId))
           (\<lambda>r. client r = AuthClient \<or> (\<exists>token. r = with_bearer token (signed_url_request b k)))"
    and "emits (completeUpload env (JStr objectId) uploadKey)
           (\<lambda>r. client r = AuthClient
                 \<or> (\<exists>token. r = with_bearer token (finalize_request b k uploadKey)))"
    and "emits (uploadToStorage env (JStr objectId) fileBuffer contentTypeArg)
           (\<lambda>r. client r = AuthClient
                 \<or> (\<exists>token. r = with_bearer token
                       (object_put_request b k fileBuffer
                          (case contentTypeArg of None \<Rightarrow> ''application/octet-stream''
                                                | Some given \<Rightarrow> given))))"
proof -
  show "emits (getSignedUploadUrl env (JStr objectId))
           (\<lambda>r. client r = AuthClient \<or> (\<exists>token. r = with_bearer token (signed_url_request b k)))"
    using assms by (simp add: getSignedUploadUrl_def)
       (intro emits_bind emits_lift emits_data_request emits_return;
        auto simp: token_request_def)
  show "emits (completeUpload env (JStr objectId) uploadKey)
           (\<lambda>r. client r = AuthClient
                 \<or> (\<exists>token. r = with_bearer token (finalize_request b k uploadKey)))"
    using assms by (simp add: completeUpload_def)
       (intro emits_bind emits_lift emits_data_request emits_return;
        auto simp: token_request_def)
  show "emits (uploadToStorage env (JStr objectId) fileBuffer contentTypeArg)
           (\<lambda>r. client r = AuthClient
                 \<or> (\<exists>token. r = with_bearer token
                       (object_put_request b k fileBuffer
                          (case contentTypeArg of None \<Rightarrow> ''application/octet-stream''
                                                | Some given \<Rightarrow> given))))"
    using assms by (simp add: uploadToStorage_def)
       (intro emits_bind emits_lift emits_data_request emits_return;
        auto simp: token_request_def)
qed

text \<open>
  C6, as stated, fails twice. The expression is not anchored: an id with text in front of
  the URN does not have the form, yet it decodes. And \<^verbatim>\<open>.\<close> stops at a line terminator:
  for an id of the form whose object part holds a line feed, the object key is not the
  remainder but its first line.
\<close>

theorem urn_decoding_counterexample:
  "spec_decode ''xurn:adsk.objects:os.object:b/o'' = None \<and>
   decode_object_id (JStr ''xurn:adsk.objects:os.object:b/o'') = Inr (''b'', ''o'') \<and>
   spec_decode (''urn:adsk.objects:os.object:b/o'' @ [CHR 0x0A] @ ''x'')
     = Some (''b'', ''o'' @ [CHR 0x0A] @ ''x'') \<and>
   decode_object_id (JStr (''urn:adsk.objects:os.object:b/o'' @ [CHR 0x0A] @ ''x''))
     = Inr (''b'', ''o'')"
  by (simp add: spec_decode_def match_urn_at_def urn_prefix_def line_terminator_at_def)

text \<open>
  C6, amended. Decoding succeeds exactly when the id contains, at any position, the
  prefix \<^verbatim>\<open>urn:adsk.objects:os.object:\<close> followed by a non-empty bucket without slash,
  a slash, and a remainder that is non-empty and does not begin with a line terminator.
  When the id as a whole has the specified form and its remainder does not begin with a
  line terminator, the bucket key is the bucket part and the object key is the remainder
  up to its first line terminator (all of it when there is none). When nothing matches,
  the decoding fails with the BadRequestException \<^verbatim>\<open>Invalid object ID format\<close>, and so do
  \<^verbatim>\<open>getSignedUploadUrl\<close>, \<^verbatim>\<open>completeUpload\<close> and \<^verbatim>\<open>uploadToStorage\<close>, before anything is
  sent; when it matches, each of the three sends its request for the decoded bucket key
  and object key.
\<close>

theorem urn_decoding:
  "((\<exists>groups. urn_match objectId = Some groups) \<longleftrightarrow>
      (\<exists>pre b rest. objectId = pre @ urn_prefix @ b @ CHR ''/'' # rest \<and> b \<noteq> [] \<and>
         CHR ''/'' \<notin> set b \<and> rest \<noteq> [] \<and> \<not> line_terminator_at rest)) \<and>
   (\<forall>b rest. spec_decode objectId = Some (b, rest) \<and> \<not> line_terminator_at rest \<longrightarrow>
      decode_object_id (JStr objectId) = Inr (b, dot_run rest) \<and>
      (\<exists>tail. rest = dot_run rest @ tail \<and> (tail = [] \<or> line_terminator_at tail)) \<and>
      (\<forall>i < length (dot_run rest). \<not> line_terminator_at (drop i rest))) \<and>
   (urn_match objectId = None \<longrightarrow>
      decode_object_id (JStr objectId) = Inl (BadRequestException ''Invalid object ID format'') \<and>
      getSignedUploadUrl env (JStr objectId) s
        = (Inl (BadRequestException ''Invalid object ID format''), s) \<and>
      completeUpload env (JStr objectId) uploadKey s
        = (Inl (BadRequestException ''Invalid object ID format''), s) \<and>
      uploadToStorage env (JStr objectId) fileBuffer contentTypeArg s
        = (Inl (BadRequestException ''Invalid object ID format''), s)) \<and>
   (\<forall>b k. urn_match objectId = Some (b, k) \<longrightarrow>
      emits (getSignedUploadUrl env (JStr objectId))
        (\<lambda>r. client r = AuthClient \<or> (\<exists>token. r = with_bearer token (signed_url_request b k))) \<and>
      emits (completeUpload env (JStr objectId) uploadKey)
        (\<lambda>r. client r = AuthClient
              \<or> (\<exists>token. r = with_bearer token (finalize_request b k uploadKey))) \<and>
      emits (uploadToStorage env (JStr objectId) fileBuffer contentTypeArg)
        (\<lambda>r. client r = AuthClient
              \<or> (\<exists>token. r = with_bearer token
                    (object_put_request b k fileBuffer
                       (case contentTypeArg of None \<Rightarrow> ''application/octet-stream''
                                             | Some given \<Rightarrow> given)))))"
proof (intro conjI allI impI)
  show "(\<exists>groups. urn_match objectId = Some groups) \<longleftrightarrow>
      (\<exists>pre b rest. objectId = pre @ urn_prefix @ b @ CHR ''/'' # rest \<and> b \<noteq> [] \<and>
         CHR ''/'' \<notin> set b \<and> rest \<noteq> [] \<and> \<not> line_terminator_at rest)"
  proof
    assume "\<exists>groups. urn_match objectId = Some groups"
    then obtain pre post b k where "objectId = pre @ post" and "match_urn_at post = Some (b, k)"
      unfolding urn_match_Some_iff by auto
    moreover from this obtain rest
      where "post = urn_prefix @ b @ CHR ''/'' # rest" "b \<noteq> []" "CHR ''/'' \<notin> set b"
            "dot_run rest \<noteq> []"
      unfolding match_urn_at_iff by auto
    ultimately have "objectId = pre @ urn_prefix @ b @ CHR ''/'' # rest \<and> b \<noteq> [] \<and>
         CHR ''/'' \<notin> set b \<and> rest \<noteq> [] \<and> \<not> line_terminator_at rest"
      by (simp add: dot_run_empty)
    then show "\<exists>pre b rest. objectId = pre @ urn_prefix @ b @ CHR ''/'' # rest \<and> b \<noteq> [] \<and>
         CHR ''/'' \<notin> set b \<and> rest \<noteq> [] \<and> \<not> line_terminator_at rest"
      by blast
  next
    assume "\<exists>pre b rest. objectId = pre @ urn_prefix @ b @ CHR ''/'' # rest \<and> b \<noteq> [] \<and>
         CHR ''/'' \<notin> set b \<and> rest \<noteq> [] \<and> \<not> line_terminator_at rest"
    then obtain pre b rest
      where form: "objectId = pre @ (urn_prefix @ b @ CHR ''/'' # rest)"
        and b: "b \<noteq> []" "CHR ''/'' \<notin> set b" and rest: "dot_run rest \<noteq> []"
      by (auto simp: dot_run_empty)
    from b rest have "match_urn_at (urn_prefix @ b @ CHR ''/'' # rest) = Some (b, dot_run rest)"
      unfolding match_urn_at_iff by blast
    with form show "\<exists>groups. urn_match objectId = Some groups"
      unfolding urn_match_Some_iff by blast
  qed
next
  fix b rest
  assume a: "spec_decode objectId = Some (b, rest) \<and> \<not> line_terminator_at rest"
  then have form: "objectId = urn_prefix @ b @ CHR ''/'' # rest" "b \<noteq> []" "CHR ''/'' \<notin> set b"
    and "rest \<noteq> []"
    by (simp_all add: spec_decode_iff)
  with a have "dot_run rest \<noteq> []" by (simp add: dot_run_empty)
  with form have "match_urn_at objectId = Some (b, dot_run rest)"
    unfolding match_urn_at_iff by blast
  then have "urn_match objectId = Some (b, dot_run rest)" by (rule urn_match_whole)
  then show "decode_object_id (JStr objectId) = Inr (b, dot_run rest)" by simp
  show "\<exists>tail. rest = dot_run rest @ tail \<and> (tail = [] \<or> line_terminator_at tail)"
    by (rule dot_run_prefix)
  fix i
  assume "i < length (dot_run rest)"
  then show "\<not> line_terminator_at (drop i rest)" by (rule dot_run_no_terminator)
next
  assume none: "urn_match objectId = None"
  then show "decode_object_id (JStr objectId)
               = Inl (BadRequestException ''Invalid object ID format'')" by simp
  from none show "getSignedUploadUrl env (JStr objectId) s
        = (Inl (BadRequestException ''Invalid object ID format''), s)"
    by (rule decode_failure_aborts)
  from none show "completeUpload env (JStr objectId) uploadKey s
        = (Inl (BadRequestException ''Invalid object ID format''), s)"
    by (rule decode_failure_aborts)
  from none show "uploadToStorage env (JStr objectId) fileBuffer contentTypeArg s
        = (Inl (BadRequestException ''Invalid object ID format''), s)"
    by (rule decode_failure_aborts)
next
  fix b k
  assume some: "urn_match objectId = Some (b, k)"
  then show "emits (getSignedUploadUrl env (JStr objectId))
        (\<lambda>r. client r = AuthClient \<or> (\<exists>token. r = with_bearer token (signed_url_request b k)))"
    by (rule decode_success_requests)
  from some show "emits (completeUpload env (JStr objectId) uploadKey)
        (\<lambda>r. client r = AuthClient
              \<or> (\<exists>token. r = with_bearer token (finalize_request b k uploadKey)))"
    by (rule decode_success_requests)
  from some show "emits (uploadToStorage env (JStr objectId) fileBuffer contentTypeArg)
        (\<lambda>r. client r = AuthClient
              \<or> (\<exists>token. r = with_bearer token
                    (object_put_request b k fileBuffer
                       (case contentTypeArg of None \<Rightarrow> ''application/octet-stream''
                                             | Some given \<Rightarrow> given))))"
    by (rule decode_success_requests)
qed

theorem urn_decoding_witness:
  "decode_object_id (JStr ''urn:adsk.objects:os.object:bucketA/obj%2Fpath'')
     = Inr (''bucketA'', ''obj%2Fpath'') \<and>
   decode_object_id (JStr ''not-a-urn'')
     = Inl (BadRequestException ''Invalid object ID format'') \<and>
   getSignedUploadUrl upload_env (JStr ''not-a-urn'') (fresh_state 5)
     = (Inl (BadRequestException ''Invalid object ID format''), fresh_state 5) \<and>
   completeUpload upload_env (JStr ''not-a-urn'') (JStr ''key-123'') (fresh_state 5)
     = (Inl (BadRequestException ''Invalid object ID format''), fresh_state 5) \<and>
   uploadToStorage upload_env (JStr ''not-a-urn'') ''0123456789'' None (fresh_state 5)
     = (Inl (BadRequestException ''Invalid object ID format''), fresh_state 5)"
proof -
  have form: "spec_decode ''urn:adsk.objects:os.object:bucketA/obj%2Fpath''
                = Some (''bucketA'', ''obj%2Fpath'') \<and> \<not> line_terminator_at ''obj%2Fpath''"
    by (simp add: spec_decode_def urn_prefix_def line_terminator_at_def)
  have run: "dot_run ''obj%2Fpath'' = ''obj%2Fpath''"
    by (simp add: line_terminator_at_def)
  have none: "urn_match ''not-a-urn'' = None"
    by (simp add: match_urn_at_def urn_prefix_def)
  have "decode_object_id (JStr ''urn:adsk.objects:os.object:bucketA/obj%2Fpath'')
          = Inr (''bucketA'', dot_run ''obj%2Fpath'')"
    by (rule urn_decoding [THEN conjunct2, THEN conjunct1, rule_format, THEN conjunct1, OF form])
  then have good: "decode_object_id (JStr ''urn:adsk.objects:os.object:bucketA/obj%2Fpath'')
          = Inr (''bucketA'', ''obj%2Fpath'')"
    unfolding run .
  have bad: "decode_object_id (JStr ''not-a-urn'')
          = Inl (BadRequestException ''Invalid object ID format'') \<and>
        getSignedUploadUrl upload_env (JStr ''not-a-urn'') (fresh_state 5)
          = (Inl (BadRequestException ''Invalid object ID format''), fresh_state 5) \<and>
        completeUpload upload_env (JStr ''not-a-urn'') (JStr ''key-123'') (fresh_state 5)
          = (Inl (BadRequestException ''Invalid object ID format''), fresh_state 5) \<and>
        uploadToStorage upload_env (JStr ''not-a-urn'') ''0123456789'' None (fresh_state 5)
          = (Inl (BadRequestException ''Invalid object ID format''), fresh_state 5)"
    by (rule urn_decoding [THEN conjunct2, THEN conjunct2, THEN conjunct1, rule_format, OF none])
  show ?thesis by (rule conjI [OF good bad])
qed

section \<open>Type selection\<close>

lemma select_kind_string:
  assumes "parent_extension_type parentFolder = Inr (JStr t)"
  shows "select_kind bim360_kind core_kind parentFolder =
           Inr (if str_includes t ''bim360'' then bim360_kind
                else if str_includes t ''core'' then core_kind else bim360_kind)"
proof (cases "t = []")
  case True
  with assms show ?thesis by (simp add: select_kind_def)
next
  case False
  with assms show ?thesis by (simp add: select_kind_def)
qed

lemma select_kind_falsy:
  assumes "parent_extension_type parentFolder = Inr v" and "\<not> truthy v"
  shows "select_kind bim360_kind core_kind parentFolder = Inr bim360_kind"
  using assms by (simp add: select_kind_def)

section \<open>The requests of each operation\<close>

lemma emits_weaken:
  assumes "emits m P" and "\<And>r. P r \<Longrightarrow> Q r"
  shows "emits m Q"
  using assms unfolding emits_def by blast

lemma emits_getFolder:
  assumes "\<And>entries. P (token_request entries)"
    and "\<And>token. P (with_bearer token (folder_request projectId folderId))"
  shows "emits (getFolder env projectId folderId) P"
  unfolding getFolder_def
  by (intro emits_catch emits_bind emits_lift emits_throw emits_data_request assms)

lemma emits_getFolderContents:
  assumes "\<And>entries. P (token_request entries)"
    and "\<And>token. P (with_bearer token (folder_contents_request projectId folderId))"
  shows "emits (getFolderContents env projectId folderId) P"
  unfolding getFolderContents_def
  by (intro emits_catch emits_bind emits_lift emits_throw emits_return emits_data_request assms)

lemma emits_createFolder:
  assumes "\<And>entries. P (token_request entries)"
    and "\<And>token. P (with_bearer token (folder_request projectId parentFolderId))"
    and "\<And>token extensionType.
           P (with_bearer token
                (create_folder_request projectId folderName extensionType parentFolderId))"
  shows "emits (createFolder env projectId parentFolderId folderName) P"
  unfolding createFolder_def
  by (intro emits_catch emits_bind emits_lift emits_throw emits_getFolder
            emits_data_request assms)

lemma emits_createStorage:
  assumes "\<And>entries. P (token_request entries)"
    and "\<And>token. P (with_bearer token (storage_request projectId folderId fileName))"
  shows "emits (createStorage env projectId folderId fileName) P"
  unfolding createStorage_def
  by (intro emits_bind emits_lift emits_data_request assms)

lemma emits_getSignedUploadUrl:
  assumes "\<And>entries. P (token_request entries)"
    and "\<And>token b k. decode_object_id objectId = Inr (b, k) \<Longrightarrow>
           P (with_bearer token (signed_url_request b k))"
  shows "emits (getSignedUploadUrl env objectId) P"
proof (cases "decode_object_id objectId")
  case (Inl e)
  then show ?thesis by (simp add: getSignedUploadUrl_def)
next
  case (Inr groups)
  obtain b k where "groups = (b, k)" by (cases groups)
  with Inr have d: "decode_object_id objectId = Inr (b, k)" by simp
  show ?thesis
    unfolding getSignedUploadUrl_def d
    by (simp, intro emits_bind emits_lift emits_return emits_data_request assms d)
qed

lemma emits_completeUpload:
  assumes "\<And>entries. P (token_request entries)"
    and "\<And>token b k. decode_object_id objectId = Inr (b, k) \<Longrightarrow>
           P (with_bearer token (finalize_request b k uploadKey))"
  shows "emits (completeUpload env objectId uploadKey) P"
proof (cases "decode_object_id objectId")
  case (Inl e)
  then show ?thesis by (simp add: completeUpload_def)
next
  case (Inr groups)
  obtain b k where "groups = (b, k)" by (cases groups)
  with Inr have d: "decode_object_id objectId = Inr (b, k)" by simp
  show ?thesis
    unfolding completeUpload_def d
    by (simp, intro emits_bind emits_lift emits_return emits_data_request assms d)
qed

lemma emits_uploadToSignedUrl:
  assumes "P (put_request signedUrl fileBuffer
                (case contentTypeArg of None \<Rightarrow> ''application/octet-stream''
                                      | Some given \<Rightarrow> given))"
  shows "emits (uploadToSignedUrl env signedUrl fileBuffer contentTypeArg) P"
  unfolding uploadToSignedUrl_def Let_def
  by (intro emits_catch emits_bind emits_throw emits_return emits_send_request assms)

lemma emits_createFirstVersion:
  assumes "\<And>entries. P (token_request entries)"
    and "\<And>token. P (with_bearer token (folder_request projectId folderId))"
    and "\<And>token itemType versionType.
           P (with_bearer token
                (item_request projectId fileName folderId itemType versionType objectId))"
  shows "emits (createFirstVersion env projectId folderId fileName objectId) P"
  unfolding createFirstVersion_def
  by (intro emits_catch emits_bind emits_lift emits_throw emits_case_prod emits_getFolder
            emits_data_request assms)

text \<open>After stages 1 and 2: transfer, finalize, publish, and the handler of the whole.\<close>

lemma emits_upload_rest:
  assumes "\<And>entries. P (token_request entries)"
    and "P (put_request signedUrl fileBuffer
              (case contentTypeArg of None \<Rightarrow> ''application/octet-stream''
                                    | Some given \<Rightarrow> given))"
    and "\<And>token b k. decode_object_id objectId = Inr (b, k) \<Longrightarrow>
           P (with_bearer token (finalize_request b k uploadKey))"
    and "\<And>token. P (with_bearer token (folder_request projectId folderId))"
    and "\<And>token itemType versionType.
           P (with_bearer token
                (item_request projectId fileName folderId itemType versionType objectId))"
  shows "emits
     (catch_prog
        (bind_prog (uploadToSignedUrl env signedUrl fileBuffer contentTypeArg) (\<lambda>done_transfer.
         bind_prog (completeUpload env objectId uploadKey) (\<lambda>done_finalize.
         createFirstVersion env projectId folderId fileName objectId)))
        (\<lambda>error. throw_prog (BadRequestException
                    (''Failed to upload file: '' @ error_message error)))) P"
  by (intro emits_catch emits_bind emits_throw emits_uploadToSignedUrl emits_completeUpload
            emits_createFirstVersion assms)

lemma emits_uploadFile:
  assumes "\<And>entries. P (token_request entries)"
    and "\<And>token. P (with_bearer token (storage_request projectId folderId fileName))"
    and "\<And>token b k. P (with_bearer token (signed_url_request b k))"
    and "\<And>signedUrl. P (put_request signedUrl fileBuffer
              (case contentTypeArg of None \<Rightarrow> ''application/octet-stream''
                                    | Some given \<Rightarrow> given))"
    and "\<And>token b k uploadKey. P (with_bearer token (finalize_request b k uploadKey))"
    and "\<And>token. P (with_bearer token (folder_request projectId folderId))"
    and "\<And>token itemType versionType objectId.
           P (with_bearer token
                (item_request projectId fileName folderId itemType versionType objectId))"
  shows "emits (uploadFile env
                  (UploadFileOptions fileName folderId projectId fileBuffer contentTypeArg)) P"
  unfolding uploadFile.simps
  by (intro emits_catch emits_bind emits_lift emits_throw emits_case_prod emits_createStorage
            emits_getSignedUploadUrl emits_uploadToSignedUrl emits_completeUpload
            emits_createFirstVersion assms)

lemma emits_getOrCreateFolder:
  assumes "\<And>entries. P (token_request entries)"
    and "\<And>token. P (with_bearer token (folder_contents_request projectId parentFolderId))"
    and "\<And>token. P (with_bearer token (folder_request projectId parentFolderId))"
    and "\<And>token extensionType.
           P (with_bearer token
                (create_folder_request projectId folderName extensionType parentFolderId))"
  shows "emits (getOrCreateFolder env projectId parentFolderId folderName) P"
proof -
  have "emits (case found of Some existingFolder \<Rightarrow> return_prog existingFolder
                | None \<Rightarrow> createFolder env projectId parentFolderId folderName) P"
    for found :: "jsval option"
    by (cases found) (simp_all add: emits_createFolder assms)
  then show ?thesis
    unfolding getOrCreateFolder_def
    by (intro emits_catch emits_bind emits_throw emits_case_prod emits_getFolderContents assms)
qed

subsection \<open>Exact traces of successful steps\<close>

lemma api_requests_append [simp]: "api_requests (xs @ ys) = api_requests xs @ api_requests ys"
  by (simp add: api_requests_def)

lemma api_requests_auth_only:
  "\<forall>r \<in> set g. client r = AuthClient \<Longrightarrow> api_requests g = []"
  by (induction g) (auto simp: api_requests_def)

lemma api_requests_single: "client r \<noteq> AuthClient \<Longrightarrow> api_requests [r] = [r]"
  by (simp add: api_requests_def)

lemma client_with_bearer [simp]: "client (with_bearer token r) = client r"
  by (simp add: with_bearer_def)

lemma verb_with_bearer [simp]: "verb (with_bearer token r) = verb r"
  by (simp add: with_bearer_def)

lemma url_with_bearer [simp]: "url (with_bearer token r) = url r"
  by (simp add: with_bearer_def)

lemma body_with_bearer [simp]: "body (with_bearer token r) = body r"
  by (simp add: with_bearer_def)

lemma new_requests_append: "trace s' = trace s @ ext \<Longrightarrow> new_requests s s' = ext"
  by (simp add: new_requests_def)

lemma authenticate_trace:
  assumes "authenticate env s = (res, s1)"
  obtains g where "trace s1 = trace s @ g" and "api_requests g = []"
proof -
  have "emits (authenticate env) (\<lambda>r. client r = AuthClient)"
    by (rule emits_authenticate) (simp add: token_request_def)
  from this assms obtain g where "trace s1 = trace s @ g" and "\<forall>r \<in> set g. client r = AuthClient"
    by (rule emitsD)
  with that show thesis by (simp add: api_requests_auth_only)
qed

lemma send_request_trace:
  "send_request env request s = (res, s1) \<Longrightarrow> trace s1 = trace s @ [request]"
  by (auto simp: send_request_def split: prod.splits)

text \<open>
  A call of the data client adds, after at most a token grant, either nothing (the token
  could not be had, and the call fails) or exactly its request, with the bearer header.
\<close>

lemma data_request_trace:
  assumes "data_request env request s = (res, s1)" and "client request \<noteq> AuthClient"
  obtains (unsent) e ext where "res = Inl e" and "trace s1 = trace s @ ext"
      and "api_requests ext = []"
    | (sent) token ext where "trace s1 = trace s @ ext"
      and "api_requests ext = [with_bearer token request]"
proof -
  from assms(1) show thesis
    unfolding data_request_def getAccessToken_def
  proof (cases rule: bind_prog_cases)
    case (failed e)
    from failed(1) obtain g where "trace s1 = trace s @ g" and "api_requests g = []"
      by (rule authenticate_trace)
    with failed(2) unsent show thesis by blast
  next
    case (continued token s0)
    from continued(1) obtain g where g: "trace s0 = trace s @ g" "api_requests g = []"
      by (rule authenticate_trace)
    from continued(2) have "trace s1 = trace s0 @ [with_bearer token request]"
      by (rule send_request_trace)
    with g have "trace s1 = trace s @ (g @ [with_bearer token request])"
      and "api_requests (g @ [with_bearer token request]) = [with_bearer token request]"
      using assms(2) by (simp_all add: api_requests_single)
    with sent show thesis by blast
  qed
qed

lemma data_request_success:
  assumes "data_request env request s = (Inr response_data, s1)"
    and "client request \<noteq> AuthClient"
  obtains token ext where "trace s1 = trace s @ ext"
    and "api_requests ext = [with_bearer token request]"
  using assms by (cases rule: data_request_trace) auto

subsection \<open>Successful stages\<close>

lemma decode_object_id_Inr:
  assumes "decode_object_id objectId = Inr (b, k)"
  obtains sid where "objectId = JStr sid" and "urn_match sid = Some (b, k)"
  using assms by (cases objectId) (auto split: option.splits)

lemma createStorage_success:
  assumes "createStorage env projectId folderId fileName s = (Inr storage, s1)"
  obtains token ext where "trace s1 = trace s @ ext"
    and "api_requests ext = [with_bearer token (storage_request projectId folderId fileName)]"
  using assms unfolding createStorage_def
proof (cases rule: bind_prog_cases)
  case (failed e)
  then show thesis by simp
next
  case (continued response_data s0)
  from continued(2) have "s1 = s0" by simp
  with continued(1) that show thesis
    by (auto elim!: data_request_success simp: storage_request_def)
qed

lemma getSignedUploadUrl_success:
  assumes "getSignedUploadUrl env objectId s = (Inr (signedUrl, uploadKey), s1)"
  obtains b k token ext where "decode_object_id objectId = Inr (b, k)"
    and "trace s1 = trace s @ ext"
    and "api_requests ext = [with_bearer token (signed_url_request b k)]"
proof (cases "decode_object_id objectId")
  case (Inl e)
  with assms show thesis by (simp add: getSignedUploadUrl_def)
next
  case (Inr groups)
  obtain b k where "groups = (b, k)" by (cases groups)
  with Inr have d: "decode_object_id objectId = Inr (b, k)" by simp
  from assms have "bind_prog (data_request env (signed_url_request b k))
          (\<lambda>response_data.
             bind_prog (lift_prog (js_prop response_data ''urls'')) (\<lambda>urls.
             bind_prog (lift_prog (js_first urls)) (\<lambda>signedUrl.
             bind_prog (lift_prog (js_prop response_data ''uploadKey'')) (\<lambda>uploadKey.
             return_prog (signedUrl, uploadKey))))) s = (Inr (signedUrl, uploadKey), s1)"
    by (simp add: getSignedUploadUrl_def d)
  then show thesis
  proof (cases rule: bind_prog_cases)
    case (failed e)
    then show ?thesis by simp
  next
    case (continued response_data s0)
    from continued(2) have "s1 = s0"
      by (auto simp: bind_prog_def split: sum.splits)
    with continued(1) d that show thesis
      by (auto elim!: data_request_success simp: signed_url_request_def)
  qed
qed

lemma uploadToSignedUrl_trace:
  assumes "uploadToSignedUrl env signedUrl fileBuffer contentTypeArg s = (res, s1)"
  shows "trace s1 = trace s @ [put_request signedUrl fileBuffer
            (case contentTypeArg of None \<Rightarrow> ''application/octet-stream''
                                  | Some given \<Rightarrow> given)]"
  using assms
  by (auto simp: uploadToSignedUrl_def Let_def bind_prog_def send_request_def
           split: prod.splits sum.splits)

lemma completeUpload_success:
  assumes "completeUpload env objectId uploadKey s = (Inr done, s1)"
  obtains b k token ext where "decode_object_id objectId = Inr (b, k)"
    and "trace s1 = trace s @ ext"
    and "api_requests ext = [with_bearer token (finalize_request b k uploadKey)]"
proof (cases "decode_object_id objectId")
  case (Inl e)
  with assms show thesis by (simp add: completeUpload_def)
next
  case (Inr groups)
  obtain b k where "groups = (b, k)" by (cases groups)
  with Inr have d: "decode_object_id objectId = Inr (b, k)" by simp
  from assms have "bind_prog (data_request env (finalize_request b k uploadKey))
          (\<lambda>response_data. return_prog ()) s = (Inr done, s1)"
    by (simp add: completeUpload_def d)
  then show thesis
  proof (cases rule: bind_prog_cases)
    case (failed e)
    then show ?thesis by simp
  next
    case (continued response_data s0)
    from continued(2) have "s1 = s0" by simp
    with continued(1) d that show thesis
      by (auto elim!: data_request_success simp: finalize_request_def)
  qed
qed

lemma getFolder_success:
  assumes "getFolder env projectId folderId s = (Inr folder, s1)"
  obtains token ext where "trace s1 = trace s @ ext"
    and "api_requests ext = [with_bearer token (folder_request projectId folderId)]"
  using assms unfolding getFolder_def
proof (cases rule: catch_prog_cases)
  case (caught e s0)
  then show ?thesis by simp
next
  case (passed x)
  from passed(1) show ?thesis
  proof (cases rule: bind_prog_cases)
    case (failed e)
    then show ?thesis by simp
  next
    case (continued response_data s0)
    from continued(2) have "s1 = s0" by simp
    with continued(1) that show thesis
      by (auto elim!: data_request_success simp: folder_request_def)
  qed
qed

lemma createFirstVersion_success:
  assumes "createFirstVersion env projectId folderId fileName objectId s = (Inr item, s1)"
  obtains parentFolder itemType versionType response_data s0 t1 t2 ext
  where "getFolder env projectId folderId s = (Inr parentFolder, s0)"
    and "item_version_types parentFolder = Inr (itemType, versionType)"
    and "data_request env
           (item_request projectId fileName folderId itemType versionType objectId) s0
         = (Inr response_data, s1)"
    and "js_prop response_data ''data'' = Inr item"
    and "trace s1 = trace s @ ext"
    and "api_requests ext =
           [with_bearer t1 (folder_request projectId folderId),
            with_bearer t2 (item_request projectId fileName folderId itemType versionType
                              objectId)]"
proof -
  from assms have "bind_prog (getFolder env projectId folderId) (\<lambda>parentFolder.
        bind_prog (lift_prog (item_version_types parentFolder)) (\<lambda>(itemType, versionType).
        bind_prog (data_request env
            (item_request projectId fileName folderId itemType versionType objectId))
          (\<lambda>response_data.
        lift_prog (js_prop response_data ''data'')))) s = (Inr item, s1)"
    by (simp add: createFirstVersion_def)
  then show thesis
  proof (cases rule: bind_prog_cases)
    case (failed e)
    then show ?thesis by simp
  next
    case folder: (continued parentFolder s0)
    from folder(1) obtain t1 ext1 where e1: "trace s0 = trace s @ ext1"
      "api_requests ext1 = [with_bearer t1 (folder_request projectId folderId)]"
      by (rule getFolder_success)
    show ?thesis
    proof (cases "item_version_types parentFolder")
      case (Inl e)
      with folder(2) show ?thesis by simp
    next
      case (Inr types)
      obtain itemType versionType where "types = (itemType, versionType)" by (cases types)
      with Inr have types: "item_version_types parentFolder = Inr (itemType, versionType)"
        by simp
      with folder(2) have "bind_prog (data_request env
            (item_request projectId fileName folderId itemType versionType objectId))
          (\<lambda>response_data. lift_prog (js_prop response_data ''data'')) s0 = (Inr item, s1)"
        by simp
      then show ?thesis
      proof (cases rule: bind_prog_cases)
        case (failed e)
        then show ?thesis by simp
      next
        case (continued response_data s2)
        from continued(2) have same: "s1 = s2" and data: "js_prop response_data ''data'' = Inr item"
          by simp_all
        with continued(1) have sent: "data_request env
            (item_request projectId fileName folderId itemType versionType objectId) s0
          = (Inr response_data, s1)"
          by simp
        then obtain t2 ext2 where e2: "trace s1 = trace s0 @ ext2"
          "api_requests ext2 = [with_bearer t2
             (item_request projectId fileName folderId itemType versionType objectId)]"
          by (auto elim!: data_request_success simp: item_request_def)
        from e1 e2 have "trace s1 = trace s @ (ext1 @ ext2)"
          and "api_requests (ext1 @ ext2) =
           [with_bearer t1 (folder_request projectId folderId),
            with_bearer t2 (item_request projectId fileName folderId itemType versionType
                              objectId)]"
          by simp_all
        with folder(1) types sent data that show thesis by blast
      qed
    qed
  qed
qed

text \<open>A successful upload, stage by stage.\<close>

lemma uploadFile_success_chain:
  assumes "uploadFile env
             (UploadFileOptions fileName folderId projectId fileBuffer contentTypeArg) s
           = (Inr item, s')"
  obtains storage objectId signedUrl uploadKey s1 s2 s3 s4
  where "createStorage env projectId folderId fileName s = (Inr storage, s1)"
    and "js_prop storage ''id'' = Inr objectId"
    and "getSignedUploadUrl env objectId s1 = (Inr (signedUrl, uploadKey), s2)"
    and "uploadToSignedUrl env signedUrl fileBuffer contentTypeArg s2 = (Inr (), s3)"
    and "completeUpload env objectId uploadKey s3 = (Inr (), s4)"
    and "createFirstVersion env projectId folderId fileName objectId s4 = (Inr item, s')"
  using assms unfolding uploadFile.simps
proof (cases rule: catch_prog_cases)
  case (caught e s0)
  then show ?thesis by simp
next
  case (passed x)
  from passed(1) show ?thesis
  proof (cases rule: bind_prog_cases)
    case (failed e)
    then show ?thesis by simp
  next
    case stage1: (continued storage s1)
    show ?thesis
    proof (cases "js_prop storage ''id''")
      case (Inl e)
      with stage1(2) show ?thesis by simp
    next
      case (Inr objectId)
      with stage1(2) have "bind_prog (getSignedUploadUrl env objectId)
          (\<lambda>(signedUrl, uploadKey).
             bind_prog (uploadToSignedUrl env signedUrl fileBuffer contentTypeArg)
               (\<lambda>done_transfer.
             bind_prog (completeUpload env objectId uploadKey) (\<lambda>done_finalize.
             createFirstVersion env projectId folderId fileName objectId))) s1
          = (Inr x, s')"
        by simp
      then show ?thesis
      proof (cases rule: bind_prog_cases)
        case (failed e)
        then show ?thesis by simp
      next
        case stage2: (continued grant s2)
        obtain signedUrl uploadKey where grant: "grant = (signedUrl, uploadKey)"
          by (cases grant)
        from stage2(2) grant have "bind_prog
            (uploadToSignedUrl env signedUrl fileBuffer contentTypeArg) (\<lambda>done_transfer.
             bind_prog (completeUpload env objectId uploadKey) (\<lambda>done_finalize.
             createFirstVersion env projectId folderId fileName objectId)) s2 = (Inr x, s')"
          by simp
        then show ?thesis
        proof (cases rule: bind_prog_cases)
          case (failed e)
          then show ?thesis by simp
        next
          case stage3: (continued done_transfer s3)
          from stage3(2) show ?thesis
          proof (cases rule: bind_prog_cases)
            case (failed e)
            then show ?thesis by simp
          next
            case stage4: (continued done_finalize s4)
            from passed(2) stage1(1) Inr stage2(1) grant stage3(1) stage4 that
            show ?thesis by simp
          qed
        qed
      qed
    qed
  qed
qed

section \<open>The upload pipeline\<close>

lemmas run_defs =
  uploadFile.simps createStorage_def getSignedUploadUrl_def uploadToSignedUrl_def
  completeUpload_def createFirstVersion_def getFolder_def getFolderContents_def
  createFolder_def getOrCreateFolder_def data_request_def getAccessToken_def
  authenticate_def isTokenValid_def auth_post_def send_token_request_def send_request_def
  bind_prog_def catch_prog_def fresh_state_def demo_options_def
  storage_request_def signed_url_request_def put_request_def finalize_request_def
  folder_request_def folder_contents_request_def create_folder_request_def item_request_def
  with_bearer_def set_header_def signeds3upload_url_def token_request_def
  encodeURIComponent_def uri_unreserved_def alphanumeric_def
  match_urn_at_def urn_prefix_def line_terminator_at_def
  item_version_types_def folder_extension_type_def select_kind_def parent_extension_type_def
  Let_def

lemmas upload_env_defs =
  upload_env_def demo_answer_def demo_upload_def demo_object_id_def demo_signed_path_def
  demo_folder_def

declare uploadFile.simps [simp del]

text \<open>Once stages 1 and 2 have succeeded, the upload is the remaining three stages.\<close>

lemma uploadFile_after_grant:
  assumes "createStorage env projectId folderId fileName s = (Inr storage, s1)"
    and "js_prop storage ''id'' = Inr objectId"
    and "getSignedUploadUrl env objectId s1 = (Inr (signedUrl, uploadKey), s2)"
  shows "uploadFile env
           (UploadFileOptions fileName folderId projectId fileBuffer contentTypeArg) s
         = catch_prog
             (bind_prog (uploadToSignedUrl env signedUrl fileBuffer contentTypeArg)
                (\<lambda>done_transfer.
              bind_prog (completeUpload env objectId uploadKey) (\<lambda>done_finalize.
              createFirstVersion env projectId folderId fileName objectId)))
             (\<lambda>error. throw_prog (BadRequestException
                         (''Failed to upload file: '' @ error_message error))) s2"
  using assms by (simp add: uploadFile.simps bind_prog_def catch_prog_def)

lemma not_finalize_post_simps [simp]:
  "\<not> finalize_post (token_request entries)"
  "\<not> finalize_post (with_bearer token (storage_request projectId folderId fileName))"
  "\<not> finalize_post (with_bearer token (signed_url_request b k))"
  "\<not> finalize_post (put_request signedUrl fileBuffer contentType)"
  "\<not> finalize_post (with_bearer token (folder_request projectId folderId))"
  "\<not> finalize_post (with_bearer token
        (item_request projectId fileName folderId itemType versionType objectId))"
  by (simp_all add: finalize_post_def token_request_def storage_request_def
                    signed_url_request_def put_request_def folder_request_def item_request_def)

lemma finalize_post_finalize_request [simp]:
  "finalize_post (with_bearer token (finalize_request b k uploadKey))"
  by (simp add: finalize_post_def finalize_request_def signeds3upload_url_def)

lemma upload_trace_after_grant:
  assumes "createStorage env projectId folderId fileName s = (Inr storage, s1)"
    and "js_prop storage ''id'' = Inr objectId"
    and "getSignedUploadUrl env objectId s1 = (Inr (signedUrl, uploadKey), s2)"
    and pre: "\<And>entries. P (token_request entries)"
      "\<And>token. P (with_bearer token (storage_request projectId folderId fileName))"
      "\<And>token b k. P (with_bearer token (signed_url_request b k))"
    and rest: "P (put_request signedUrl fileBuffer
                 (case contentTypeArg of None \<Rightarrow> ''application/octet-stream''
                                       | Some given \<Rightarrow> given))"
      "\<And>token b k. P (with_bearer token (finalize_request b k uploadKey))"
      "\<And>token. P (with_bearer token (folder_request projectId folderId))"
      "\<And>token itemType versionType.
           P (with_bearer token
                (item_request projectId fileName folderId itemType versionType objectId))"
  shows "\<forall>r \<in> set (new_requests s (snd (uploadFile env
            (UploadFileOptions fileName folderId projectId fileBuffer contentTypeArg) s))). P r"
proof -
  have "emits (createStorage env projectId folderId fileName) P"
    by (intro emits_createStorage pre)
  from this assms(1) obtain ext1 where e1: "trace s1 = trace s @ ext1" "\<forall>r \<in> set ext1. P r"
    by (rule emitsD)
  have "emits (getSignedUploadUrl env objectId) P"
    by (intro emits_getSignedUploadUrl pre)
  from this assms(3) obtain ext2 where e2: "trace s2 = trace s1 @ ext2" "\<forall>r \<in> set ext2. P r"
    by (rule emitsD)
  let ?rest = "catch_prog
             (bind_prog (uploadToSignedUrl env signedUrl fileBuffer contentTypeArg)
                (\<lambda>done_transfer.
              bind_prog (completeUpload env objectId uploadKey) (\<lambda>done_finalize.
              createFirstVersion env projectId folderId fileName objectId)))
             (\<lambda>error. throw_prog (BadRequestException
                         (''Failed to upload file: '' @ error_message error)))"
  have "emits ?rest P"
    by (intro emits_upload_rest pre rest)
  moreover obtain res s' where run: "?rest s2 = (res, s')" by (cases "?rest s2")
  ultimately obtain ext3 where e3: "trace s' = trace s2 @ ext3" "\<forall>r \<in> set ext3. P r"
    by (rule emitsD)
  from run have "snd (uploadFile env
            (UploadFileOptions fileName folderId projectId fileBuffer contentTypeArg) s) = s'"
    by (simp add: uploadFile_after_grant [OF assms(1-3)])
  moreover from e1 e2 e3 have "trace s' = trace s @ (ext1 @ ext2 @ ext3)" by simp
  ultimately have "new_requests s (snd (uploadFile env
            (UploadFileOptions fileName folderId projectId fileBuffer contentTypeArg) s))
          = ext1 @ ext2 @ ext3"
    by (simp add: new_requests_append)
  with e1 e2 e3 show ?thesis by auto
qed

text \<open>The requests of a successful upload, in order.\<close>

lemma uploadFile_success_requests:
  assumes "createStorage env projectId folderId fileName s = (Inr storage, s1)"
    and "getSignedUploadUrl env objectId s1 = (Inr (signedUrl, uploadKey), s2)"
    and "uploadToSignedUrl env signedUrl fileBuffer contentTypeArg s2 = (Inr (), s3)"
    and "completeUpload env objectId uploadKey s3 = (Inr (), s4)"
    and "createFirstVersion env projectId folderId fileName objectId s4 = (Inr item, s')"
  obtains b k parentFolder itemType versionType response_data s5 t1 t2 t4 t5 t6
  where "decode_object_id objectId = Inr (b, k)"
    and "getFolder env projectId folderId s4 = (Inr parentFolder, s5)"
    and "item_version_types parentFolder = Inr (itemType, versionType)"
    and "data_request env
           (item_request projectId fileName folderId itemType versionType objectId) s5
         = (Inr response_data, s')"
    and "js_prop response_data ''data'' = Inr item"
    and "api_requests (new_requests s s') =
           [with_bearer t1 (storage_request projectId folderId fileName),
            with_bearer t2 (signed_url_request b k),
            put_request signedUrl fileBuffer
              (case contentTypeArg of None \<Rightarrow> ''application/octet-stream''
                                    | Some given \<Rightarrow> given),
            with_bearer t4 (finalize_request b k uploadKey),
            with_bearer t5 (folder_request projectId folderId),
            with_bearer t6 (item_request projectId fileName folderId itemType versionType
                              objectId)]"
proof -
  from assms(1) obtain t1 ext1 where e1: "trace s1 = trace s @ ext1"
    "api_requests ext1 = [with_bearer t1 (storage_request projectId folderId fileName)]"
    by (rule createStorage_success)
  from assms(2) obtain b k t2 ext2 where d: "decode_object_id objectId = Inr (b, k)"
    and e2: "trace s2 = trace s1 @ ext2"
      "api_requests ext2 = [with_bearer t2 (signed_url_request b k)]"
    by (rule getSignedUploadUrl_success)
  let ?put = "put_request signedUrl fileBuffer
              (case contentTypeArg of None \<Rightarrow> ''application/octet-stream''
                                    | Some given \<Rightarrow> given)"
  from assms(3) have e3: "trace s3 = trace s2 @ [?put]"
    by (rule uploadToSignedUrl_trace)
  have put: "api_requests (?put # rs) = ?put # api_requests rs" for rs
    by (simp add: api_requests_def put_request_def)
  from assms(4) obtain b' k' t4 ext4 where d': "decode_object_id objectId = Inr (b', k')"
    and e4: "trace s4 = trace s3 @ ext4"
      "api_requests ext4 = [with_bearer t4 (finalize_request b' k' uploadKey)]"
    by (rule completeUpload_success)
  from d d' have same: "b' = b" "k' = k" by simp_all
  from assms(5) obtain parentFolder itemType versionType response_data s5 t5 t6 ext5
    where publish: "getFolder env projectId folderId s4 = (Inr parentFolder, s5)"
        "item_version_types parentFolder = Inr (itemType, versionType)"
        "data_request env
           (item_request projectId fileName folderId itemType versionType objectId) s5
         = (Inr response_data, s')"
        "js_prop response_data ''data'' = Inr item"
      and e5: "trace s' = trace s4 @ ext5"
        "api_requests ext5 =
           [with_bearer t5 (folder_request projectId folderId),
            with_bearer t6 (item_request projectId fileName folderId itemType versionType
                              objectId)]"
    by (rule createFirstVersion_success)
  from e1 e2 e3 e4 e5 have "trace s' = trace s @ (ext1 @ ext2 @ [?put] @ ext4 @ ext5)"
    by simp
  then have "new_requests s s' = ext1 @ ext2 @ [?put] @ ext4 @ ext5"
    by (rule new_requests_append)
  with e1(2) e2(2) put e4(2) e5(2) same
  have "api_requests (new_requests s s') =
           [with_bearer t1 (storage_request projectId folderId fileName),
            with_bearer t2 (signed_url_request b k),
            ?put,
            with_bearer t4 (finalize_request b k uploadKey),
            with_bearer t5 (folder_request projectId folderId),
            with_bearer t6 (item_request projectId fileName folderId itemType versionType
                              objectId)]"
    by simp
  with d publish that show thesis by blast
qed

text \<open>
  After a successful transfer, when the interceptor gets its token, the finalize request
  goes out, for the object decoded from the id and with the key passed in.
\<close>

lemma finalize_sent_after_transfer:
  assumes stages: "createStorage env projectId folderId fileName s = (Inr storage, s1)"
      "js_prop storage ''id'' = Inr objectId"
      "getSignedUploadUrl env objectId s1 = (Inr (signedUrl, uploadKey), s2)"
    and transfer: "uploadToSignedUrl env signedUrl fileBuffer contentTypeArg s2 = (Inr (), s3)"
    and token: "getAccessToken env s3 = (Inr token, s3')"
  shows "\<exists>b k. decode_object_id objectId = Inr (b, k) \<and>
           with_bearer token (finalize_request b k uploadKey)
             \<in> set (new_requests s (snd (uploadFile env
                   (UploadFileOptions fileName folderId projectId fileBuffer contentTypeArg)
                   s)))"
proof -
  let ?run = "uploadFile env
         (UploadFileOptions fileName folderId projectId fileBuffer contentTypeArg) s"
  from stages(1) obtain t1 ext1 where e1: "trace s1 = trace s @ ext1"
    by (rule createStorage_success)
  from stages(3) obtain b k t2 ext2 where d: "decode_object_id objectId = Inr (b, k)"
    and e2: "trace s2 = trace s1 @ ext2"
    by (rule getSignedUploadUrl_success)
  let ?put = "put_request signedUrl fileBuffer
          (case contentTypeArg of None \<Rightarrow> ''application/octet-stream'' | Some given \<Rightarrow> given)"
  let ?fin = "with_bearer token (finalize_request b k uploadKey)"
  from transfer have e3: "trace s3 = trace s2 @ [?put]"
    by (rule uploadToSignedUrl_trace)
  from token obtain g where g: "trace s3' = trace s3 @ g"
    unfolding getAccessToken_def by (rule authenticate_trace)
  obtain r4 s4 where sent: "send_request env ?fin s3' = (r4, s4)"
    by (cases "send_request env ?fin s3'")
  then have e4: "trace s4 = trace s3' @ [?fin]"
    by (rule send_request_trace)
  from token sent have request:
    "data_request env (finalize_request b k uploadKey) s3 = (r4, s4)"
    by (simp add: data_request_def bind_prog_def)
  let ?publish = "catch_prog (createFirstVersion env projectId folderId fileName objectId)
        (\<lambda>error. throw_prog (BadRequestException
                    (''Failed to upload file: '' @ error_message error)))"
  have "emits ?publish (\<lambda>r. True)"
    by (intro emits_catch emits_throw emits_createFirstVersion TrueI)
  moreover obtain r5 s5 where publish: "?publish s4 = (r5, s5)" by (cases "?publish s4")
  ultimately obtain ext5 where e5: "trace s5 = trace s4 @ ext5"
    by (rule emitsD)
  have "snd ?run = s4 \<or> snd ?run = s5"
    using transfer request publish d
    by (cases r4)
       (simp_all add: uploadFile_after_grant [OF stages] completeUpload_def
                      catch_prog_def bind_prog_def)
  then have "\<exists>ext. trace (snd ?run) = trace s @ (ext1 @ ext2 @ [?put] @ g @ [?fin] @ ext)"
    using e1 e2 e3 g e4 e5 by auto
  then obtain ext where "new_requests s (snd ?run) = ext1 @ ext2 @ [?put] @ g @ [?fin] @ ext"
    by (auto simp: new_requests_def)
  then have "?fin \<in> set (new_requests s (snd ?run))" by simp
  with d show ?thesis by blast
qed

text \<open>
  C1. In an upload whose stage 2 returned the key \<open>uploadKey\<close>, every finalize POST that
  the upload sends carries exactly that value as its \<^verbatim>\<open>uploadKey\<close> field; so after a
  non-empty key no finalize payload holds the empty string. The finalize POST is sent
  once the transfer has succeeded and the interceptor has its token; in particular, when
  the upload succeeds, it has been sent.
\<close>

theorem finalize_carries_granted_key:
  assumes "createStorage env projectId folderId fileName s = (Inr storage, s1)"
    and "js_prop storage ''id'' = Inr objectId"
    and "getSignedUploadUrl env objectId s1 = (Inr (signedUrl, uploadKey), s2)"
  shows "(\<forall>r \<in> set (new_requests s (snd (uploadFile env
            (UploadFileOptions fileName folderId projectId fileBuffer contentTypeArg) s))).
            finalize_post r \<longrightarrow> body r = JsonBody (JObj [(''uploadKey'', uploadKey)])) \<and>
         (\<forall>key. uploadKey = JStr key \<and> key \<noteq> [] \<longrightarrow>
            (\<forall>r \<in> set (new_requests s (snd (uploadFile env
               (UploadFileOptions fileName folderId projectId fileBuffer contentTypeArg) s))).
               finalize_post r \<longrightarrow> body r \<noteq> JsonBody (JObj [(''uploadKey'', JStr [])]))) \<and>
         (\<forall>s3 token s3'.
            uploadToSignedUrl env signedUrl fileBuffer contentTypeArg s2 = (Inr (), s3) \<and>
            getAccessToken env s3 = (Inr token, s3') \<longrightarrow>
            (\<exists>b k. decode_object_id objectId = Inr (b, k) \<and>
               with_bearer token (finalize_request b k uploadKey)
                 \<in> set (new_requests s (snd (uploadFile env
                       (UploadFileOptions fileName folderId projectId fileBuffer
                          contentTypeArg) s))))) \<and>
         (\<forall>item s'. uploadFile env
              (UploadFileOptions fileName folderId projectId fileBuffer contentTypeArg) s
              = (Inr item, s') \<longrightarrow>
            (\<exists>r \<in> set (new_requests s s'). finalize_post r))"
proof -
  let ?run = "uploadFile env
            (UploadFileOptions fileName folderId projectId fileBuffer contentTypeArg) s"
  have carried: "\<forall>r \<in> set (new_requests s (snd ?run)).
            finalize_post r \<longrightarrow> body r = JsonBody (JObj [(''uploadKey'', uploadKey)])"
    by (rule upload_trace_after_grant [OF assms]) (simp_all add: finalize_request_def)
  then have nonempty: "\<forall>key. uploadKey = JStr key \<and> key \<noteq> [] \<longrightarrow>
            (\<forall>r \<in> set (new_requests s (snd ?run)).
               finalize_post r \<longrightarrow> body r \<noteq> JsonBody (JObj [(''uploadKey'', JStr [])]))"
    by auto
  have sent: "\<exists>r \<in> set (new_requests s s'). finalize_post r" if "?run = (Inr item, s')" for item s'
  proof -
    from that obtain storage' objectId' signedUrl' uploadKey' s1' s2' s3 s4
      where chain: "createStorage env projectId folderId fileName s = (Inr storage', s1')"
        "getSignedUploadUrl env objectId' s1' = (Inr (signedUrl', uploadKey'), s2')"
        "uploadToSignedUrl env signedUrl' fileBuffer contentTypeArg s2' = (Inr (), s3)"
        "completeUpload env objectId' uploadKey' s3 = (Inr (), s4)"
        "createFirstVersion env projectId folderId fileName objectId' s4 = (Inr item, s')"
      by (rule uploadFile_success_chain)
    from chain obtain b k itemType versionType t1 t2 t4 t5 t6
      where "api_requests (new_requests s s') =
           [with_bearer t1 (storage_request projectId folderId fileName),
            with_bearer t2 (signed_url_request b k),
            put_request signedUrl' fileBuffer
              (case contentTypeArg of None \<Rightarrow> ''application/octet-stream''
                                    | Some given \<Rightarrow> given),
            with_bearer t4 (finalize_request b k uploadKey'),
            with_bearer t5 (folder_request projectId folderId),
            with_bearer t6 (item_request projectId fileName folderId itemType versionType
                              objectId')]"
      by (rule uploadFile_success_requests)
    then have "with_bearer t4 (finalize_request b k uploadKey')
                 \<in> set (api_requests (new_requests s s'))"
      by simp
    then have "with_bearer t4 (finalize_request b k uploadKey') \<in> set (new_requests s s')"
      by (simp add: api_requests_def)
    then show ?thesis by (rule bexI [rotated]) simp
  qed
  have after_transfer: "\<exists>b k. decode_object_id objectId = Inr (b, k) \<and>
               with_bearer token (finalize_request b k uploadKey)
                 \<in> set (new_requests s (snd ?run))"
    if "uploadToSignedUrl env signedUrl fileBuffer contentTypeArg s2 = (Inr (), s3) \<and>
        getAccessToken env s3 = (Inr token, s3')" for s3 token s3'
    by (rule finalize_sent_after_transfer [OF assms that [THEN conjunct1] that [THEN conjunct2]])
  from carried nonempty after_transfer sent show ?thesis by blast
qed

lemma demo_reserve:
  "createStorage upload_env ''b.proj'' ''urn:folder-1'' ''file-1.txt'' (fresh_state 6)
     = (Inr (JObj [(''type'', JStr ''objects''), (''id'', JStr demo_object_id)]),
        snd (createStorage upload_env ''b.proj'' ''urn:folder-1'' ''file-1.txt''
               (fresh_state 6)))"
  by (simp add: run_defs upload_env_defs)

lemma demo_grant:
  "getSignedUploadUrl upload_env (JStr demo_object_id)
     (snd (createStorage upload_env ''b.proj'' ''urn:folder-1'' ''file-1.txt'' (fresh_state 6)))
     = (Inr (JStr ''https://s3.example/upload-1'', JStr ''key-123''),
        snd (getSignedUploadUrl upload_env (JStr demo_object_id)
               (snd (createStorage upload_env ''b.proj'' ''urn:folder-1'' ''file-1.txt''
                       (fresh_state 6)))))"
  by (simp add: run_defs upload_env_defs)

lemma demo_run:
  "uploadFile upload_env
     (UploadFileOptions ''file-1.txt'' ''urn:folder-1'' ''b.proj'' ''0123456789'' None)
     (fresh_state 6)
   = (Inr demo_item,
      snd (uploadFile upload_env
             (UploadFileOptions ''file-1.txt'' ''urn:folder-1'' ''b.proj'' ''0123456789'' None)
             (fresh_state 6)))"
  by (simp add: run_defs upload_env_defs)

theorem finalize_carries_granted_key_witness:
  "fst (getSignedUploadUrl upload_env (JStr demo_object_id)
     (snd (createStorage upload_env ''b.proj'' ''urn:folder-1'' ''file-1.txt'' (fresh_state 6))))
     = Inr (JStr ''https://s3.example/upload-1'', JStr ''key-123'') \<and>
   map body (filter finalize_post
     (new_requests (fresh_state 6) (snd (uploadFile upload_env demo_upload (fresh_state 6)))))
     = [JsonBody (JObj [(''uploadKey'', JStr ''key-123'')])]"
proof -
  note key = finalize_carries_granted_key
    [OF demo_reserve _ demo_grant, of "''0123456789''" None, simplified]
  have sent: "map request_line (filter finalize_post
      (new_requests (fresh_state 6) (snd (uploadFile upload_env demo_upload (fresh_state 6)))))
      = [(POST, JStr demo_signed_path)]"
    by (simp add: run_defs upload_env_defs new_requests_def finalize_post_def
                  request_line_def)
  then obtain r
    where r: "filter finalize_post
      (new_requests (fresh_state 6) (snd (uploadFile upload_env demo_upload (fresh_state 6))))
      = [r]"
    by auto
  then have "r \<in> set (filter finalize_post
      (new_requests (fresh_state 6) (snd (uploadFile upload_env demo_upload (fresh_state 6)))))"
    by simp
  then have "r \<in> set (new_requests (fresh_state 6)
      (snd (uploadFile upload_env demo_upload (fresh_state 6))))" and "finalize_post r"
    by simp_all
  with key [THEN conjunct1] have "body r = JsonBody (JObj [(''uploadKey'', JStr ''key-123'')])"
    by (simp add: demo_upload_def)
  with r arg_cong [where f = fst, OF demo_grant] show ?thesis by simp
qed

text \<open>
  C4. In every upload, every request that is a PUT or goes out on the global axios object
  is the stage-3 transfer: it is sent on the global axios object (no interceptor), its
  body is the file buffer, and its headers are exactly \<^verbatim>\<open>Content-Type\<close> (the caller's
  content type, \<^verbatim>\<open>application/octet-stream\<close> when none was given) and
  \<^verbatim>\<open>Content-Length\<close>; it has no \<^verbatim>\<open>Authorization\<close> header. When stage 2 granted a URL,
  that transfer is sent, and to that URL.
\<close>

theorem transfer_without_bearer:
  "(\<forall>r \<in> set (new_requests s (snd (uploadFile env
         (UploadFileOptions fileName folderId projectId fileBuffer contentTypeArg) s))).
      verb r = PUT \<or> client r = GlobalAxios \<longrightarrow>
        client r = GlobalAxios \<and> verb r = PUT \<and> body r = BufferBody fileBuffer \<and>
        headers r =
          [(''Content-Type'',
            JStr (case contentTypeArg of None \<Rightarrow> ''application/octet-stream''
                                       | Some given \<Rightarrow> given)),
           (''Content-Length'', JNum (int (length fileBuffer)))] \<and>
        header ''Authorization'' r = None) \<and>
   (\<forall>storage s1 objectId signedUrl uploadKey s2.
      createStorage env projectId folderId fileName s = (Inr storage, s1) \<and>
      js_prop storage ''id'' = Inr objectId \<and>
      getSignedUploadUrl env objectId s1 = (Inr (signedUrl, uploadKey), s2) \<longrightarrow>
        put_request signedUrl fileBuffer
          (case contentTypeArg of None \<Rightarrow> ''application/octet-stream'' | Some given \<Rightarrow> given)
          \<in> set (new_requests s (snd (uploadFile env
                (UploadFileOptions fileName folderId projectId fileBuffer contentTypeArg) s))) \<and>
        (\<forall>r \<in> set (new_requests s (snd (uploadFile env
                (UploadFileOptions fileName folderId projectId fileBuffer contentTypeArg) s))).
           verb r = PUT \<longrightarrow> url r = signedUrl))"
proof (intro conjI allI impI)
  let ?run = "uploadFile env
         (UploadFileOptions fileName folderId projectId fileBuffer contentTypeArg) s"
  let ?P = "\<lambda>r. verb r = PUT \<or> client r = GlobalAxios \<longrightarrow>
        client r = GlobalAxios \<and> verb r = PUT \<and> body r = BufferBody fileBuffer \<and>
        headers r =
          [(''Content-Type'',
            JStr (case contentTypeArg of None \<Rightarrow> ''application/octet-stream''
                                       | Some given \<Rightarrow> given)),
           (''Content-Length'', JNum (int (length fileBuffer)))] \<and>
        header ''Authorization'' r = None"
  have "emits (uploadFile env
         (UploadFileOptions fileName folderId projectId fileBuffer contentTypeArg)) ?P"
    by (rule emits_uploadFile)
       (simp_all add: token_request_def storage_request_def signed_url_request_def
                      put_request_def finalize_request_def folder_request_def item_request_def
                      header_def)
  moreover have "?run = (fst ?run, snd ?run)" by simp
  ultimately show "\<forall>r \<in> set (new_requests s (snd ?run)). ?P r"
    by (rule emits_new_requests)
next
  fix storage s1 objectId signedUrl uploadKey s2
  let ?run = "uploadFile env
         (UploadFileOptions fileName folderId projectId fileBuffer contentTypeArg) s"
  let ?put = "put_request signedUrl fileBuffer
          (case contentTypeArg of None \<Rightarrow> ''application/octet-stream'' | Some given \<Rightarrow> given)"
  assume "createStorage env projectId folderId fileName s = (Inr storage, s1) \<and>
      js_prop storage ''id'' = Inr objectId \<and>
      getSignedUploadUrl env objectId s1 = (Inr (signedUrl, uploadKey), s2)"
  then have stages: "createStorage env projectId folderId fileName s = (Inr storage, s1)"
      "js_prop storage ''id'' = Inr objectId"
      "getSignedUploadUrl env objectId s1 = (Inr (signedUrl, uploadKey), s2)"
    by simp_all
  show "\<forall>r \<in> set (new_requests s (snd ?run)). verb r = PUT \<longrightarrow> url r = signedUrl"
    by (rule upload_trace_after_grant [OF stages])
       (simp_all add: token_request_def storage_request_def signed_url_request_def
                      put_request_def finalize_request_def folder_request_def item_request_def)
  show "?put \<in> set (new_requests s (snd ?run))"
  proof -
    have "emits (createStorage env projectId folderId fileName) (\<lambda>r. True)"
      by (intro emits_createStorage TrueI)
    from this stages(1) obtain ext1 where e1: "trace s1 = trace s @ ext1"
      by (rule emitsD)
    have "emits (getSignedUploadUrl env objectId) (\<lambda>r. True)"
      by (intro emits_getSignedUploadUrl TrueI)
    from this stages(3) obtain ext2 where e2: "trace s2 = trace s1 @ ext2"
      by (rule emitsD)
    obtain r3 s3 where transfer:
      "uploadToSignedUrl env signedUrl fileBuffer contentTypeArg s2 = (r3, s3)"
      by (cases "uploadToSignedUrl env signedUrl fileBuffer contentTypeArg s2")
    then have e3: "trace s3 = trace s2 @ [?put]"
      by (rule uploadToSignedUrl_trace)
    let ?tail = "catch_prog
        (bind_prog (completeUpload env objectId uploadKey) (\<lambda>done_finalize.
         createFirstVersion env projectId folderId fileName objectId))
        (\<lambda>error. throw_prog (BadRequestException
                    (''Failed to upload file: '' @ error_message error)))"
    have "emits ?tail (\<lambda>r. True)"
      by (intro emits_catch emits_bind emits_throw emits_completeUpload
                emits_createFirstVersion TrueI)
    moreover obtain r4 s4 where tail: "?tail s3 = (r4, s4)" by (cases "?tail s3")
    ultimately obtain ext4 where e4: "trace s4 = trace s3 @ ext4"
      by (rule emitsD)
    have "snd ?run = s3 \<or> snd ?run = s4"
      using transfer tail
      by (cases r3) (simp_all add: uploadFile_after_grant [OF stages] catch_prog_def bind_prog_def)
    then have "\<exists>ext. trace (snd ?run) = trace s @ (ext1 @ ext2 @ [?put] @ ext)"
      using e1 e2 e3 e4 by auto
    then obtain ext where "new_requests s (snd ?run) = ext1 @ ext2 @ [?put] @ ext"
      by (auto simp: new_requests_def)
    then show ?thesis by simp
  qed
qed

theorem transfer_without_bearer_witness:
  "put_request (JStr ''https://s3.example/upload-1'') ''0123456789'' ''application/octet-stream''
     \<in> set (new_requests (fresh_state 6)
              (snd (uploadFile upload_env demo_upload (fresh_state 6)))) \<and>
   header ''Authorization''
     (put_request (JStr ''https://s3.example/upload-1'') ''0123456789''
        ''application/octet-stream'') = None"
proof -
  note put = transfer_without_bearer
    [of "fresh_state 6" upload_env "''file-1.txt''" "''urn:folder-1''" "''b.proj''"
        "''0123456789''" None]
  have stages: "createStorage upload_env ''b.proj'' ''urn:folder-1'' ''file-1.txt'' (fresh_state 6)
      = (Inr (JObj [(''type'', JStr ''objects''), (''id'', JStr demo_object_id)]),
         snd (createStorage upload_env ''b.proj'' ''urn:folder-1'' ''file-1.txt''
                (fresh_state 6))) \<and>
    js_prop (JObj [(''type'', JStr ''objects''), (''id'', JStr demo_object_id)]) ''id''
      = Inr (JStr demo_object_id) \<and>
    getSignedUploadUrl upload_env (JStr demo_object_id)
      (snd (createStorage upload_env ''b.proj'' ''urn:folder-1'' ''file-1.txt'' (fresh_state 6)))
      = (Inr (JStr ''https://s3.example/upload-1'', JStr ''key-123''),
         snd (getSignedUploadUrl upload_env (JStr demo_object_id)
                (snd (createStorage upload_env ''b.proj'' ''urn:folder-1'' ''file-1.txt''
                        (fresh_state 6)))))"
    using demo_reserve demo_grant by simp
  from put [THEN conjunct2, rule_format, OF stages, THEN conjunct1]
  have sent: "put_request (JStr ''https://s3.example/upload-1'') ''0123456789''
      ''application/octet-stream''
     \<in> set (new_requests (fresh_state 6)
              (snd (uploadFile upload_env demo_upload (fresh_state 6))))"
    by (simp add: demo_upload_def)
  from put [THEN conjunct1, rule_format, OF sent [unfolded demo_upload_def]]
  have "header ''Authorization''
     (put_request (JStr ''https://s3.example/upload-1'') ''0123456789''
        ''application/octet-stream'') = None"
    by (simp add: put_request_def)
  with sent show ?thesis by simp
qed

text \<open>
  C2, as stated, fails in its last part. What \<^verbatim>\<open>uploadFile\<close> returns is the \<^verbatim>\<open>data\<close>
  member of the service's answer to the publish request, not the document that was sent:
  in this run stage 1 created the storage object \<open>demo_object_id\<close>, the upload succeeded,
  and the returned item is \<open>demo_item\<close>, in which that id does not occur at any depth.
\<close>

theorem upload_returned_item_counterexample:
  "fst (createStorage upload_env ''b.proj'' ''urn:folder-1'' ''file-1.txt'' (fresh_state 6))
     = Inr (JObj [(''type'', JStr ''objects''), (''id'', JStr demo_object_id)]) \<and>
   fst (uploadFile upload_env demo_upload (fresh_state 6)) = Inr demo_item \<and>
   \<not> js_mentions demo_item (JStr demo_object_id)"
  by (simp add: run_defs upload_env_defs demo_item_def)

text \<open>
  C2, amended. When \<^verbatim>\<open>uploadFile\<close> succeeds, the five stages have run in the order
  Reserve, Grant, Transfer, Finalize, Publish, each from the state the previous one left:
  the id of the storage object of stage 1 is the id decoded and granted in stage 2, the
  URL of stage 2 is where stage 3 puts the bytes, stage 4 finalizes the same object with
  the key of stage 2, and stage 5 reads the folder and posts the item. The requests sent
  to the API and to storage are exactly these six, in this order. The publish request
  holds one included version, whose storage relationship id is the id from stage 1; the
  returned item is the \<^verbatim>\<open>data\<close> member of the answer to that request.
\<close>

theorem upload_success_stages:
  assumes "uploadFile env
             (UploadFileOptions fileName folderId projectId fileBuffer contentTypeArg) s
           = (Inr item, s')"
  shows "\<exists>storage sid b k signedUrl uploadKey parentFolder itemType versionType response_data
           s1 s2 s3 s4 s5 t1 t2 t4 t5 t6.
     createStorage env projectId folderId fileName s = (Inr storage, s1) \<and>
     js_prop storage ''id'' = Inr (JStr sid) \<and> urn_match sid = Some (b, k) \<and>
     getSignedUploadUrl env (JStr sid) s1 = (Inr (signedUrl, uploadKey), s2) \<and>
     uploadToSignedUrl env signedUrl fileBuffer contentTypeArg s2 = (Inr (), s3) \<and>
     completeUpload env (JStr sid) uploadKey s3 = (Inr (), s4) \<and>
     createFirstVersion env projectId folderId fileName (JStr sid) s4 = (Inr item, s') \<and>
     getFolder env projectId folderId s4 = (Inr parentFolder, s5) \<and>
     item_version_types parentFolder = Inr (itemType, versionType) \<and>
     data_request env
       (item_request projectId fileName folderId itemType versionType (JStr sid)) s5
       = (Inr response_data, s') \<and>
     js_prop response_data ''data'' = Inr item \<and>
     api_requests (new_requests s s') =
       [with_bearer t1 (storage_request projectId folderId fileName),
        with_bearer t2 (signed_url_request b k),
        put_request signedUrl fileBuffer
          (case contentTypeArg of None \<Rightarrow> ''application/octet-stream'' | Some given \<Rightarrow> given),
        with_bearer t4 (finalize_request b k uploadKey),
        with_bearer t5 (folder_request projectId folderId),
        with_bearer t6 (item_request projectId fileName folderId itemType versionType
                          (JStr sid))] \<and>
     body (item_request projectId fileName folderId itemType versionType (JStr sid))
       = JsonBody (item_body fileName folderId itemType versionType (JStr sid)) \<and>
     js_elements (js_path (item_body fileName folderId itemType versionType (JStr sid))
                    [''included''])
       = [version_resource fileName versionType (JStr sid)] \<and>
     js_path (version_resource fileName versionType (JStr sid))
       [''relationships'', ''storage'', ''data'', ''id''] = JStr sid"
proof -
  from assms obtain storage objectId signedUrl uploadKey s1 s2 s3 s4
    where chain: "createStorage env projectId folderId fileName s = (Inr storage, s1)"
      "getSignedUploadUrl env objectId s1 = (Inr (signedUrl, uploadKey), s2)"
      "uploadToSignedUrl env signedUrl fileBuffer contentTypeArg s2 = (Inr (), s3)"
      "completeUpload env objectId uploadKey s3 = (Inr (), s4)"
      "createFirstVersion env projectId folderId fileName objectId s4 = (Inr item, s')"
    and id: "js_prop storage ''id'' = Inr objectId"
    by (rule uploadFile_success_chain)
  from chain obtain b k parentFolder itemType versionType response_data s5 t1 t2 t4 t5 t6
    where d: "decode_object_id objectId = Inr (b, k)"
      and publish: "getFolder env projectId folderId s4 = (Inr parentFolder, s5)"
        "item_version_types parentFolder = Inr (itemType, versionType)"
        "data_request env
           (item_request projectId fileName folderId itemType versionType objectId) s5
         = (Inr response_data, s')"
        "js_prop response_data ''data'' = Inr item"
      and reqs: "api_requests (new_requests s s') =
           [with_bearer t1 (storage_request projectId folderId fileName),
            with_bearer t2 (signed_url_request b k),
            put_request signedUrl fileBuffer
              (case contentTypeArg of None \<Rightarrow> ''application/octet-stream''
                                    | Some given \<Rightarrow> given),
            with_bearer t4 (finalize_request b k uploadKey),
            with_bearer t5 (folder_request projectId folderId),
            with_bearer t6 (item_request projectId fileName folderId itemType versionType
                              objectId)]"
    by (rule uploadFile_success_requests)
  from d obtain sid where sid: "objectId = JStr sid" "urn_match sid = Some (b, k)"
    by (rule decode_object_id_Inr)
  have shape:
    "body (item_request projectId fileName folderId itemType versionType (JStr sid))
       = JsonBody (item_body fileName folderId itemType versionType (JStr sid))"
    "js_elements (js_path (item_body fileName folderId itemType versionType (JStr sid))
                    [''included''])
       = [version_resource fileName versionType (JStr sid)]"
    "js_path (version_resource fileName versionType (JStr sid))
       [''relationships'', ''storage'', ''data'', ''id''] = JStr sid"
    by (simp_all add: item_request_def item_body_def version_resource_def)
  from chain id publish reqs shape show ?thesis
    unfolding sid(1) using sid(2) by blast
qed

theorem upload_success_stages_witness:
  "\<exists>storage sid b k signedUrl uploadKey parentFolder itemType versionType response_data
      s1 s2 s3 s4 s5 t1 t2 t4 t5 t6.
     createStorage upload_env ''b.proj'' ''urn:folder-1'' ''file-1.txt'' (fresh_state 6)
       = (Inr storage, s1) \<and>
     js_prop storage ''id'' = Inr (JStr sid) \<and> urn_match sid = Some (b, k) \<and>
     getSignedUploadUrl upload_env (JStr sid) s1 = (Inr (signedUrl, uploadKey), s2) \<and>
     uploadToSignedUrl upload_env signedUrl ''0123456789'' None s2 = (Inr (), s3) \<and>
     completeUpload upload_env (JStr sid) uploadKey s3 = (Inr (), s4) \<and>
     createFirstVersion upload_env ''b.proj'' ''urn:folder-1'' ''file-1.txt'' (JStr sid) s4
       = (Inr demo_item,
          snd (uploadFile upload_env
             (UploadFileOptions ''file-1.txt'' ''urn:folder-1'' ''b.proj'' ''0123456789'' None)
             (fresh_state 6))) \<and>
     getFolder upload_env ''b.proj'' ''urn:folder-1'' s4 = (Inr parentFolder, s5) \<and>
     item_version_types parentFolder = Inr (itemType, versionType) \<and>
     data_request upload_env
       (item_request ''b.proj'' ''file-1.txt'' ''urn:folder-1'' itemType versionType (JStr sid))
       s5
       = (Inr response_data,
          snd (uploadFile upload_env
             (UploadFileOptions ''file-1.txt'' ''urn:folder-1'' ''b.proj'' ''0123456789'' None)
             (fresh_state 6))) \<and>
     js_prop response_data ''data'' = Inr demo_item \<and>
     api_requests (new_requests (fresh_state 6)
        (snd (uploadFile upload_env
             (UploadFileOptions ''file-1.txt'' ''urn:folder-1'' ''b.proj'' ''0123456789'' None)
             (fresh_state 6)))) =
       [with_bearer t1 (storage_request ''b.proj'' ''urn:folder-1'' ''file-1.txt''),
        with_bearer t2 (signed_url_request b k),
        put_request signedUrl ''0123456789''
          (case None of None \<Rightarrow> ''application/octet-stream'' | Some given \<Rightarrow> given),
        with_bearer t4 (finalize_request b k uploadKey),
        with_bearer t5 (folder_request ''b.proj'' ''urn:folder-1''),
        with_bearer t6 (item_request ''b.proj'' ''file-1.txt'' ''urn:folder-1'' itemType
                          versionType (JStr sid))] \<and>
     body (item_request ''b.proj'' ''file-1.txt'' ''urn:folder-1'' itemType versionType
             (JStr sid))
       = JsonBody (item_body ''file-1.txt'' ''urn:folder-1'' itemType versionType (JStr sid)) \<and>
     js_elements (js_path (item_body ''file-1.txt'' ''urn:folder-1'' itemType versionType
                             (JStr sid)) [''included''])
       = [version_resource ''file-1.txt'' versionType (JStr sid)] \<and>
     js_path (version_resource ''file-1.txt'' versionType (JStr sid))
       [''relationships'', ''storage'', ''data'', ''id''] = JStr sid"
  by (rule upload_success_stages [OF demo_run])

section \<open>Failure of a stage\<close>

lemma sends_at_most_mono: "sends_at_most a m \<Longrightarrow> a \<le> b \<Longrightarrow> sends_at_most b m"
  unfolding sends_at_most_def by (meson le_trans)

lemma sends_at_most_return [simp]: "sends_at_most 0 (return_prog x)"
  by (simp add: sends_at_most_def api_requests_def)

lemma sends_at_most_throw [simp]: "sends_at_most 0 (throw_prog e)"
  by (simp add: sends_at_most_def api_requests_def)

lemma sends_at_most_lift [simp]: "sends_at_most 0 (lift_prog r)"
  by (simp add: sends_at_most_def api_requests_def)

lemma sends_at_mostD:
  assumes "sends_at_most n m" and "m s = (res, s')"
  obtains ext where "trace s' = trace s @ ext" and "length (api_requests ext) \<le> n"
  using assms unfolding sends_at_most_def by (metis snd_conv)

lemma sends_at_most_bind:
  assumes m: "sends_at_most a m" and f: "\<And>x. sends_at_most b (f x)"
  shows "sends_at_most (a + b) (bind_prog m f)"
  unfolding sends_at_most_def
proof
  fix s
  obtain r s1 where ms: "m s = (r, s1)" by (cases "m s")
  from m ms obtain ext1 where e1: "trace s1 = trace s @ ext1" "length (api_requests ext1) \<le> a"
    by (rule sends_at_mostD)
  show "\<exists>ext. trace (snd (bind_prog m f s)) = trace s @ ext \<and> length (api_requests ext) \<le> a + b"
  proof (cases r)
    case (Inl e)
    with ms have "snd (bind_prog m f s) = s1" by (simp add: bind_prog_def)
    with e1 have "trace (snd (bind_prog m f s)) = trace s @ ext1"
      and "length (api_requests ext1) \<le> a + b" by simp_all
    then show ?thesis by blast
  next
    case (Inr x)
    obtain r2 s2 where fs: "f x s1 = (r2, s2)" by (cases "f x s1")
    from f fs obtain ext2 where e2: "trace s2 = trace s1 @ ext2" "length (api_requests ext2) \<le> b"
      by (rule sends_at_mostD)
    from ms Inr fs have "snd (bind_prog m f s) = s2" by (simp add: bind_prog_def)
    with e1 e2 have "trace (snd (bind_prog m f s)) = trace s @ (ext1 @ ext2)"
      and "length (api_requests (ext1 @ ext2)) \<le> a + b" by simp_all
    then show ?thesis by blast
  qed
qed

lemma sends_at_most_catch:
  assumes m: "sends_at_most a m" and h: "\<And>e. sends_at_most 0 (h e)"
  shows "sends_at_most a (catch_prog m h)"
  unfolding sends_at_most_def
proof
  fix s
  obtain r s1 where ms: "m s = (r, s1)" by (cases "m s")
  from m ms obtain ext1 where e1: "trace s1 = trace s @ ext1" "length (api_requests ext1) \<le> a"
    by (rule sends_at_mostD)
  show "\<exists>ext. trace (snd (catch_prog m h s)) = trace s @ ext \<and> length (api_requests ext) \<le> a"
  proof (cases r)
    case (Inr x)
    with ms have "snd (catch_prog m h s) = s1" by (simp add: catch_prog_def)
    with e1 show ?thesis by auto
  next
    case (Inl e)
    obtain r2 s2 where hs: "h e s1 = (r2, s2)" by (cases "h e s1")
    from h hs obtain ext2 where e2: "trace s2 = trace s1 @ ext2" "length (api_requests ext2) \<le> 0"
      by (rule sends_at_mostD)
    from ms Inl hs have "snd (catch_prog m h s) = s2" by (simp add: catch_prog_def)
    with e1 e2 have "trace (snd (catch_prog m h s)) = trace s @ (ext1 @ ext2)"
      and "length (api_requests (ext1 @ ext2)) \<le> a" by simp_all
    then show ?thesis by blast
  qed
qed

lemma sends_at_most_send_request: "sends_at_most 1 (send_request env request)"
  by (auto simp: sends_at_most_def send_request_def api_requests_def split: prod.splits)

lemma sends_at_most_authenticate: "sends_at_most 0 (authenticate env)"
  unfolding sends_at_most_def
proof
  fix s
  obtain res s1 where run: "authenticate env s = (res, s1)" by (cases "authenticate env s")
  then obtain g where "trace s1 = trace s @ g" and "api_requests g = []"
    by (rule authenticate_trace)
  with run show "\<exists>ext. trace (snd (authenticate env s)) = trace s @ ext
                    \<and> length (api_requests ext) \<le> 0"
    by auto
qed

lemma sends_at_most_data_request: "sends_at_most 1 (data_request env request)"
proof -
  have "sends_at_most (0 + 1) (data_request env request)"
    unfolding data_request_def getAccessToken_def
    by (intro sends_at_most_bind sends_at_most_authenticate sends_at_most_send_request)
  then show ?thesis by simp
qed

lemma sends_at_most_lift_bind:
  assumes "\<And>x. sends_at_most n (f x)"
  shows "sends_at_most n (bind_prog (lift_prog r) f)"
proof -
  have "sends_at_most (0 + n) (bind_prog (lift_prog r) f)"
    by (intro sends_at_most_bind sends_at_most_lift assms)
  then show ?thesis by simp
qed

lemma sends_at_most_then_pure:
  assumes "sends_at_most n m" and "\<And>x. sends_at_most 0 (f x)"
  shows "sends_at_most n (bind_prog m f)"
proof -
  have "sends_at_most (n + 0) (bind_prog m f)"
    by (intro sends_at_most_bind assms)
  then show ?thesis by simp
qed

lemma sends_at_most_case_prod:
  assumes "\<And>a b. sends_at_most n (f a b)"
  shows "sends_at_most n (case p of (a, b) \<Rightarrow> f a b)"
  using assms by (cases p) simp

lemma stage_bounds:
  "sends_at_most 1 (createStorage env projectId folderId fileName)"
  "sends_at_most 1 (getSignedUploadUrl env objectId)"
  "sends_at_most 1 (uploadToSignedUrl env signedUrl fileBuffer contentTypeArg)"
  "sends_at_most 1 (completeUpload env objectId uploadKey)"
  "sends_at_most 1 (getFolder env projectId folderId)"
proof -
  show "sends_at_most 1 (createStorage env projectId folderId fileName)"
    unfolding createStorage_def
    by (intro sends_at_most_then_pure sends_at_most_data_request sends_at_most_lift)
  show "sends_at_most 1 (getSignedUploadUrl env objectId)"
    unfolding getSignedUploadUrl_def
    by (intro sends_at_most_catch sends_at_most_lift_bind sends_at_most_case_prod
              sends_at_most_then_pure sends_at_most_data_request)
       (intro sends_at_most_lift_bind sends_at_most_return sends_at_most_throw)+
  show "sends_at_most 1 (uploadToSignedUrl env signedUrl fileBuffer contentTypeArg)"
    unfolding uploadToSignedUrl_def Let_def
    by (intro sends_at_most_catch sends_at_most_then_pure sends_at_most_send_request
              sends_at_most_return sends_at_most_throw)
  show "sends_at_most 1 (completeUpload env objectId uploadKey)"
    unfolding completeUpload_def
    by (intro sends_at_most_catch sends_at_most_lift_bind sends_at_most_case_prod
              sends_at_most_then_pure sends_at_most_data_request
              sends_at_most_return sends_at_most_throw)
  show "sends_at_most 1 (getFolder env projectId folderId)"
    unfolding getFolder_def
    by (intro sends_at_most_catch sends_at_most_then_pure sends_at_most_data_request
              sends_at_most_lift sends_at_most_throw)
qed

lemma publish_bound:
  "sends_at_most 2 (createFirstVersion env projectId folderId fileName objectId)"
proof -
  let ?body = "bind_prog (getFolder env projectId folderId) (\<lambda>parentFolder.
        bind_prog (lift_prog (item_version_types parentFolder)) (\<lambda>(itemType, versionType).
        bind_prog (data_request env
            (item_request projectId fileName folderId itemType versionType objectId))
          (\<lambda>response_data.
        lift_prog (js_prop response_data ''data''))))"
  have "sends_at_most (1 + 1) ?body"
    by (intro sends_at_most_bind stage_bounds sends_at_most_lift_bind sends_at_most_case_prod
              sends_at_most_then_pure sends_at_most_data_request sends_at_most_lift)
  then have "sends_at_most 2 ?body"
    by (rule sends_at_most_mono) simp
  then show ?thesis
    by (simp add: createFirstVersion_def)
qed

lemma upload_bound:
  "sends_at_most 6 (uploadFile env
     (UploadFileOptions fileName folderId projectId fileBuffer contentTypeArg))"
proof -
  let ?body = "bind_prog (createStorage env projectId folderId fileName) (\<lambda>storage.
        bind_prog (lift_prog (js_prop storage ''id'')) (\<lambda>storage_id.
        bind_prog (getSignedUploadUrl env storage_id) (\<lambda>(signedUrl, uploadKey).
        bind_prog (uploadToSignedUrl env signedUrl fileBuffer contentTypeArg)
          (\<lambda>done_transfer.
        bind_prog (completeUpload env storage_id uploadKey) (\<lambda>done_finalize.
        createFirstVersion env projectId folderId fileName storage_id)))))"
  have "sends_at_most (1 + (1 + (1 + (1 + 2)))) ?body"
    by (intro sends_at_most_bind stage_bounds publish_bound sends_at_most_lift_bind
              sends_at_most_case_prod)
  then have "sends_at_most 6 ?body"
    by (rule sends_at_most_mono) simp
  then show ?thesis
    unfolding uploadFile.simps
    by (intro sends_at_most_catch sends_at_most_throw)
qed

text \<open>
  C7, as stated, fails: the exception the caller gets does not say which stage failed. In
  \<open>upload_env\<close> with no answer left the first request, the storage POST of stage 1, is
  rejected; with three answers left the fourth request, the finalize POST of stage 4, is
  rejected. The caller receives the same exception in both runs, and it holds the
  message of the cause, not the cause.
\<close>

theorem upload_failure_stage_counterexample:
  "fst (uploadFile upload_env demo_upload (fresh_state 0))
     = Inl (BadRequestException ''Failed to upload file: Request failed with status code 500'') \<and>
   map request_line
     (api_requests (trace (snd (uploadFile upload_env demo_upload (fresh_state 0)))))
     = [(POST, JStr ''/data/v1/projects/b.proj/storage'')] \<and>
   fst (uploadFile upload_env demo_upload (fresh_state 3))
     = Inl (BadRequestException ''Failed to upload file: Request failed with status code 500'') \<and>
   map request_line
     (api_requests (trace (snd (uploadFile upload_env demo_upload (fresh_state 3)))))
     = [(POST, JStr ''/data/v1/projects/b.proj/storage''),
        (GET, JStr demo_signed_path),
        (PUT, JStr ''https://s3.example/upload-1''),
        (POST, JStr demo_signed_path)]"
  by (simp add: run_defs upload_env_defs api_requests_def request_line_def)

text \<open>
  C7, amended. A failure in any of the five stages ends the upload there: the state
  after the upload is the state in which that stage failed, so no later stage has run
  and nothing was tried again, and the caller receives a BadRequestException whose
  message is \<^verbatim>\<open>Failed to upload file: \<close> followed by the message of the failure (the stage
  is not recorded). Reading \<^verbatim>\<open>storage.id\<close> for stage 2 can fail in the same way. Each of
  the first four stages sends at most one request to the API or to storage, the last at
  most two, the whole upload at most six.
\<close>

theorem upload_failure_wrapped:
  "(\<forall>cause s1.
      createStorage env projectId folderId fileName s = (Inl cause, s1) \<longrightarrow>
      uploadFile env
        (UploadFileOptions fileName folderId projectId fileBuffer contentTypeArg) s
        = (Inl (BadRequestException (''Failed to upload file: '' @ error_message cause)), s1)) \<and>
   (\<forall>storage s1 cause.
      createStorage env projectId folderId fileName s = (Inr storage, s1) \<and>
      js_prop storage ''id'' = Inl cause \<longrightarrow>
      uploadFile env
        (UploadFileOptions fileName folderId projectId fileBuffer contentTypeArg) s
        = (Inl (BadRequestException (''Failed to upload file: '' @ error_message cause)), s1)) \<and>
   (\<forall>storage s1 objectId cause s2.
      createStorage env projectId folderId fileName s = (Inr storage, s1) \<and>
      js_prop storage ''id'' = Inr objectId \<and>
      getSignedUploadUrl env objectId s1 = (Inl cause, s2) \<longrightarrow>
      uploadFile env
        (UploadFileOptions fileName folderId projectId fileBuffer contentTypeArg) s
        = (Inl (BadRequestException (''Failed to upload file: '' @ error_message cause)), s2)) \<and>
   (\<forall>storage s1 objectId signedUrl uploadKey s2 cause s3.
      createStorage env projectId folderId fileName s = (Inr storage, s1) \<and>
      js_prop storage ''id'' = Inr objectId \<and>
      getSignedUploadUrl env objectId s1 = (Inr (signedUrl, uploadKey), s2) \<and>
      uploadToSignedUrl env signedUrl fileBuffer contentTypeArg s2 = (Inl cause, s3) \<longrightarrow>
      uploadFile env
        (UploadFileOptions fileName folderId projectId fileBuffer contentTypeArg) s
        = (Inl (BadRequestException (''Failed to upload file: '' @ error_message cause)), s3)) \<and>
   (\<forall>storage s1 objectId signedUrl uploadKey s2 s3 cause s4.
      createStorage env projectId folderId fileName s = (Inr storage, s1) \<and>
      js_prop storage ''id'' = Inr objectId \<and>
      getSignedUploadUrl env objectId s1 = (Inr (signedUrl, uploadKey), s2) \<and>
      uploadToSignedUrl env signedUrl fileBuffer contentTypeArg s2 = (Inr (), s3) \<and>
      completeUpload env objectId uploadKey s3 = (Inl cause, s4) \<longrightarrow>
      uploadFile env
        (UploadFileOptions fileName folderId projectId fileBuffer contentTypeArg) s
        = (Inl (BadRequestException (''Failed to upload file: '' @ error_message cause)), s4)) \<and>
   (\<forall>storage s1 objectId signedUrl uploadKey s2 s3 s4 cause s5.
      createStorage env projectId folderId fileName s = (Inr storage, s1) \<and>
      js_prop storage ''id'' = Inr objectId \<and>
      getSignedUploadUrl env objectId s1 = (Inr (signedUrl, uploadKey), s2) \<and>
      uploadToSignedUrl env signedUrl fileBuffer contentTypeArg s2 = (Inr (), s3) \<and>
      completeUpload env objectId uploadKey s3 = (Inr (), s4) \<and>
      createFirstVersion env projectId folderId fileName objectId s4 = (Inl cause, s5) \<longrightarrow>
      uploadFile env
        (UploadFileOptions fileName folderId projectId fileBuffer contentTypeArg) s
        = (Inl (BadRequestException (''Failed to upload file: '' @ error_message cause)), s5)) \<and>
   sends_at_most 1 (createStorage env projectId folderId fileName) \<and>
   (\<forall>objectId. sends_at_most 1 (getSignedUploadUrl env objectId)) \<and>
   (\<forall>signedUrl. sends_at_most 1 (uploadToSignedUrl env signedUrl fileBuffer contentTypeArg)) \<and>
   (\<forall>objectId uploadKey. sends_at_most 1 (completeUpload env objectId uploadKey)) \<and>
   (\<forall>objectId. sends_at_most 2 (createFirstVersion env projectId folderId fileName objectId)) \<and>
   sends_at_most 6 (uploadFile env
     (UploadFileOptions fileName folderId projectId fileBuffer contentTypeArg))"
  by (intro conjI allI impI stage_bounds publish_bound upload_bound)
     (simp_all add: uploadFile.simps bind_prog_def catch_prog_def)

theorem upload_failure_wrapped_witness:
  "fst (createStorage upload_env ''b.proj'' ''urn:folder-1'' ''file-1.txt'' (fresh_state 0))
     = Inl (AxiosError ''Request failed with status code 500'') \<and>
   uploadFile upload_env demo_upload (fresh_state 0)
     = (Inl (BadRequestException ''Failed to upload file: Request failed with status code 500''),
        snd (createStorage upload_env ''b.proj'' ''urn:folder-1'' ''file-1.txt''
               (fresh_state 0)))"
proof -
  have failed: "createStorage upload_env ''b.proj'' ''urn:folder-1'' ''file-1.txt''
      (fresh_state 0)
    = (Inl (AxiosError ''Request failed with status code 500''),
       snd (createStorage upload_env ''b.proj'' ''urn:folder-1'' ''file-1.txt''
              (fresh_state 0)))"
    by (simp add: run_defs upload_env_defs)
  from upload_failure_wrapped [THEN conjunct1, rule_format, OF failed,
         of "''0123456789''" None]
  have "uploadFile upload_env demo_upload (fresh_state 0)
     = (Inl (BadRequestException ''Failed to upload file: Request failed with status code 500''),
        snd (createStorage upload_env ''b.proj'' ''urn:folder-1'' ''file-1.txt''
               (fresh_state 0)))"
    by (simp add: demo_upload_def)
  with arg_cong [where f = fst, OF failed] show ?thesis by simp
qed

section \<open>Type selection in the create requests\<close>

lemma data_posts_append [simp]: "data_posts (xs @ ys) = data_posts xs @ data_posts ys"
  by (simp add: data_posts_def)

lemma data_posts_api: "data_posts rs = data_posts (api_requests rs)"
  by (induction rs) (auto simp: data_posts_def api_requests_def)

lemma data_posts_none: "api_requests rs = [] \<Longrightarrow> data_posts rs = []"
  using data_posts_api [of rs] by (simp add: data_posts_def)

lemma data_posts_get:
  "api_requests rs = [r] \<Longrightarrow> verb r = GET \<Longrightarrow> data_posts rs = []"
  using data_posts_api [of rs] by (simp add: data_posts_def)

lemma parent_extension_type_path:
  assumes "parentFolder \<noteq> JUndefined" and "parentFolder \<noteq> JNull"
  shows "parent_extension_type parentFolder
           = Inr (js_path parentFolder [''attributes'', ''extension'', ''type''])"
  using assms by (cases parentFolder) (simp_all add: parent_extension_type_def)

text \<open>
  A request of the data client issued in a state where the interceptor gets its token:
  whatever the answer, the trace grows by the grant (if any) and the request.
\<close>

lemma data_request_with_token:
  assumes "getAccessToken env s = (Inr token, s')"
  obtains g where "trace (snd (data_request env request s))
                     = trace s @ g @ [with_bearer token request]"
    and "api_requests g = []"
proof -
  from assms obtain g where g: "trace s' = trace s @ g" "api_requests g = []"
    unfolding getAccessToken_def by (rule authenticate_trace)
  obtain r s2 where sent: "send_request env (with_bearer token request) s' = (r, s2)"
    by (cases "send_request env (with_bearer token request) s'")
  then have "trace s2 = trace s' @ [with_bearer token request]"
    by (rule send_request_trace)
  moreover from assms sent have "data_request env request s = (r, s2)"
    by (simp add: data_request_def bind_prog_def)
  ultimately have "trace (snd (data_request env request s))
                     = trace s @ g @ [with_bearer token request]"
    using g by simp
  with g(2) that show thesis by blast
qed

lemma createFolder_posts:
  assumes parent: "getFolder env projectId folderId s = (Inr parentFolder, s1)"
    and token: "getAccessToken env s1 = (Inr token, s2)"
    and kind: "folder_extension_type parentFolder = Inr extensionType"
  shows "data_posts (new_requests s (snd (createFolder env projectId folderId folderName s)))
           = [with_bearer token
                (create_folder_request projectId folderName extensionType folderId)]"
proof -
  let ?request = "create_folder_request projectId folderName extensionType folderId"
  from parent obtain t1 ext1 where e1: "trace s1 = trace s @ ext1"
    "api_requests ext1 = [with_bearer t1 (folder_request projectId folderId)]"
    by (rule getFolder_success)
  from token obtain g where e2: "trace (snd (data_request env ?request s1))
                     = trace s1 @ g @ [with_bearer token ?request]"
    and g: "api_requests g = []"
    by (rule data_request_with_token)
  obtain r s3 where sent: "data_request env ?request s1 = (r, s3)"
    by (cases "data_request env ?request s1")
  have "snd (createFolder env projectId folderId folderName s) = s3"
    using parent kind sent
    by (cases r; cases "js_prop (projr r) ''data''")
       (simp_all add: createFolder_def catch_prog_def bind_prog_def lift_prog_def
                      throw_prog_def)
  with e1 e2 sent have "new_requests s (snd (createFolder env projectId folderId folderName s))
      = ext1 @ g @ [with_bearer token ?request]"
    by (simp add: new_requests_def)
  moreover have "data_posts ext1 = []"
    using e1(2) by (rule data_posts_get) (simp add: folder_request_def)
  moreover have "data_posts g = []" using g by (rule data_posts_none)
  ultimately show ?thesis
    by (simp add: data_posts_def create_folder_request_def)
qed

lemma createFirstVersion_posts:
  assumes parent: "getFolder env projectId folderId s = (Inr parentFolder, s1)"
    and token: "getAccessToken env s1 = (Inr token, s2)"
    and kind: "item_version_types parentFolder = Inr (itemType, versionType)"
  shows "data_posts (new_requests s
           (snd (createFirstVersion env projectId folderId fileName objectId s)))
           = [with_bearer token
                (item_request projectId fileName folderId itemType versionType objectId)]"
proof -
  let ?request = "item_request projectId fileName folderId itemType versionType objectId"
  from parent obtain t1 ext1 where e1: "trace s1 = trace s @ ext1"
    "api_requests ext1 = [with_bearer t1 (folder_request projectId folderId)]"
    by (rule getFolder_success)
  from token obtain g where e2: "trace (snd (data_request env ?request s1))
                     = trace s1 @ g @ [with_bearer token ?request]"
    and g: "api_requests g = []"
    by (rule data_request_with_token)
  obtain r s3 where sent: "data_request env ?request s1 = (r, s3)"
    by (cases "data_request env ?request s1")
  have "snd (createFirstVersion env projectId folderId fileName objectId s) = s3"
    using parent kind sent
    by (cases r; cases "js_prop (projr r) ''data''")
       (simp_all add: createFirstVersion_def catch_prog_def bind_prog_def lift_prog_def
                      throw_prog_def)
  with e1 e2 sent
  have "new_requests s (snd (createFirstVersion env projectId folderId fileName objectId s))
      = ext1 @ g @ [with_bearer token ?request]"
    by (simp add: new_requests_def)
  moreover have "data_posts ext1 = []"
    using e1(2) by (rule data_posts_get) (simp add: folder_request_def)
  moreover have "data_posts g = []" using g by (rule data_posts_none)
  ultimately show ?thesis
    by (simp add: data_posts_def item_request_def)
qed

lemma declared_types_folder [simp]:
  "declared_types (with_bearer token
      (create_folder_request projectId folderName extensionType folderId))
     = [JStr extensionType]"
  by (simp add: declared_types_def create_folder_request_def folder_body_def)

lemma declared_types_item [simp]:
  "declared_types (with_bearer token
      (item_request projectId fileName folderId itemType versionType objectId))
     = [JStr itemType, JStr versionType]"
  by (simp add: declared_types_def item_request_def item_body_def version_resource_def)

lemma demo_parent_read:
  "getFolder folder_env ''b.proj'' ''urn:folder-1'' (fresh_state [])
     = (Inr demo_folder,
        snd (getFolder folder_env ''b.proj'' ''urn:folder-1'' (fresh_state [])))"
  by (simp add: run_defs folder_env_def)

lemma demo_parent_token:
  "getAccessToken folder_env
     (snd (getFolder folder_env ''b.proj'' ''urn:folder-1'' (fresh_state [])))
     = (Inr ''access-1'',
        snd (getAccessToken folder_env
               (snd (getFolder folder_env ''b.proj'' ''urn:folder-1'' (fresh_state [])))))"
  by (simp add: run_defs folder_env_def)

text \<open>
  C5. The selection as \<^verbatim>\<open>createFolder\<close> and \<^verbatim>\<open>createFirstVersion\<close> carry it out. Both
  read the parent folder first; take a run where that read succeeds and the interceptor
  then gets its token. Each sends exactly one POST of the data client, to the folders
  and to the items endpoint, and the extension types that POST declares follow the
  parent's \<^verbatim>\<open>attributes.extension.type\<close>, the cases read in order: a string containing
  \<^verbatim>\<open>bim360\<close> gives the bim360 folder, item and version types; one not containing it but
  containing \<^verbatim>\<open>core\<close> gives the core types; a string containing neither, and an absent
  (or otherwise falsy) extension type, give the bim360 types.
\<close>

theorem child_type_selection:
  assumes parent: "getFolder env projectId folderId s = (Inr parentFolder, s1)"
    and present: "parentFolder \<noteq> JUndefined \<and> parentFolder \<noteq> JNull"
    and token: "getAccessToken env s1 = (Inr token, s2)"
  shows "let parentType = js_path parentFolder [''attributes'', ''extension'', ''type''];
         folder_posts = map (\<lambda>r. (request_line r, declared_types r))
           (data_posts (new_requests s
              (snd (createFolder env projectId folderId folderName s))));
         item_posts = map (\<lambda>r. (request_line r, declared_types r))
           (data_posts (new_requests s
              (snd (createFirstVersion env projectId folderId fileName objectId s))))
     in
         (\<forall>t. parentType = JStr t \<and> (\<exists>a b. t = a @ ''bim360'' @ b) \<longrightarrow>
            folder_posts = [((POST, JStr (''/data/v1/projects/'' @ projectId @ ''/folders'')),
                             [JStr ''folders:autodesk.bim360:Folder''])] \<and>
            item_posts = [((POST, JStr (''/data/v1/projects/'' @ projectId @ ''/items'')),
                           [JStr ''items:autodesk.bim360:File'',
                            JStr ''versions:autodesk.bim360:File''])]) \<and>
         (\<forall>t. parentType = JStr t \<and> \<not> (\<exists>a b. t = a @ ''bim360'' @ b) \<and>
                (\<exists>a b. t = a @ ''core'' @ b) \<longrightarrow>
            folder_posts = [((POST, JStr (''/data/v1/projects/'' @ projectId @ ''/folders'')),
                             [JStr ''folders:autodesk.core:Folder''])] \<and>
            item_posts = [((POST, JStr (''/data/v1/projects/'' @ projectId @ ''/items'')),
                           [JStr ''items:autodesk.core:File'',
                            JStr ''versions:autodesk.core:File''])]) \<and>
         (\<forall>t. parentType = JStr t \<and> \<not> (\<exists>a b. t = a @ ''bim360'' @ b) \<and>
                \<not> (\<exists>a b. t = a @ ''core'' @ b) \<longrightarrow>
            folder_posts = [((POST, JStr (''/data/v1/projects/'' @ projectId @ ''/folders'')),
                             [JStr ''folders:autodesk.bim360:Folder''])] \<and>
            item_posts = [((POST, JStr (''/data/v1/projects/'' @ projectId @ ''/items'')),
                           [JStr ''items:autodesk.bim360:File'',
                            JStr ''versions:autodesk.bim360:File''])]) \<and>
         (\<not> truthy parentType \<longrightarrow>
            folder_posts = [((POST, JStr (''/data/v1/projects/'' @ projectId @ ''/folders'')),
                             [JStr ''folders:autodesk.bim360:Folder''])] \<and>
            item_posts = [((POST, JStr (''/data/v1/projects/'' @ projectId @ ''/items'')),
                           [JStr ''items:autodesk.bim360:File'',
                            JStr ''versions:autodesk.bim360:File''])])"
proof -
  let ?parentType = "js_path parentFolder [''attributes'', ''extension'', ''type'']"
  from present have chain: "parent_extension_type parentFolder = Inr ?parentType"
    by (simp add: parent_extension_type_path)
  have sent: "map (\<lambda>r. (request_line r, declared_types r))
           (data_posts (new_requests s
              (snd (createFolder env projectId folderId folderName s))))
        = [((POST, JStr (''/data/v1/projects/'' @ projectId @ ''/folders'')),
            [JStr extensionType])] \<and>
      map (\<lambda>r. (request_line r, declared_types r))
           (data_posts (new_requests s
              (snd (createFirstVersion env projectId folderId fileName objectId s))))
        = [((POST, JStr (''/data/v1/projects/'' @ projectId @ ''/items'')),
            [JStr itemType, JStr versionType])]"
    if "folder_extension_type parentFolder = Inr extensionType"
      and "item_version_types parentFolder = Inr (itemType, versionType)"
    for extensionType itemType versionType
    unfolding createFolder_posts [OF parent token that(1)]
              createFirstVersion_posts [OF parent token that(2)]
    by (simp add: request_line_def)
       (simp add: create_folder_request_def item_request_def)
  have string: "folder_extension_type parentFolder =
        Inr (if str_includes t ''bim360'' then ''folders:autodesk.bim360:Folder''
             else if str_includes t ''core'' then ''folders:autodesk.core:Folder''
             else ''folders:autodesk.bim360:Folder'') \<and>
      item_version_types parentFolder =
        Inr (if str_includes t ''bim360''
             then (''items:autodesk.bim360:File'', ''versions:autodesk.bim360:File'')
             else if str_includes t ''core''
             then (''items:autodesk.core:File'', ''versions:autodesk.core:File'')
             else (''items:autodesk.bim360:File'', ''versions:autodesk.bim360:File''))"
    if "?parentType = JStr t" for t
    using chain that
    by (simp add: folder_extension_type_def item_version_types_def select_kind_string)
  have falsy: "folder_extension_type parentFolder = Inr ''folders:autodesk.bim360:Folder'' \<and>
      item_version_types parentFolder
        = Inr (''items:autodesk.bim360:File'', ''versions:autodesk.bim360:File'')"
    if "\<not> truthy ?parentType"
    using chain that
    by (simp add: folder_extension_type_def item_version_types_def select_kind_falsy)
  have case1: "\<forall>t. ?parentType = JStr t \<and> (\<exists>a b. t = a @ ''bim360'' @ b) \<longrightarrow>
      map (\<lambda>r. (request_line r, declared_types r))
           (data_posts (new_requests s
              (snd (createFolder env projectId folderId folderName s))))
        = [((POST, JStr (''/data/v1/projects/'' @ projectId @ ''/folders'')),
            [JStr ''folders:autodesk.bim360:Folder''])] \<and>
      map (\<lambda>r. (request_line r, declared_types r))
           (data_posts (new_requests s
              (snd (createFirstVersion env projectId folderId fileName objectId s))))
        = [((POST, JStr (''/data/v1/projects/'' @ projectId @ ''/items'')),
            [JStr ''items:autodesk.bim360:File'', JStr ''versions:autodesk.bim360:File''])]"
  proof (intro allI impI)
    fix t
    assume "?parentType = JStr t \<and> (\<exists>a b. t = a @ ''bim360'' @ b)"
    then have "?parentType = JStr t" and "str_includes t ''bim360''"
      by (simp_all add: str_includes_iff)
    with string [of t] have "folder_extension_type parentFolder = Inr ''folders:autodesk.bim360:Folder''"
      and "item_version_types parentFolder = Inr (''items:autodesk.bim360:File'', ''versions:autodesk.bim360:File'')"
      by simp_all
    then show "map (\<lambda>r. (request_line r, declared_types r))
           (data_posts (new_requests s
              (snd (createFolder env projectId folderId folderName s))))
        = [((POST, JStr (''/data/v1/projects/'' @ projectId @ ''/folders'')),
            [JStr ''folders:autodesk.bim360:Folder''])] \<and>
      map (\<lambda>r. (request_line r, declared_types r))
           (data_posts (new_requests s
              (snd (createFirstVersion env projectId folderId fileName objectId s))))
        = [((POST, JStr (''/data/v1/projects/'' @ projectId @ ''/items'')),
            [JStr ''items:autodesk.bim360:File'', JStr ''versions:autodesk.bim360:File''])]"
      by (rule sent)
  qed
  have case2: "\<forall>t. ?parentType = JStr t \<and> \<not> (\<exists>a b. t = a @ ''bim360'' @ b) \<and> (\<exists>a b. t = a @ ''core'' @ b) \<longrightarrow>
      map (\<lambda>r. (request_line r, declared_types r))
           (data_posts (new_requests s
              (snd (createFolder env projectId folderId folderName s))))
        = [((POST, JStr (''/data/v1/projects/'' @ projectId @ ''/folders'')),
            [JStr ''folders:autodesk.core:Folder''])] \<and>
      map (\<lambda>r. (request_line r, declared_types r))
           (data_posts (new_requests s
              (snd (createFirstVersion env projectId folderId fileName objectId s))))
        = [((POST, JStr (''/data/v1/projects/'' @ projectId @ ''/items'')),
            [JStr ''items:autodesk.core:File'', JStr ''versions:autodesk.core:File''])]"
  proof (intro allI impI)
    fix t
    assume "?parentType = JStr t \<and> \<not> (\<exists>a b. t = a @ ''bim360'' @ b) \<and> (\<exists>a b. t = a @ ''core'' @ b)"
    then have "?parentType = JStr t" and "\<not> str_includes t ''bim360''"
      and "str_includes t ''core''"
      by (simp_all add: str_includes_iff)
    with string [of t] have "folder_extension_type parentFolder = Inr ''folders:autodesk.core:Folder''"
      and "item_version_types parentFolder = Inr (''items:autodesk.core:File'', ''versions:autodesk.core:File'')"
      by simp_all
    then show "map (\<lambda>r. (request_line r, declared_types r))
           (data_posts (new_requests s
              (snd (createFolder env projectId folderId folderName s))))
        = [((POST, JStr (''/data/v1/projects/'' @ projectId @ ''/folders'')),
            [JStr ''folders:autodesk.core:Folder''])] \<and>
      map (\<lambda>r. (request_line r, declared_types r))
           (data_posts (new_requests s
              (snd (createFirstVersion env projectId folderId fileName objectId s))))
        = [((POST, JStr (''/data/v1/projects/'' @ projectId @ ''/items'')),
            [JStr ''items:autodesk.core:File'', JStr ''versions:autodesk.core:File''])]"
      by (rule sent)
  qed
  have case3: "\<forall>t. ?parentType = JStr t \<and> \<not> (\<exists>a b. t = a @ ''bim360'' @ b) \<and> \<not> (\<exists>a b. t = a @ ''core'' @ b) \<longrightarrow>
      map (\<lambda>r. (request_line r, declared_types r))
           (data_posts (new_requests s
              (snd (createFolder env projectId folderId folderName s))))
        = [((POST, JStr (''/data/v1/projects/'' @ projectId @ ''/folders'')),
            [JStr ''folders:autodesk.bim360:Folder''])] \<and>
      map (\<lambda>r. (request_line r, declared_types r))
           (data_posts (new_requests s
              (snd (createFirstVersion env projectId folderId fileName objectId s))))
        = [((POST, JStr (''/data/v1/projects/'' @ projectId @ ''/items'')),
            [JStr ''items:autodesk.bim360:File'', JStr ''versions:autodesk.bim360:File''])]"
  proof (intro allI impI)
    fix t
    assume "?parentType = JStr t \<and> \<not> (\<exists>a b. t = a @ ''bim360'' @ b) \<and> \<not> (\<exists>a b. t = a @ ''core'' @ b)"
    then have "?parentType = JStr t" and "\<not> str_includes t ''bim360''"
      and "\<not> str_includes t ''core''"
      by (simp_all add: str_includes_iff)
    with string [of t] have "folder_extension_type parentFolder = Inr ''folders:autodesk.bim360:Folder''"
      and "item_version_types parentFolder = Inr (''items:autodesk.bim360:File'', ''versions:autodesk.bim360:File'')"
      by simp_all
    then show "map (\<lambda>r. (request_line r, declared_types r))
           (data_posts (new_requests s
              (snd (createFolder env projectId folderId folderName s))))
        = [((POST, JStr (''/data/v1/projects/'' @ projectId @ ''/folders'')),
            [JStr ''folders:autodesk.bim360:Folder''])] \<and>
      map (\<lambda>r. (request_line r, declared_types r))
           (data_posts (new_requests s
              (snd (createFirstVersion env projectId folderId fileName objectId s))))
        = [((POST, JStr (''/data/v1/projects/'' @ projectId @ ''/items'')),
            [JStr ''items:autodesk.bim360:File'', JStr ''versions:autodesk.bim360:File''])]"
      by (rule sent)
  qed
  have case4: "\<not> truthy ?parentType \<longrightarrow>
      map (\<lambda>r. (request_line r, declared_types r))
           (data_posts (new_requests s
              (snd (createFolder env projectId folderId folderName s))))
        = [((POST, JStr (''/data/v1/projects/'' @ projectId @ ''/folders'')),
            [JStr ''folders:autodesk.bim360:Folder''])] \<and>
      map (\<lambda>r. (request_line r, declared_types r))
           (data_posts (new_requests s
              (snd (createFirstVersion env projectId folderId fileName objectId s))))
        = [((POST, JStr (''/data/v1/projects/'' @ projectId @ ''/items'')),
            [JStr ''items:autodesk.bim360:File'', JStr ''versions:autodesk.bim360:File''])]"
  proof (intro allI impI)
    assume "\<not> truthy ?parentType"
    then have "folder_extension_type parentFolder = Inr ''folders:autodesk.bim360:Folder''"
      and "item_version_types parentFolder = Inr (''items:autodesk.bim360:File'', ''versions:autodesk.bim360:File'')"
      using falsy by simp_all
    then show "map (\<lambda>r. (request_line r, declared_types r))
           (data_posts (new_requests s
              (snd (createFolder env projectId folderId folderName s))))
        = [((POST, JStr (''/data/v1/projects/'' @ projectId @ ''/folders'')),
            [JStr ''folders:autodesk.bim360:Folder''])] \<and>
      map (\<lambda>r. (request_line r, declared_types r))
           (data_posts (new_requests s
              (snd (createFirstVersion env projectId folderId fileName objectId s))))
        = [((POST, JStr (''/data/v1/projects/'' @ projectId @ ''/items'')),
            [JStr ''items:autodesk.bim360:File'', JStr ''versions:autodesk.bim360:File''])]"
      by (rule sent)
  qed
  from case1 case2 case3 case4 show ?thesis
    unfolding Let_def by (intro conjI)
qed

theorem child_type_selection_witness:
  "map (\<lambda>r. (request_line r, declared_types r))
     (data_posts (new_requests (fresh_state [])
        (snd (createFolder folder_env ''b.proj'' ''urn:folder-1'' ''Drawings''
                (fresh_state [])))))
     = [((POST, JStr ''/data/v1/projects/b.proj/folders''),
         [JStr ''folders:autodesk.core:Folder''])] \<and>
   map (\<lambda>r. (request_line r, declared_types r))
     (data_posts (new_requests (fresh_state [])
        (snd (createFirstVersion folder_env ''b.proj'' ''urn:folder-1'' ''file-1.txt''
                (JStr demo_object_id) (fresh_state [])))))
     = [((POST, JStr ''/data/v1/projects/b.proj/items''),
         [JStr ''items:autodesk.core:File'', JStr ''versions:autodesk.core:File''])]"
proof -
  have present: "demo_folder \<noteq> JUndefined \<and> demo_folder \<noteq> JNull"
    by (simp add: demo_folder_def)
  have core: "js_path demo_folder [''attributes'', ''extension'', ''type'']
                = JStr ''folders:autodesk.core:Folder'' \<and>
      \<not> (\<exists>a b. ''folders:autodesk.core:Folder'' = a @ ''bim360'' @ b) \<and>
      (\<exists>a b. ''folders:autodesk.core:Folder'' = a @ ''core'' @ b)"
    unfolding str_includes_iff [symmetric] by (simp add: demo_folder_def)
  note selection = child_type_selection
    [OF demo_parent_read present demo_parent_token,
     where folderName = "''Drawings''" and fileName = "''file-1.txt''"
       and objectId = "JStr demo_object_id", unfolded Let_def]
  from selection [THEN conjunct2, THEN conjunct1, THEN spec, THEN mp, OF core]
  show ?thesis by simp
qed

section \<open>Find-or-create of a folder\<close>

lemma getOrCreateFolder_found:
  assumes "getFolderContents env projectId parentFolderId s = (Inr (folders, items), s1)"
    and "find (name_matches folderName) folders = Some existingFolder"
  shows "getOrCreateFolder env projectId parentFolderId folderName s
           = (Inr existingFolder, s1)"
  using assms by (simp add: getOrCreateFolder_def bind_prog_def)

lemma getOrCreateFolder_absent:
  assumes "getFolderContents env projectId parentFolderId s = (Inr (folders, items), s1)"
    and "find (name_matches folderName) folders = None"
  shows "getOrCreateFolder env projectId parentFolderId folderName s
           = createFolder env projectId parentFolderId folderName s1"
  using assms by (simp add: getOrCreateFolder_def bind_prog_def)

lemma js_prop_present:
  "v \<noteq> JUndefined \<Longrightarrow> v \<noteq> JNull \<Longrightarrow> js_prop v k = Inr (js_opt_prop v k)"
  by (cases v) simp_all

lemma filter_items_present:
  assumes "\<forall>x \<in> set children. x \<noteq> JUndefined \<and> x \<noteq> JNull"
  shows "filter_items t children
           = Inr (filter (\<lambda>x. js_path x [''type''] = JStr t) children)"
  using assms by (induction children) (simp_all add: js_prop_present)

lemma js_prop_of_path:
  assumes "js_path response [k] = JArr children"
  shows "js_prop response k = Inr (JArr children)"
  using assms by (cases response) simp_all

text \<open>
  The listing as \<^verbatim>\<open>getFolderContents\<close> returns it: the entries of \<^verbatim>\<open>response.data.data\<close>
  of type \<^verbatim>\<open>folders\<close>, and those of type \<^verbatim>\<open>items\<close>, in their order.
\<close>

lemma getFolderContents_listing:
  assumes "data_request env (folder_contents_request projectId folderId) s = (Inr response, s1)"
    and "js_path response [''data''] = JArr children"
    and "\<forall>x \<in> set children. x \<noteq> JUndefined \<and> x \<noteq> JNull"
  shows "getFolderContents env projectId folderId s
           = (Inr (filter (\<lambda>x. js_path x [''type''] = JStr ''folders'') children,
                   filter (\<lambda>x. js_path x [''type''] = JStr ''items'') children), s1)"
  using assms(1) js_prop_of_path [OF assms(2)] filter_items_present [OF assms(3)]
  by (simp add: getFolderContents_def catch_prog_def bind_prog_def lift_prog_def
                return_prog_def)

lemma find_first_named:
  assumes "P found" and "\<forall>y \<in> set pre. \<not> P y"
  shows "find P (pre @ found # post) = Some found"
  using assms by (induction pre) simp_all

lemma find_in_folders:
  "find (name_matches folderName)
     (filter (\<lambda>x. js_path x [''type''] = JStr ''folders'') children)
   = find (\<lambda>x. js_path x [''type''] = JStr ''folders'' \<and>
               (js_path x [''attributes'', ''name''] = JStr folderName \<or>
                js_path x [''attributes'', ''displayName''] = JStr folderName)) children"
  by (induction children) (simp_all add: name_matches_def)

lemmas folder_env_defs =
  folder_env_def created_folder_def demo_folder_def name_matches_def folder_body_def

lemmas first_page_env_defs =
  first_page_env_def archive_folder_def minted_folder_def demo_folder_def name_matches_def
  folder_body_def hex_digit_def

lemma demo_first_call:
  "getOrCreateFolder folder_env ''b.proj'' ''urn:folder-1'' ''Drawings'' (fresh_state [])
     = (Inr (JObj [(''type'', JStr ''folders''), (''id'', JStr ''urn:folder:Drawings''),
                   (''attributes'', JObj [(''name'', JStr ''Drawings''),
                                          (''displayName'', JStr ''Drawings'')])]),
        snd (getOrCreateFolder folder_env ''b.proj'' ''urn:folder-1'' ''Drawings''
               (fresh_state [])))"
  by (simp add: run_defs folder_env_defs)

lemma demo_first_call_requests:
  "map request_line (api_requests (trace
     (snd (getOrCreateFolder folder_env ''b.proj'' ''urn:folder-1'' ''Drawings''
             (fresh_state [])))))
     = [(GET, JStr ''/data/v1/projects/b.proj/folders/urn:folder-1/contents''),
        (GET, JStr ''/data/v1/projects/b.proj/folders/urn:folder-1''),
        (POST, JStr ''/data/v1/projects/b.proj/folders'')]"
  by (simp add: run_defs folder_env_defs api_requests_def request_line_def)

lemma demo_first_listing:
  "data_request folder_env (folder_contents_request ''b.proj'' ''urn:folder-1'')
     (fresh_state [])
     = (Inr (JObj [(''data'', JArr [])]),
        snd (data_request folder_env (folder_contents_request ''b.proj'' ''urn:folder-1'')
               (fresh_state [])))"
  by (simp add: run_defs folder_env_defs)

lemma demo_first_call_creates:
  "data_posts (new_requests (fresh_state [])
     (snd (getOrCreateFolder folder_env ''b.proj'' ''urn:folder-1'' ''Drawings''
             (fresh_state [])))) \<noteq> []"
  by (simp add: run_defs folder_env_defs data_posts_def new_requests_def)

lemma demo_second_response:
  "data_request folder_env (folder_contents_request ''b.proj'' ''urn:folder-1'')
     (snd (getOrCreateFolder folder_env ''b.proj'' ''urn:folder-1'' ''Drawings''
             (fresh_state [])))
     = (Inr (JObj [(''data'', JArr
          [JObj [(''type'', JStr ''folders''), (''id'', JStr ''urn:folder:Drawings''),
                 (''attributes'', JObj [(''name'', JStr ''Drawings''),
                                        (''displayName'', JStr ''Drawings'')])]])]),
        snd (data_request folder_env (folder_contents_request ''b.proj'' ''urn:folder-1'')
               (snd (getOrCreateFolder folder_env ''b.proj'' ''urn:folder-1'' ''Drawings''
                       (fresh_state [])))))"
  by (simp add: run_defs folder_env_defs)

text \<open>
  C9, as stated, fails. \<^verbatim>\<open>getOrCreateFolder\<close> reads one answer of the contents request
  and follows no link to further pages. With a service that lists the children in pages
  and already holds one child, the first call creates the folder; the folder is then
  held by the service, on the second page; the second call, with the same arguments,
  does not see it, sends a create request again and returns a folder with another id.
\<close>

theorem get_or_create_twice_counterexample:
  "fst (getOrCreateFolder first_page_env ''b.proj'' ''urn:folder-1'' ''Drawings''
          (fresh_state [archive_folder]))
     = Inr (JObj [(''type'', JStr ''folders''), (''id'', JStr ''urn:folder-3''),
                  (''attributes'', JObj [(''name'', JStr ''Drawings''),
                                         (''displayName'', JStr ''Drawings'')])]) \<and>
   map request_line (api_requests (trace
     (snd (getOrCreateFolder first_page_env ''b.proj'' ''urn:folder-1'' ''Drawings''
             (fresh_state [archive_folder])))))
     = [(GET, JStr ''/data/v1/projects/b.proj/folders/urn:folder-1/contents''),
        (GET, JStr ''/data/v1/projects/b.proj/folders/urn:folder-1''),
        (POST, JStr ''/data/v1/projects/b.proj/folders'')] \<and>
   world (snd (getOrCreateFolder first_page_env ''b.proj'' ''urn:folder-1'' ''Drawings''
                 (fresh_state [archive_folder])))
     = [archive_folder,
        JObj [(''type'', JStr ''folders''), (''id'', JStr ''urn:folder-3''),
              (''attributes'', JObj [(''name'', JStr ''Drawings''),
                                     (''displayName'', JStr ''Drawings'')])]] \<and>
   fst (getOrCreateFolder first_page_env ''b.proj'' ''urn:folder-1'' ''Drawings''
          (snd (getOrCreateFolder first_page_env ''b.proj'' ''urn:folder-1'' ''Drawings''
                  (fresh_state [archive_folder]))))
     = Inr (JObj [(''type'', JStr ''folders''), (''id'', JStr ''urn:folder-4''),
                  (''attributes'', JObj [(''name'', JStr ''Drawings''),
                                         (''displayName'', JStr ''Drawings'')])]) \<and>
   map request_line (api_requests (new_requests
     (snd (getOrCreateFolder first_page_env ''b.proj'' ''urn:folder-1'' ''Drawings''
             (fresh_state [archive_folder])))
     (snd (getOrCreateFolder first_page_env ''b.proj'' ''urn:folder-1'' ''Drawings''
             (snd (getOrCreateFolder first_page_env ''b.proj'' ''urn:folder-1'' ''Drawings''
                     (fresh_state [archive_folder])))))))
     = [(GET, JStr ''/data/v1/projects/b.proj/folders/urn:folder-1/contents''),
        (GET, JStr ''/data/v1/projects/b.proj/folders/urn:folder-1''),
        (POST, JStr ''/data/v1/projects/b.proj/folders'')]"
  by (simp add: run_defs first_page_env_defs api_requests_def request_line_def
                new_requests_def)

text \<open>
  C9, amended. \<^verbatim>\<open>getOrCreateFolder\<close> sends nothing but the contents request for
  \<open>parentFolderId\<close> itself, the read of that parent and the create request under it: no
  other folder is listed. What it does is decided by the entries of the one answer to
  that contents request: it returns the first entry of type \<^verbatim>\<open>folders\<close> whose
  \<^verbatim>\<open>attributes.name\<close> or \<^verbatim>\<open>attributes.displayName\<close> is the name asked for, having sent the
  contents request only, and it goes on to \<^verbatim>\<open>createFolder\<close> when no entry is one. So when
  a first call has created the folder (it sent a POST and returned \<open>created\<close>) and the
  answer to the contents request of the second call is the answer of the first with one
  more entry, a folder of that name with the id of \<open>created\<close>, the second call returns a
  folder with that id and sends the contents request only, no create request.
\<close>

theorem get_or_create_folder:
  "let named = (\<lambda>entry.
         js_path entry [''type''] = JStr ''folders'' \<and>
         (js_path entry [''attributes'', ''name''] = JStr folderName \<or>
          js_path entry [''attributes'', ''displayName''] = JStr folderName));
       listing = folder_contents_request projectId parentFolderId
   in
   emits (getOrCreateFolder env projectId parentFolderId folderName)
     (\<lambda>r. client r = AuthClient \<or>
           (\<exists>token. r = with_bearer token
                          (folder_contents_request projectId parentFolderId)) \<or>
           (\<exists>token. r = with_bearer token (folder_request projectId parentFolderId)) \<or>
           (\<exists>token extensionType.
              r = with_bearer token
                    (create_folder_request projectId folderName extensionType
                       parentFolderId))) \<and>
   (\<forall>response children s1.
      data_request env listing s = (Inr response, s1) \<and>
      js_path response [''data''] = JArr children \<and>
      (\<forall>entry \<in> set children. entry \<noteq> JUndefined \<and> entry \<noteq> JNull) \<longrightarrow>
        (\<exists>token. api_requests (new_requests s s1) = [with_bearer token listing]) \<and>
        (\<forall>pre found post.
           children = pre @ found # post \<and> named found \<and>
           (\<forall>entry \<in> set pre. \<not> named entry) \<longrightarrow>
             getOrCreateFolder env projectId parentFolderId folderName s = (Inr found, s1)) \<and>
        ((\<forall>entry \<in> set children. \<not> named entry) \<longrightarrow>
           getOrCreateFolder env projectId parentFolderId folderName s
             = createFolder env projectId parentFolderId folderName s1)) \<and>
   (\<forall>s0 response1 s1 created response2 s2 pre post listed.
      data_request env listing s0 = (Inr response1, s1) \<and>
      js_path response1 [''data''] = JArr (pre @ post) \<and>
      getOrCreateFolder env projectId parentFolderId folderName s0 = (Inr created, s) \<and>
      data_posts (new_requests s0 s) \<noteq> [] \<and>
      data_request env listing s = (Inr response2, s2) \<and>
      js_path response2 [''data''] = JArr (pre @ listed # post) \<and>
      (\<forall>entry \<in> set (pre @ listed # post). entry \<noteq> JUndefined \<and> entry \<noteq> JNull) \<and>
      named listed \<and>
      js_path listed [''id''] = js_path created [''id''] \<longrightarrow>
        (\<exists>returned.
           getOrCreateFolder env projectId parentFolderId folderName s = (Inr returned, s2) \<and>
           js_path returned [''id''] = js_path created [''id'']) \<and>
        data_posts (new_requests s s2) = [] \<and>
        (\<exists>token. api_requests (new_requests s s2) = [with_bearer token listing]))"
proof -
  let ?named = "\<lambda>entry.
         js_path entry [''type''] = JStr ''folders'' \<and>
         (js_path entry [''attributes'', ''name''] = JStr folderName \<or>
          js_path entry [''attributes'', ''displayName''] = JStr folderName)"
  let ?listing = "folder_contents_request projectId parentFolderId"
  have found: "getOrCreateFolder env projectId parentFolderId folderName s = (Inr found, s1) \<and>
      (\<exists>token. api_requests (new_requests s s1) = [with_bearer token ?listing])"
    if "data_request env ?listing s = (Inr response, s1)"
      and "js_path response [''data''] = JArr (pre @ found # post)"
      and "\<forall>entry \<in> set (pre @ found # post). entry \<noteq> JUndefined \<and> entry \<noteq> JNull"
      and "?named found" and "\<forall>entry \<in> set pre. \<not> ?named entry"
    for s s1 response pre found post
  proof -
    have "find ?named (pre @ found # post) = Some found"
      using that(4,5) by (rule find_first_named)
    then have "find (name_matches folderName)
        (filter (\<lambda>x. js_path x [''type''] = JStr ''folders'') (pre @ found # post))
        = Some found"
      unfolding find_in_folders .
    with getFolderContents_listing [OF that(1,2,3)]
    have "getOrCreateFolder env projectId parentFolderId folderName s = (Inr found, s1)"
      by (rule getOrCreateFolder_found)
    moreover from that(1) obtain token ext where "trace s1 = trace s @ ext"
      and "api_requests ext = [with_bearer token ?listing]"
      by (rule data_request_success) (simp add: folder_contents_request_def)
    then have "\<exists>token. api_requests (new_requests s s1) = [with_bearer token ?listing]"
      by (auto simp: new_requests_append)
    ultimately show ?thesis by simp
  qed
  have absent: "getOrCreateFolder env projectId parentFolderId folderName s
        = createFolder env projectId parentFolderId folderName s1"
    if "data_request env ?listing s = (Inr response, s1)"
      and "js_path response [''data''] = JArr children"
      and "\<forall>entry \<in> set children. entry \<noteq> JUndefined \<and> entry \<noteq> JNull"
      and "\<forall>entry \<in> set children. \<not> ?named entry"
    for s s1 response children
  proof -
    have "find ?named children = None"
      using that(4) by (simp add: find_None_iff)
    then have "find (name_matches folderName)
        (filter (\<lambda>x. js_path x [''type''] = JStr ''folders'') children) = None"
      unfolding find_in_folders .
    with getFolderContents_listing [OF that(1,2,3)] show ?thesis
      by (rule getOrCreateFolder_absent)
  qed
  have part1: "emits (getOrCreateFolder env projectId parentFolderId folderName)
     (\<lambda>r. client r = AuthClient \<or>
           (\<exists>token. r = with_bearer token
                          (folder_contents_request projectId parentFolderId)) \<or>
           (\<exists>token. r = with_bearer token (folder_request projectId parentFolderId)) \<or>
           (\<exists>token extensionType.
              r = with_bearer token
                    (create_folder_request projectId folderName extensionType
                       parentFolderId)))"
    by (rule emits_getOrCreateFolder) (auto simp: token_request_def)
  have part2: "\<forall>response children s1.
      data_request env ?listing s = (Inr response, s1) \<and>
      js_path response [''data''] = JArr children \<and>
      (\<forall>entry \<in> set children. entry \<noteq> JUndefined \<and> entry \<noteq> JNull) \<longrightarrow>
        (\<exists>token. api_requests (new_requests s s1) = [with_bearer token ?listing]) \<and>
        (\<forall>pre found post.
           children = pre @ found # post \<and> ?named found \<and>
           (\<forall>entry \<in> set pre. \<not> ?named entry) \<longrightarrow>
             getOrCreateFolder env projectId parentFolderId folderName s = (Inr found, s1)) \<and>
        ((\<forall>entry \<in> set children. \<not> ?named entry) \<longrightarrow>
           getOrCreateFolder env projectId parentFolderId folderName s
             = createFolder env projectId parentFolderId folderName s1)"
  proof (intro allI impI)
    fix response children s1
    assume a: "data_request env ?listing s = (Inr response, s1) \<and>
      js_path response [''data''] = JArr children \<and>
      (\<forall>entry \<in> set children. entry \<noteq> JUndefined \<and> entry \<noteq> JNull)"
    from a obtain token ext where "trace s1 = trace s @ ext"
      and "api_requests ext = [with_bearer token ?listing]"
      by (auto elim!: data_request_success simp: folder_contents_request_def)
    then have sent: "\<exists>token. api_requests (new_requests s s1) = [with_bearer token ?listing]"
      by (auto simp: new_requests_append)
    have first: "getOrCreateFolder env projectId parentFolderId folderName s = (Inr found, s1)"
      if "children = pre @ found # post \<and> ?named found \<and>
          (\<forall>entry \<in> set pre. \<not> ?named entry)" for pre found post
      using found [of s response s1 pre found post] a that by simp
    have none: "getOrCreateFolder env projectId parentFolderId folderName s
        = createFolder env projectId parentFolderId folderName s1"
      if "\<forall>entry \<in> set children. \<not> ?named entry"
      using absent [of s response s1 children] a that by simp
    from sent first none
    show "(\<exists>token. api_requests (new_requests s s1) = [with_bearer token ?listing]) \<and>
        (\<forall>pre found post.
           children = pre @ found # post \<and> ?named found \<and>
           (\<forall>entry \<in> set pre. \<not> ?named entry) \<longrightarrow>
             getOrCreateFolder env projectId parentFolderId folderName s = (Inr found, s1)) \<and>
        ((\<forall>entry \<in> set children. \<not> ?named entry) \<longrightarrow>
           getOrCreateFolder env projectId parentFolderId folderName s
             = createFolder env projectId parentFolderId folderName s1)"
      by blast
  qed
  have part3: "\<forall>s0 response1 s1 created response2 s2 pre post listed.
      data_request env ?listing s0 = (Inr response1, s1) \<and>
      js_path response1 [''data''] = JArr (pre @ post) \<and>
      getOrCreateFolder env projectId parentFolderId folderName s0 = (Inr created, s) \<and>
      data_posts (new_requests s0 s) \<noteq> [] \<and>
      data_request env ?listing s = (Inr response2, s2) \<and>
      js_path response2 [''data''] = JArr (pre @ listed # post) \<and>
      (\<forall>entry \<in> set (pre @ listed # post). entry \<noteq> JUndefined \<and> entry \<noteq> JNull) \<and>
      ?named listed \<and>
      js_path listed [''id''] = js_path created [''id''] \<longrightarrow>
        (\<exists>returned.
           getOrCreateFolder env projectId parentFolderId folderName s = (Inr returned, s2) \<and>
           js_path returned [''id''] = js_path created [''id'']) \<and>
        data_posts (new_requests s s2) = [] \<and>
        (\<exists>token. api_requests (new_requests s s2) = [with_bearer token ?listing])"
  proof (intro allI impI)
    fix s0 response1 s1 created response2 s2 pre post listed
    assume a: "data_request env ?listing s0 = (Inr response1, s1) \<and>
      js_path response1 [''data''] = JArr (pre @ post) \<and>
      getOrCreateFolder env projectId parentFolderId folderName s0 = (Inr created, s) \<and>
      data_posts (new_requests s0 s) \<noteq> [] \<and>
      data_request env ?listing s = (Inr response2, s2) \<and>
      js_path response2 [''data''] = JArr (pre @ listed # post) \<and>
      (\<forall>entry \<in> set (pre @ listed # post). entry \<noteq> JUndefined \<and> entry \<noteq> JNull) \<and>
      ?named listed \<and>
      js_path listed [''id''] = js_path created [''id'']"
    then have present: "\<forall>entry \<in> set (pre @ post). entry \<noteq> JUndefined \<and> entry \<noteq> JNull"
      by simp
    have unnamed: "\<not> ?named entry" if entry: "entry \<in> set (pre @ post)" for entry
    proof
      assume "?named entry"
      with entry have "\<exists>x \<in> set (pre @ post). ?named x" by blast
      then obtain before x rest where split: "pre @ post = before @ x # rest"
        and x: "?named x" and before: "\<forall>y \<in> set before. \<not> ?named y"
        unfolding split_list_first_prop_iff by blast
      from a have "data_request env ?listing s0 = (Inr response1, s1)"
        and "js_path response1 [''data''] = JArr (before @ x # rest)"
        by (simp_all add: split)
      moreover from present have
        "\<forall>entry \<in> set (before @ x # rest). entry \<noteq> JUndefined \<and> entry \<noteq> JNull"
        by (simp only: split)
      ultimately have "getOrCreateFolder env projectId parentFolderId folderName s0 = (Inr x, s1) \<and>
          (\<exists>token. api_requests (new_requests s0 s1) = [with_bearer token ?listing])"
        using x before by (rule found)
      with a have "\<exists>token. api_requests (new_requests s0 s) = [with_bearer token ?listing]"
        by simp
      then have "data_posts (new_requests s0 s) = []"
        by (auto intro!: data_posts_get simp: folder_contents_request_def)
      with a show False by simp
    qed
    then have "\<forall>entry \<in> set pre. \<not> ?named entry" by simp
    with a have "getOrCreateFolder env projectId parentFolderId folderName s = (Inr listed, s2) \<and>
          (\<exists>token. api_requests (new_requests s s2) = [with_bearer token ?listing])"
      by (intro found [of s response2 s2 pre listed post]) simp_all
    moreover from this have "data_posts (new_requests s s2) = []"
      by (auto intro!: data_posts_get simp: folder_contents_request_def)
    ultimately
    show "(\<exists>returned.
           getOrCreateFolder env projectId parentFolderId folderName s = (Inr returned, s2) \<and>
           js_path returned [''id''] = js_path created [''id'']) \<and>
        data_posts (new_requests s s2) = [] \<and>
        (\<exists>token. api_requests (new_requests s s2) = [with_bearer token ?listing])"
      using a by simp
  qed
  from part1 part2 part3 show ?thesis
    unfolding Let_def by (intro conjI)
qed

theorem get_or_create_folder_witness:
  "fst (getOrCreateFolder folder_env ''b.proj'' ''urn:folder-1'' ''Drawings'' (fresh_state []))
     = Inr (JObj [(''type'', JStr ''folders''), (''id'', JStr ''urn:folder:Drawings''),
                  (''attributes'', JObj [(''name'', JStr ''Drawings''),
                                         (''displayName'', JStr ''Drawings'')])]) \<and>
   map request_line (api_requests (trace
     (snd (getOrCreateFolder folder_env ''b.proj'' ''urn:folder-1'' ''Drawings''
             (fresh_state [])))))
     = [(GET, JStr ''/data/v1/projects/b.proj/folders/urn:folder-1/contents''),
        (GET, JStr ''/data/v1/projects/b.proj/folders/urn:folder-1''),
        (POST, JStr ''/data/v1/projects/b.proj/folders'')] \<and>
   getOrCreateFolder folder_env ''b.proj'' ''urn:folder-1'' ''Drawings''
     (snd (getOrCreateFolder folder_env ''b.proj'' ''urn:folder-1'' ''Drawings''
             (fresh_state [])))
     = (Inr (JObj [(''type'', JStr ''folders''), (''id'', JStr ''urn:folder:Drawings''),
                   (''attributes'', JObj [(''name'', JStr ''Drawings''),
                                          (''displayName'', JStr ''Drawings'')])]),
        snd (data_request folder_env (folder_contents_request ''b.proj'' ''urn:folder-1'')
               (snd (getOrCreateFolder folder_env ''b.proj'' ''urn:folder-1'' ''Drawings''
                       (fresh_state []))))) \<and>
   data_posts (new_requests
     (snd (getOrCreateFolder folder_env ''b.proj'' ''urn:folder-1'' ''Drawings''
             (fresh_state [])))
     (snd (data_request folder_env (folder_contents_request ''b.proj'' ''urn:folder-1'')
             (snd (getOrCreateFolder folder_env ''b.proj'' ''urn:folder-1'' ''Drawings''
                     (fresh_state [])))))) = [] \<and>
   map request_line (api_requests (new_requests
     (snd (getOrCreateFolder folder_env ''b.proj'' ''urn:folder-1'' ''Drawings''
             (fresh_state [])))
     (snd (data_request folder_env (folder_contents_request ''b.proj'' ''urn:folder-1'')
             (snd (getOrCreateFolder folder_env ''b.proj'' ''urn:folder-1'' ''Drawings''
                     (fresh_state [])))))))
     = [(GET, JStr ''/data/v1/projects/b.proj/folders/urn:folder-1/contents'')]"
proof -
  let ?folder = "JObj [(''type'', JStr ''folders''), (''id'', JStr ''urn:folder:Drawings''),
                   (''attributes'', JObj [(''name'', JStr ''Drawings''),
                                          (''displayName'', JStr ''Drawings'')])]"
  let ?listing = "folder_contents_request ''b.proj'' ''urn:folder-1''"
  let ?s = "snd (getOrCreateFolder folder_env ''b.proj'' ''urn:folder-1'' ''Drawings''
               (fresh_state []))"
  let ?s2 = "snd (data_request folder_env ?listing ?s)"
  have second: "data_request folder_env ?listing ?s
        = (Inr (JObj [(''data'', JArr [?folder])]), ?s2) \<and>
      js_path (JObj [(''data'', JArr [?folder])]) [''data''] = JArr ([] @ ?folder # []) \<and>
      (\<forall>entry \<in> set ([] @ ?folder # []). entry \<noteq> JUndefined \<and> entry \<noteq> JNull)"
    using demo_second_response by simp
  have named: "js_path ?folder [''type''] = JStr ''folders'' \<and>
      (js_path ?folder [''attributes'', ''name''] = JStr ''Drawings'' \<or>
       js_path ?folder [''attributes'', ''displayName''] = JStr ''Drawings'')"
    by simp
  have twice: "data_request folder_env ?listing (fresh_state [])
        = (Inr (JObj [(''data'', JArr [])]),
           snd (data_request folder_env ?listing (fresh_state []))) \<and>
      js_path (JObj [(''data'', JArr [])]) [''data''] = JArr ([] @ []) \<and>
      getOrCreateFolder folder_env ''b.proj'' ''urn:folder-1'' ''Drawings'' (fresh_state [])
        = (Inr ?folder, ?s) \<and>
      data_posts (new_requests (fresh_state []) ?s) \<noteq> [] \<and>
      data_request folder_env ?listing ?s
        = (Inr (JObj [(''data'', JArr [?folder])]), ?s2) \<and>
      js_path (JObj [(''data'', JArr [?folder])]) [''data''] = JArr ([] @ ?folder # []) \<and>
      (\<forall>entry \<in> set ([] @ ?folder # []). entry \<noteq> JUndefined \<and> entry \<noteq> JNull) \<and>
      (js_path ?folder [''type''] = JStr ''folders'' \<and>
       (js_path ?folder [''attributes'', ''name''] = JStr ''Drawings'' \<or>
        js_path ?folder [''attributes'', ''displayName''] = JStr ''Drawings'')) \<and>
      js_path ?folder [''id''] = js_path ?folder [''id'']"
    using demo_first_listing demo_first_call demo_first_call_creates second named
    by simp
  note claim = get_or_create_folder
    [where env = folder_env and projectId = "''b.proj''"
       and parentFolderId = "''urn:folder-1''" and folderName = "''Drawings''"
       and s = ?s, unfolded Let_def]
  note listed = claim [THEN conjunct2, THEN conjunct1, rule_format, OF second]
  have returned: "getOrCreateFolder folder_env ''b.proj'' ''urn:folder-1'' ''Drawings'' ?s
      = (Inr ?folder, ?s2)"
    by (rule listed [THEN conjunct2, THEN conjunct1, rule_format, of "[]" ?folder "[]"])
       simp
  note again = claim [THEN conjunct2, THEN conjunct2, rule_format, OF twice]
  from again obtain token
    where "api_requests (new_requests ?s ?s2) = [with_bearer token ?listing]"
    by blast
  then have lines: "map request_line (api_requests (new_requests ?s ?s2))
      = [(GET, JStr ''/data/v1/projects/b.proj/folders/urn:folder-1/contents'')]"
    by (simp add: request_line_def folder_contents_request_def)
  from arg_cong [where f = fst, OF demo_first_call] demo_first_call_requests
       returned again [THEN conjunct2, THEN conjunct1] lines
  show ?thesis by simp
qed

end
